theory Spec2Isabelle
  imports Complex_Main "HOL-Library.Sublist" "HOL-Library.Log_Nat"
begin

section \<open>Strings and thrown values\<close>

text \<open>
  A JavaScript string is a list of code units; every code unit the server writes is below
  256, so \<open>char\<close> holds it (the degree sign is \<open>0xB0\<close>, the superscript two \<open>0xB2\<close>).
  \<open>String.prototype.includes\<close> is the contiguous-substring test.
\<close>

definition str_includes :: "string \<Rightarrow> string \<Rightarrow> bool" where
  "str_includes s t = sublist t s"

text \<open>
  The decimal digits of an integer, as a template literal prints an integral number of
  at most \<open>2^53\<close> in size.
\<close>

fun show_nat :: "nat \<Rightarrow> string" where
  "show_nat n =
     (if n < 10 then [''0123456789'' ! n]
      else show_nat (n div 10) @ [''0123456789'' ! (n mod 10)])"

declare show_nat.simps [simp del]

definition show_int :: "int \<Rightarrow> string" where
  "show_int i = (if i < 0 then ''-'' @ show_nat (nat (- i)) else show_nat (nat i))"

text \<open>
  What a \<open>throw\<close> carries: an \<open>Error\<close> object (or an object of a subclass) with its
  message, or a value that is not an \<open>Error\<close>.
\<close>

datatype thrown = JsError string | NonError string

section \<open>The API client (src/utils/api-client.ts)\<close>

text \<open>
  \<open>fetch\<close> belongs to the runtime: it is a parameter of the model. It rejects with a thrown
  value, or resolves to a response with a status, a status text and the outcome of
  \<open>response.json()\<close> (the parsed body, or what the parser throws). \<open>response.ok\<close> is
  the Fetch standard's getter: the status lies in 200..299.
\<close>

record 'a response =
  status :: nat
  statusText :: string
  json :: "thrown + 'a"

definition ok :: "'a response \<Rightarrow> bool" where
  "ok r = (200 \<le> status r \<and> status r \<le> 299)"

datatype 'a fetch_outcome = Rejected thrown | Resolved "'a response"

type_synonym 'a fetch = "string \<Rightarrow> (string \<times> string) list \<Rightarrow> 'a fetch_outcome"

definition WEATHERXM_API_BASE :: string where
  "WEATHERXM_API_BASE = ''https://pro.weatherxm.com/api/v1''"

definition USER_AGENT :: string where
  "USER_AGENT = ''WeatherXM-MCP-Server/1.0.0''"

text \<open>The body of the \<open>try\<close> block: the request and the status checks.\<close>

definition request_try :: "'a fetch \<Rightarrow> string \<Rightarrow> string \<Rightarrow> thrown + 'a" where
  "request_try fetch endpoint apiKey =
     (case fetch (WEATHERXM_API_BASE @ endpoint)
             [(''User-Agent'', USER_AGENT), (''Accept'', ''application/json''),
              (''X-API-KEY'', apiKey)] of
        Rejected e \<Rightarrow> Inl e
      | Resolved r \<Rightarrow>
          if \<not> ok r then
            if status r = 401 then
              Inl (JsError ''Invalid API key. Please check your WeatherXM API key.'')
            else if status r = 404 then
              Inl (JsError ''Station not found or no data available'')
            else if status r = 429 then
              Inl (JsError ''API rate limit exceeded. Please try again later.'')
            else if status r = 500 then
              Inl (JsError ''WeatherXM service temporarily unavailable'')
            else
              Inl (JsError (''WeatherXM API error: '' @ show_nat (status r) @ '' '' @ statusText r))
          else json r)"

text \<open>
  The \<open>catch\<close> block: it receives everything thrown inside the \<open>try\<close> block, the errors
  of the status checks included, and throws again.
\<close>

definition request_catch :: "thrown \<Rightarrow> thrown" where
  "request_catch error =
     (case error of
        JsError message \<Rightarrow>
          if str_includes message ''fetch'' then
            JsError ''Unable to connect to WeatherXM service. Please check your internet connection.''
          else error
      | NonError v \<Rightarrow> error)"

definition weatherxmApiRequest :: "'a fetch \<Rightarrow> string \<Rightarrow> string \<Rightarrow> thrown + 'a" where
  "weatherxmApiRequest fetch endpoint apiKey =
     (case request_try fetch endpoint apiKey of
        Inl e \<Rightarrow> Inl (request_catch e)
      | Inr v \<Rightarrow> Inr v)"

section \<open>The runtime's clock, dates and number printing\<close>

text \<open>
  What the handlers and formatters ask of the JavaScript runtime:
  \<^item> \<open>now\<close>: \<open>new Date().getTime()\<close>, in milliseconds;
  \<^item> \<open>date_parse\<close>: \<open>new Date(s).getTime()\<close>, \<open>None\<close> for an invalid date (\<open>NaN\<close>);
  \<^item> \<open>locale_string\<close>: \<open>toLocaleString("en-US", ...)\<close> of the date with that time value;
  \<^item> \<open>timezone_offset\<close>: \<open>getTimezoneOffset()\<close> of that date, in minutes;
  \<^item> \<open>number_repr\<close>: \<open>Number::toString\<close> on a number that is not an integer of at
    most \<open>2^53\<close> in size;
  \<^item> \<open>encodeURIComponent\<close>, which throws a \<open>URIError\<close> on a lone surrogate.
\<close>

record js_env =
  now :: int
  date_parse :: "string \<Rightarrow> int option"
  locale_string :: "int option \<Rightarrow> string"
  timezone_offset :: "int option \<Rightarrow> int option"
  number_repr :: "rat \<Rightarrow> string"
  encodeURIComponent :: "string \<Rightarrow> thrown + string"

section \<open>Numbers\<close>

text \<open>
  A JavaScript number is an IEEE 754 double. The model covers the finite ones: a number
  is the rational it denotes, comparisons are those of the rationals, and every
  arithmetic operation rounds its exact result to the nearest double, ties to the even
  significand (\<open>fl\<close>: 53 bits, least exponent \<open>-1022\<close>, so subnormals are included).
  \<open>NaN\<close>, the infinities, the sign of zero and the overflow of a result beyond
  \<open>2^1024\<close> are outside the model, except where a definition below says what is
  printed for them.
\<close>

type_synonym number = rat

definition ilog2 :: "rat \<Rightarrow> int" where
  "ilog2 x =
     (case quotient_of x of (p, q) \<Rightarrow>
        let e = bitlen p - bitlen q in if 2 powi e \<le> x then e else e - 1)"

definition round_half_even :: "rat \<Rightarrow> int" where
  "round_half_even q =
     (let f = \<lfloor>q\<rfloor>; r = q - of_int f
      in if r < 1 / 2 then f else if 1 / 2 < r then f + 1 else if even f then f else f + 1)"

definition fl :: "rat \<Rightarrow> number" where
  "fl x =
     (if x = 0 then 0
      else let e = max (ilog2 \<bar>x\<bar>) (- 1022); u = 2 powi (e - 52)
           in sgn x * of_int (round_half_even (\<bar>x\<bar> / u)) * u)"

definition fadd :: "number \<Rightarrow> number \<Rightarrow> number" where
  "fadd a b = fl (a + b)"

definition fmul :: "number \<Rightarrow> number \<Rightarrow> number" where
  "fmul a b = fl (a * b)"

text \<open>Division, for a divisor other than zero.\<close>

definition fdiv :: "number \<Rightarrow> number \<Rightarrow> number" where
  "fdiv a b = fl (a / b)"

text \<open>
  \<open>Math.round\<close>: the nearest integer, a tie going up. \<open>%\<close> on integers: the remainder
  has the sign of the dividend.
\<close>

definition Math_round :: "number \<Rightarrow> int" where
  "Math_round x = \<lfloor>x + 1 / 2\<rfloor>"

definition js_rem :: "int \<Rightarrow> int \<Rightarrow> int" where
  "js_rem a b = sgn a * (\<bar>a\<bar> mod \<bar>b\<bar>)"

text \<open>
  \<open>Number.prototype.toFixed\<close> (ECMAScript 21.1.3.3) on a finite number: the sign, then
  for a magnitude below \<open>10^21\<close> the integer \<open>n\<close> with \<open>n / 10^f\<close> nearest to it (the
  larger one of two), padded with zeros to more than \<open>f\<close> digits and with a point before the
  last \<open>f\<close> digits. At \<open>10^21\<close> and above the runtime's \<open>Number::toString\<close> takes over.
\<close>

definition toFixed :: "js_env \<Rightarrow> nat \<Rightarrow> number \<Rightarrow> string" where
  "toFixed env f x0 =
     (let s = (if x0 < 0 then ''-'' else []); x = \<bar>x0\<bar>
      in if 10 ^ 21 \<le> x then s @ number_repr env x
         else
           let n = \<lfloor>x * 10 ^ f + 1 / 2\<rfloor>;
               m = show_nat (nat n);
               k = length m;
               m = (if k \<le> f then replicate (f + 1 - k) CHR ''0'' @ m else m);
               k = length m
           in s @ (if f = 0 then m else take (k - f) m @ ''.'' @ drop (k - f) m))"

text \<open>
  A finite number inside a template literal (\<open>Number::toString\<close>). The digits printed
  are the shortest that read back as the same double. For an integer of at most \<open>2^53\<close>
  in size these are all its digits, since every integer of that size is a double of its
  own. Above that, fewer digits can do and zeros fill the rest (\<open>2^60\<close> prints as
  \<open>1152921504606847000\<close>); this and the digits of a number with a fraction are left to
  the runtime.
\<close>

definition number_to_string :: "js_env \<Rightarrow> number \<Rightarrow> string" where
  "number_to_string env x =
     (if x = of_int \<lfloor>x\<rfloor> \<and> \<bar>x\<bar> \<le> 2 ^ 53 then show_int \<lfloor>x\<rfloor> else number_repr env x)"

section \<open>Formatting helpers\<close>

text \<open>
  \<open>formatTimeAgo\<close>. Time values are integral, so the difference is an integer and
  \<open>Math.floor(diffMs / 60000)\<close> is the floor division (the quotient of two time values
  of this millennium is far below the size at which the rounding of the division could
  reach the next integer). An invalid date makes every number \<open>NaN\<close>: both comparisons
  are false, and so is \<open>minutes === 0\<close>.
\<close>

definition formatTimeAgo :: "js_env \<Rightarrow> string \<Rightarrow> string" where
  "formatTimeAgo env timestamp =
     (case date_parse env timestamp of
        None \<Rightarrow> ''NaNh NaNm ago''
      | Some observationDate \<Rightarrow>
          let diffMs = now env - observationDate;
              diffMinutes = diffMs div (1000 * 60)
          in if diffMinutes < 1 then ''just now''
             else if diffMinutes < 60 then show_int diffMinutes @ ''m ago''
             else
               let hours = diffMinutes div 60;
                   minutes = diffMinutes mod 60
               in if minutes = 0 then show_int hours @ ''h ago''
                  else show_int hours @ ''h '' @ show_int minutes @ ''m ago'')"

text \<open>The unit conversions. A decimal literal denotes the double nearest to it.\<close>

definition formatTemperature :: "js_env \<Rightarrow> number \<Rightarrow> string" where
  "formatTemperature env tempC =
     (let tempF = fadd (fdiv (fmul tempC 9) 5) 32
      in toFixed env 1 tempF @ [CHR 0xB0] @ ''F ('' @ toFixed env 1 tempC @ [CHR 0xB0] @ ''C)'')"

definition formatWindSpeed :: "js_env \<Rightarrow> number \<Rightarrow> string" where
  "formatWindSpeed env windSpeedMs =
     (let windMph = toFixed env 1 (fmul windSpeedMs (fl (2237 / 1000)))
      in windMph @ '' mph'')"

definition formatPressure :: "js_env \<Rightarrow> number \<Rightarrow> string" where
  "formatPressure env pressureHpa =
     (let pressureInHg = toFixed env 2 (fmul pressureHpa (fl (2953 / 100000)))
      in pressureInHg @ '' inHg'')"

definition formatPrecipitation :: "js_env \<Rightarrow> number \<Rightarrow> string" where
  "formatPrecipitation env mm =
     (let inches = toFixed env 2 (fdiv mm (fl (254 / 10)))
      in inches @ '' in'')"

text \<open>
  \<open>getWindDirection\<close>. Reading the array outside 0..15 gives \<open>undefined\<close>, here \<open>None\<close>.
\<close>

definition directions :: "string list" where
  "directions = [''N'', ''NNE'', ''NE'', ''ENE'', ''E'', ''ESE'', ''SE'', ''SSE'',
                 ''S'', ''SSW'', ''SW'', ''WSW'', ''W'', ''WNW'', ''NW'', ''NNW'']"

definition getWindDirection :: "number \<Rightarrow> string option" where
  "getWindDirection degrees =
     (let index = js_rem (Math_round (fdiv degrees (45 / 2))) 16
      in if 0 \<le> index \<and> index < 16 then Some (directions ! nat index) else None)"

definition formatLocalTime :: "js_env \<Rightarrow> string \<Rightarrow> string" where
  "formatLocalTime env timestamp = locale_string env (date_parse env timestamp)"

text \<open>
  \<open>getWeatherIconDescription\<close>. \<open>iconMap\<close> is an object literal, so \<open>iconMap[icon]\<close>
  finds the eleven own keys and, for any other name, what \<open>Object.prototype\<close> has under
  it: eleven functions and the accessor \<open>__proto__\<close>, which gives \<open>Object.prototype\<close>
  itself. All of these are truthy, so they are returned in place of \<open>Unknown\<close>. Every
  caller puts the result into a template literal; the model gives the text printed
  there, which for a built-in function is \<open>function\<close>, its name and \<open>() { [native code] }\<close>
  (V8's wording) and for \<open>Object.prototype\<close> is \<open>[object Object]\<close>.
\<close>

definition iconMap :: "(string \<times> string) list" where
  "iconMap =
     [(''clear-day'', ''Clear''), (''clear-night'', ''Clear''),
      (''partly-cloudy-day'', ''Partly Cloudy''), (''partly-cloudy-night'', ''Partly Cloudy''),
      (''cloudy'', ''Cloudy''), (''fog'', ''Foggy''), (''rain'', ''Rainy''),
      (''sleet'', ''Sleet''), (''snow'', ''Snowy''), (''wind'', ''Windy''),
      (''thunderstorm'', ''Thunderstorm'')]"

text \<open>The functions of \<open>Object.prototype\<close>: the property and the name of the function.\<close>

definition Object_prototype_functions :: "(string \<times> string) list" where
  "Object_prototype_functions =
     [(''constructor'', ''Object''), (''__defineGetter__'', ''__defineGetter__''),
      (''__defineSetter__'', ''__defineSetter__''), (''hasOwnProperty'', ''hasOwnProperty''),
      (''__lookupGetter__'', ''__lookupGetter__''), (''__lookupSetter__'', ''__lookupSetter__''),
      (''isPrototypeOf'', ''isPrototypeOf''),
      (''propertyIsEnumerable'', ''propertyIsEnumerable''), (''toString'', ''toString''),
      (''valueOf'', ''valueOf''), (''toLocaleString'', ''toLocaleString'')]"

definition getWeatherIconDescription :: "string \<Rightarrow> string" where
  "getWeatherIconDescription icon =
     (case map_of iconMap icon of
        Some d \<Rightarrow> d
      | None \<Rightarrow>
          (case map_of Object_prototype_functions icon of
             Some f \<Rightarrow> ''function '' @ f @ ''() { [native code] }''
           | None \<Rightarrow> if icon = ''__proto__'' then ''[object Object]'' else ''Unknown''))"

section \<open>The upstream data (schemas)\<close>

record Location =
  lat :: number
  lon :: number
  elevation :: number

record Observation =
  timestamp :: string
  temperature :: number
  feels_like :: number
  dew_point :: number
  precipitation_rate :: number
  precipitation_accumulated :: number
  humidity :: number
  wind_speed :: number
  wind_gust :: number
  wind_direction :: number
  uv_index :: number
  pressure :: number
  solar_irradiance :: number
  icon :: string

record DataQuality =
  score :: number

record LocationQuality =
  score :: number
  reason :: string

record Health =
  timestamp :: string
  data_quality :: DataQuality
  location_quality :: LocationQuality

record Station =
  id :: string
  name :: string
  cellIndex :: string
  location :: Location
  createdAt :: string

record Cell =
  index :: string
  center :: Location
  station_count :: number

record HourlyForecastData =
  timestamp :: string
  precipitation :: number
  precipitation_probability :: number
  temperature :: number
  icon :: string
  wind_speed :: number
  wind_direction :: number
  humidity :: number
  pressure :: number
  uv_index :: number
  feels_like :: number

record DailyForecast =
  temperature_max :: number
  temperature_min :: number
  precipitation_probability :: number
  precipitation_intensity :: number
  humidity :: number
  uv_index :: number
  pressure :: number
  icon :: string
  precipitation_type :: string
  wind_speed :: number
  wind_direction :: number
  timestamp :: string

record HistoricalDataPoint =
  timestamp :: string
  temperature :: number
  feels_like :: number
  dew_point :: number
  precipitation_rate :: number
  precipitation_accumulated :: number
  humidity :: number
  wind_speed :: number
  wind_gust :: number
  wind_direction :: number
  uv_index :: number
  pressure :: number
  solar_irradiance :: number
  icon :: string

record WeatherAlert =
  id :: string
  type :: string
  severity :: string
  title :: string
  description :: string
  effective :: string
  expires :: string
  areas :: "string list"

text \<open>
  The responses are not validated. The handlers guard every array they iterate with
  \<open>|| []\<close>: in the records of this section these properties may be absent, that is
  missing (\<open>undefined\<close>) or \<open>null\<close>, and every other property has the type its interface
  declares. A body in which any other property is absent makes a handler throw or print
  \<open>undefined\<close>, \<open>null\<close> or \<open>NaN\<close>; the handlers on such bodies are the subject of a
  section of their own below.
\<close>

datatype 'a field = Missing | Null | Present 'a

definition or_empty :: "'a list field \<Rightarrow> 'a list" where
  "or_empty v = (case v of Present xs \<Rightarrow> xs | Missing \<Rightarrow> [] | Null \<Rightarrow> [])"

record WeatherXMLatestResponse =
  observation :: Observation
  health :: Health
  location :: Location

record WeatherXMStationsResponse =
  stations :: "Station list field"

record WeatherXMHourlyForecastResponse =
  forecast :: "HourlyForecastData list field"

record WeatherXMDailyForecastResponse =
  forecast :: "DailyForecast list field"

record WeatherXMHistoricalResponse =
  data :: "HistoricalDataPoint list field"

record WeatherXMAlertsResponse =
  alerts :: "WeatherAlert list field"

record WeatherXMCellsResponse =
  cells :: "Cell list field"

record SearchResult =
  stations :: "Station list field"
  total :: number
  page :: number
  limit :: number

record WeatherXMSearchResponse =
  results :: SearchResult

section \<open>The tool handlers\<close>

text \<open>
  A handler returns one text content item. Its \<open>try\<close> block spans the whole body; the
  \<open>catch\<close> block, the same in all ten handlers, turns whatever was thrown into a text.
  Each \<open>markdown += ...\<close> of a handler is one element of its list of lines, and the
  text returned is their concatenation. In this section the body of the response has the
  shape of its interface, so that only the request (and the encoding of the query) can
  throw; the section after this one gives the handlers without that assumption.
\<close>

datatype content = TextContent string

record config =
  apiKey :: string

text \<open>\<open>e instanceof Error ? e.message : "Unknown error"\<close>\<close>

definition error_message :: "thrown \<Rightarrow> string" where
  "error_message e = (case e of JsError message \<Rightarrow> message | NonError v \<Rightarrow> ''Unknown error'')"

definition catch_as_text :: "thrown \<Rightarrow> content list" where
  "catch_as_text e = [TextContent (''Error: '' @ error_message e)]"

definition with_default :: "'a \<Rightarrow> 'a option \<Rightarrow> 'a" where
  "with_default d v = (case v of None \<Rightarrow> d | Some x \<Rightarrow> x)"

definition or_undefined :: "string option \<Rightarrow> string" where
  "or_undefined v = (case v of None \<Rightarrow> ''undefined'' | Some s \<Rightarrow> s)"

definition join :: "string \<Rightarrow> string list \<Rightarrow> string" where
  "join sep xs = concat (case xs of [] \<Rightarrow> [] | y # ys \<Rightarrow> y # map (\<lambda>z. sep @ z) ys)"

subsection \<open>get_current_weather\<close>

definition current_weather_lines :: "js_env \<Rightarrow> string \<Rightarrow> WeatherXMLatestResponse \<Rightarrow> string list" where
  "current_weather_lines env station_id d =
     (let obs = observation d; loc = WeatherXMLatestResponse.location d; h = health d;
          localObsTime = formatLocalTime env (Observation.timestamp obs);
          timeAgo = formatTimeAgo env (Observation.timestamp obs);
          windDirection = getWindDirection (Observation.wind_direction obs)
      in [''# Current Weather\<newline>\<newline>'',
          ''**Station ID:** '' @ station_id @ ''\<newline>'',
          ''**Location:** '' @ toFixed env 4 (lat loc) @ '', '' @ toFixed env 4 (lon loc) @ ''\<newline>'',
          ''**Elevation:** '' @ number_to_string env (elevation loc) @ ''m\<newline>\<newline>'',
          ''**Observed:** '' @ localObsTime @ '' - '' @ timeAgo @ ''\<newline>\<newline>'',
          ''**Temperature:** '' @ formatTemperature env (Observation.temperature obs) @ ''\<newline>'',
          ''**Feels Like:** '' @ formatTemperature env (Observation.feels_like obs) @ ''\<newline>'',
          ''**Conditions:** '' @ getWeatherIconDescription (Observation.icon obs) @ ''\<newline>'',
          ''**Humidity:** '' @ toFixed env 0 (Observation.humidity obs) @ ''%\<newline>'',
          ''**Dew Point:** '' @ formatTemperature env (Observation.dew_point obs) @ ''\<newline>'',
          ''**Wind:** '' @ formatWindSpeed env (Observation.wind_speed obs) @ '' from ''
             @ or_undefined windDirection @ '' (''
             @ number_to_string env (Observation.wind_direction obs) @ [CHR 0xB0] @ '')\<newline>'']
         @ (if Observation.wind_gust obs > Observation.wind_speed obs
            then [''**Wind Gust:** '' @ formatWindSpeed env (Observation.wind_gust obs) @ ''\<newline>'']
            else [])
         @ [''**Pressure:** '' @ formatPressure env (Observation.pressure obs) @ ''\<newline>'']
         @ (if Observation.uv_index obs > 0
            then [''**UV Index:** '' @ toFixed env 1 (Observation.uv_index obs) @ ''\<newline>'']
            else [])
         @ (if Observation.solar_irradiance obs > 0
            then [''**Solar Irradiance:** '' @ toFixed env 0 (Observation.solar_irradiance obs)
                    @ '' W/m'' @ [CHR 0xB2] @ ''\<newline>'']
            else [])
         @ (if Observation.precipitation_rate obs > 0
            then [''**Precipitation Rate:** ''
                    @ formatPrecipitation env (Observation.precipitation_rate obs) @ ''/hr\<newline>'']
            else [])
         @ (if Observation.precipitation_accumulated obs > 0
            then [''**Precipitation Accumulated:** ''
                    @ formatPrecipitation env (Observation.precipitation_accumulated obs) @ ''\<newline>'']
            else [])
         @ [''\<newline>**Data Quality Score:** ''
              @ toFixed env 0 (fmul (DataQuality.score (data_quality h)) 100) @ ''%\<newline>''])"

definition get_current_weather ::
  "config \<Rightarrow> js_env \<Rightarrow> WeatherXMLatestResponse fetch \<Rightarrow> string \<Rightarrow> content list" where
  "get_current_weather cfg env fetch station_id =
     (case weatherxmApiRequest fetch (''/stations/'' @ station_id @ ''/latest'') (apiKey cfg) of
        Inl e \<Rightarrow> catch_as_text e
      | Inr d \<Rightarrow> [TextContent (concat (current_weather_lines env station_id d))])"

subsection \<open>get_hourly_forecast and get_daily_forecast\<close>

definition hourly_lines :: "js_env \<Rightarrow> HourlyForecastData \<Rightarrow> string list" where
  "hourly_lines env hour =
     (let localTime = formatLocalTime env (HourlyForecastData.timestamp hour);
          windDirection = getWindDirection (HourlyForecastData.wind_direction hour)
      in [''## '' @ localTime @ ''\<newline>\<newline>'',
          ''**Temperature:** '' @ formatTemperature env (HourlyForecastData.temperature hour) @ ''\<newline>'',
          ''**Feels Like:** '' @ formatTemperature env (HourlyForecastData.feels_like hour) @ ''\<newline>'',
          ''**Conditions:** '' @ getWeatherIconDescription (HourlyForecastData.icon hour) @ ''\<newline>'',
          ''**Precipitation:** '' @ formatPrecipitation env (precipitation hour) @ '' (''
             @ toFixed env 0 (fmul (HourlyForecastData.precipitation_probability hour) 100)
             @ ''% chance)\<newline>'',
          ''**Wind:** '' @ formatWindSpeed env (HourlyForecastData.wind_speed hour) @ '' from ''
             @ or_undefined windDirection @ ''\<newline>'',
          ''**Humidity:** '' @ toFixed env 0 (HourlyForecastData.humidity hour) @ ''%\<newline>'',
          ''**Pressure:** '' @ formatPressure env (HourlyForecastData.pressure hour) @ ''\<newline>'',
          ''**UV Index:** '' @ toFixed env 1 (HourlyForecastData.uv_index hour) @ ''\<newline>\<newline>'',
          ''---\<newline>\<newline>''])"

definition get_hourly_forecast ::
  "config \<Rightarrow> js_env \<Rightarrow> WeatherXMHourlyForecastResponse fetch \<Rightarrow> string \<Rightarrow> number option
     \<Rightarrow> content list" where
  "get_hourly_forecast cfg env fetch station_id hours_arg =
     (let hours = with_default 48 hours_arg
      in case weatherxmApiRequest fetch
                (''/stations/'' @ station_id @ ''/forecast/hourly?hours='' @ number_to_string env hours)
                (apiKey cfg) of
           Inl e \<Rightarrow> catch_as_text e
         | Inr d \<Rightarrow>
             let fc = or_empty (WeatherXMHourlyForecastResponse.forecast d)
             in if length fc = 0 then
                  [TextContent (''No hourly forecast available for station '' @ station_id)]
                else
                  [TextContent (concat
                     ([''# Hourly Forecast - '' @ station_id @ ''\<newline>\<newline>'',
                       ''Forecast for the next '' @ number_to_string env hours @ '' hours\<newline>\<newline>'']
                      @ concat (map (hourly_lines env) fc)))])"

definition daily_lines :: "js_env \<Rightarrow> DailyForecast \<Rightarrow> string list" where
  "daily_lines env day =
     (let localTime = formatLocalTime env (DailyForecast.timestamp day);
          windDirection = getWindDirection (DailyForecast.wind_direction day)
      in [''## '' @ localTime @ ''\<newline>\<newline>'',
          ''**High:** '' @ formatTemperature env (temperature_max day) @ ''\<newline>'',
          ''**Low:** '' @ formatTemperature env (temperature_min day) @ ''\<newline>'',
          ''**Conditions:** '' @ getWeatherIconDescription (DailyForecast.icon day) @ ''\<newline>'',
          ''**Precipitation:** ''
             @ toFixed env 0 (fmul (DailyForecast.precipitation_probability day) 100)
             @ ''% chance, '' @ precipitation_type day @ ''\<newline>'',
          ''**Wind:** '' @ formatWindSpeed env (DailyForecast.wind_speed day) @ '' from ''
             @ or_undefined windDirection @ ''\<newline>'',
          ''**Humidity:** '' @ toFixed env 0 (DailyForecast.humidity day) @ ''%\<newline>'',
          ''**Pressure:** '' @ formatPressure env (DailyForecast.pressure day) @ ''\<newline>'',
          ''**UV Index:** '' @ toFixed env 1 (DailyForecast.uv_index day) @ ''\<newline>\<newline>'',
          ''---\<newline>\<newline>''])"

definition get_daily_forecast ::
  "config \<Rightarrow> js_env \<Rightarrow> WeatherXMDailyForecastResponse fetch \<Rightarrow> string \<Rightarrow> number option
     \<Rightarrow> content list" where
  "get_daily_forecast cfg env fetch station_id days_arg =
     (let days = with_default 7 days_arg
      in case weatherxmApiRequest fetch
                (''/stations/'' @ station_id @ ''/forecast/daily?days='' @ number_to_string env days)
                (apiKey cfg) of
           Inl e \<Rightarrow> catch_as_text e
         | Inr d \<Rightarrow>
             let fc = or_empty (WeatherXMDailyForecastResponse.forecast d)
             in if length fc = 0 then
                  [TextContent (''No daily forecast available for station '' @ station_id)]
                else
                  [TextContent (concat
                     ([''# Daily Forecast - '' @ station_id @ ''\<newline>\<newline>'',
                       ''Forecast for the next '' @ number_to_string env days @ '' days\<newline>\<newline>'']
                      @ concat (map (daily_lines env) fc)))])"

subsection \<open>get_historical_weather\<close>

text \<open>
  \<open>Math.max\<close> and \<open>Math.min\<close> start from \<open>-Infinity\<close> and \<open>Infinity\<close> and keep the
  larger (smaller) number; the mean of no numbers is \<open>0 / 0\<close>. These non-finite results
  are printed by \<open>toFixed\<close> as their names.
\<close>

datatype xnumber = Fin number | PosInfinity | NegInfinity | NaN

definition Math_max :: "number list \<Rightarrow> xnumber" where
  "Math_max xs =
     foldl (\<lambda>highest n. case highest of
                             NegInfinity \<Rightarrow> Fin n
                           | Fin h \<Rightarrow> if n > h then Fin n else Fin h
                           | other \<Rightarrow> other) NegInfinity xs"

definition Math_min :: "number list \<Rightarrow> xnumber" where
  "Math_min xs =
     foldl (\<lambda>lowest n. case lowest of
                            PosInfinity \<Rightarrow> Fin n
                          | Fin l \<Rightarrow> if n < l then Fin n else Fin l
                          | other \<Rightarrow> other) PosInfinity xs"

definition formatTemperatureX :: "js_env \<Rightarrow> xnumber \<Rightarrow> string" where
  "formatTemperatureX env t =
     (case t of
        Fin c \<Rightarrow> formatTemperature env c
      | PosInfinity \<Rightarrow> ''Infinity'' @ [CHR 0xB0] @ ''F (Infinity'' @ [CHR 0xB0] @ ''C)''
      | NegInfinity \<Rightarrow> ''-Infinity'' @ [CHR 0xB0] @ ''F (-Infinity'' @ [CHR 0xB0] @ ''C)''
      | NaN \<Rightarrow> ''NaN'' @ [CHR 0xB0] @ ''F (NaN'' @ [CHR 0xB0] @ ''C)'')"

text \<open>\<open>Array.prototype.slice(start)\<close>: a negative start counts from the end.\<close>

definition slice_from :: "int \<Rightarrow> 'a list \<Rightarrow> 'a list" where
  "slice_from start xs =
     (let len = int (length xs);
          k = (if start < 0 then max (len + start) 0 else min start len)
      in drop (nat k) xs)"

definition observation_line :: "js_env \<Rightarrow> HistoricalDataPoint \<Rightarrow> string" where
  "observation_line env obs =
     (let localTime = formatLocalTime env (HistoricalDataPoint.timestamp obs)
      in ''**'' @ localTime @ '':** '' @ formatTemperature env (HistoricalDataPoint.temperature obs)
         @ '', '' @ toFixed env 0 (HistoricalDataPoint.humidity obs) @ ''% humidity, ''
         @ formatWindSpeed env (HistoricalDataPoint.wind_speed obs) @ ''\<newline>'')"

definition historical_weather_lines ::
  "js_env \<Rightarrow> string \<Rightarrow> string \<Rightarrow> string \<Rightarrow> HistoricalDataPoint list \<Rightarrow> string list" where
  "historical_weather_lines env station_id start_date end_date historicalData =
     (let temperatures = map HistoricalDataPoint.temperature historicalData;
          maxTemp = Math_max temperatures;
          minTemp = Math_min temperatures;
          avgTemp = (if length temperatures = 0 then NaN
                     else Fin (fdiv (foldl (\<lambda>a b. fadd a b) 0 temperatures)
                                    (of_nat (length temperatures))));
          precipTotal = foldl (\<lambda>sum d. fadd sum (HistoricalDataPoint.precipitation_accumulated d))
                          0 historicalData;
          recentData = slice_from (- 10) historicalData
      in [''# Historical Weather Data - '' @ station_id @ ''\<newline>\<newline>'',
          ''Period: '' @ start_date @ '' to '' @ end_date @ ''\<newline>'',
          ''Data points: '' @ show_nat (length historicalData) @ ''\<newline>\<newline>'',
          ''## Summary Statistics\<newline>\<newline>'',
          ''**Temperature Range:** '' @ formatTemperatureX env minTemp @ '' to ''
             @ formatTemperatureX env maxTemp @ ''\<newline>'',
          ''**Average Temperature:** '' @ formatTemperatureX env avgTemp @ ''\<newline>'',
          ''**Total Precipitation:** '' @ formatPrecipitation env precipTotal @ ''\<newline>\<newline>'',
          ''## Recent Observations\<newline>\<newline>'']
         @ map (observation_line env) recentData)"

definition get_historical_weather ::
  "config \<Rightarrow> js_env \<Rightarrow> WeatherXMHistoricalResponse fetch \<Rightarrow> string \<Rightarrow> string \<Rightarrow> string
     \<Rightarrow> content list" where
  "get_historical_weather cfg env fetch station_id start_date end_date =
     (case weatherxmApiRequest fetch
             (''/stations/'' @ station_id @ ''/historical?start='' @ start_date @ ''&end='' @ end_date)
             (apiKey cfg) of
        Inl e \<Rightarrow> catch_as_text e
      | Inr d \<Rightarrow>
          let historicalData = or_empty (data d)
          in if length historicalData = 0 then
               [TextContent (''No historical data available for station '' @ station_id
                  @ '' between '' @ start_date @ '' and '' @ end_date)]
             else
               [TextContent (concat
                  (historical_weather_lines env station_id start_date end_date historicalData))])"

subsection \<open>get_weather_alerts\<close>

definition alert_lines :: "js_env \<Rightarrow> WeatherAlert \<Rightarrow> string list" where
  "alert_lines env alert =
     (let effectiveTime = formatLocalTime env (effective alert);
          expiresTime = formatLocalTime env (expires alert)
      in [''## '' @ title alert @ ''\<newline>\<newline>'',
          ''**Type:** '' @ type alert @ ''\<newline>'',
          ''**Severity:** '' @ severity alert @ ''\<newline>'',
          ''**Effective:** '' @ effectiveTime @ ''\<newline>'',
          ''**Expires:** '' @ expiresTime @ ''\<newline>'',
          ''**Areas:** '' @ join '', '' (areas alert) @ ''\<newline>\<newline>'',
          description alert @ ''\<newline>\<newline>'',
          ''---\<newline>\<newline>''])"

definition get_weather_alerts ::
  "config \<Rightarrow> js_env \<Rightarrow> WeatherXMAlertsResponse fetch \<Rightarrow> number \<Rightarrow> number \<Rightarrow> content list" where
  "get_weather_alerts cfg env fetch latitude longitude =
     (case weatherxmApiRequest fetch
             (''/alerts?lat='' @ number_to_string env latitude @ ''&lon=''
                @ number_to_string env longitude)
             (apiKey cfg) of
        Inl e \<Rightarrow> catch_as_text e
      | Inr d \<Rightarrow>
          let als = or_empty (alerts d)
          in if length als = 0 then
               [TextContent (''No active weather alerts for location ''
                  @ number_to_string env latitude @ '', '' @ number_to_string env longitude)]
             else
               [TextContent (concat
                  ([''# Weather Alerts\<newline>\<newline>'',
                    ''Location: '' @ number_to_string env latitude @ '', ''
                       @ number_to_string env longitude @ ''\<newline>'',
                    ''Active alerts: '' @ show_nat (length als) @ ''\<newline>\<newline>'']
                   @ concat (map (alert_lines env) als)))])"

subsection \<open>find_weather_stations, search_weather_stations and get_weather_cells\<close>

definition found_station_lines :: "js_env \<Rightarrow> Station \<Rightarrow> string list" where
  "found_station_lines env station =
     [''## '' @ name station @ ''\<newline>\<newline>'',
      ''**Station ID:** '' @ Station.id station @ ''\<newline>'',
      ''**Name:** '' @ name station @ ''\<newline>'',
      ''**Location:** '' @ toFixed env 4 (lat (Station.location station)) @ '', ''
         @ toFixed env 4 (lon (Station.location station)) @ ''\<newline>'',
      ''**Elevation:** '' @ number_to_string env (elevation (Station.location station)) @ ''m\<newline>'',
      ''**Created:** '' @ formatLocalTime env (createdAt station) @ ''\<newline>'',
      ''**Cell Index:** '' @ cellIndex station @ ''\<newline>'',
      ''\<newline>---\<newline>\<newline>'']"

definition find_weather_stations ::
  "config \<Rightarrow> js_env \<Rightarrow> WeatherXMStationsResponse fetch \<Rightarrow> number \<Rightarrow> number \<Rightarrow> number option
     \<Rightarrow> content list" where
  "find_weather_stations cfg env fetch latitude longitude radius_arg =
     (let radius = with_default 50 radius_arg
      in case weatherxmApiRequest fetch
                (''/stations?lat='' @ number_to_string env latitude @ ''&lon=''
                   @ number_to_string env longitude @ ''&radius='' @ number_to_string env radius)
                (apiKey cfg) of
           Inl e \<Rightarrow> catch_as_text e
         | Inr d \<Rightarrow>
             let sts = or_empty (WeatherXMStationsResponse.stations d)
             in if length sts = 0 then
                  [TextContent (''# WeatherXM Stations\<newline>\<newline>No weather stations found within ''
                     @ number_to_string env radius @ ''km of '' @ number_to_string env latitude
                     @ '', '' @ number_to_string env longitude @ ''.'')]
                else
                  [TextContent (concat
                     ([''# WeatherXM Stations Near '' @ number_to_string env latitude @ '', ''
                         @ number_to_string env longitude @ ''\<newline>\<newline>'',
                       ''Found '' @ show_nat (length sts) @ '' station(s) within ''
                         @ number_to_string env radius @ ''km\<newline>\<newline>'']
                      @ concat (map (found_station_lines env) sts)))])"

definition searched_station_lines :: "js_env \<Rightarrow> Station \<Rightarrow> string list" where
  "searched_station_lines env station =
     [''## '' @ name station @ ''\<newline>\<newline>'',
      ''**Station ID:** '' @ Station.id station @ ''\<newline>'',
      ''**Location:** '' @ toFixed env 4 (lat (Station.location station)) @ '', ''
         @ toFixed env 4 (lon (Station.location station)) @ ''\<newline>'',
      ''**Elevation:** '' @ number_to_string env (elevation (Station.location station)) @ ''m\<newline>'',
      ''**Created:** '' @ formatLocalTime env (createdAt station) @ ''\<newline>'',
      ''**Cell Index:** '' @ cellIndex station @ ''\<newline>'',
      ''\<newline>---\<newline>\<newline>'']"

text \<open>
  \<open>Math.ceil(results.total / results.limit)\<close> inside the template literal; a limit of zero
  divides by zero.
\<close>

definition page_count :: "js_env \<Rightarrow> number \<Rightarrow> number \<Rightarrow> string" where
  "page_count env t l =
     (if l = 0 then (if t = 0 then ''NaN'' else if 0 < t then ''Infinity'' else ''-Infinity'')
      else number_to_string env (of_int \<lceil>fdiv t l\<rceil>))"

definition search_weather_stations ::
  "config \<Rightarrow> js_env \<Rightarrow> WeatherXMSearchResponse fetch \<Rightarrow> string \<Rightarrow> number option \<Rightarrow> number option
     \<Rightarrow> content list" where
  "search_weather_stations cfg env fetch query page_arg limit_arg =
     (let pg = with_default 1 page_arg; lim = with_default 10 limit_arg
      in case encodeURIComponent env query of
           Inl e \<Rightarrow> catch_as_text e
         | Inr q \<Rightarrow>
            (case weatherxmApiRequest fetch
                    (''/stations/search?q='' @ q @ ''&page='' @ number_to_string env pg
                       @ ''&limit='' @ number_to_string env lim)
                    (apiKey cfg) of
               Inl e \<Rightarrow> catch_as_text e
             | Inr d \<Rightarrow>
                 let res = results d; sts = or_empty (SearchResult.stations res)
                 in if length sts = 0 then
                      [TextContent (''No weather stations found matching '' @ [CHR 0x22] @ query
                         @ [CHR 0x22])]
                    else
                      [TextContent (concat
                         ([''# Weather Station Search Results\<newline>\<newline>'',
                           ''Query: '' @ [CHR 0x22] @ query @ [CHR 0x22] @ ''\<newline>'',
                           ''Found '' @ number_to_string env (total res) @ '' total stations\<newline>'',
                           ''Page '' @ number_to_string env (page res) @ '' of ''
                              @ page_count env (total res) (limit res) @ ''\<newline>\<newline>'']
                          @ concat (map (searched_station_lines env) sts)))]))"

definition cell_lines :: "js_env \<Rightarrow> Cell \<Rightarrow> string list" where
  "cell_lines env cell =
     [''## Cell '' @ index cell @ ''\<newline>\<newline>'',
      ''**Center:** '' @ toFixed env 4 (lat (center cell)) @ '', ''
         @ toFixed env 4 (lon (center cell)) @ ''\<newline>'',
      ''**Elevation:** '' @ number_to_string env (elevation (center cell)) @ ''m\<newline>'',
      ''**Stations:** '' @ number_to_string env (station_count cell) @ ''\<newline>'',
      ''\<newline>---\<newline>\<newline>'']"

definition get_weather_cells ::
  "config \<Rightarrow> js_env \<Rightarrow> WeatherXMCellsResponse fetch \<Rightarrow> number \<Rightarrow> number \<Rightarrow> number option
     \<Rightarrow> content list" where
  "get_weather_cells cfg env fetch latitude longitude radius_arg =
     (let radius = with_default 50 radius_arg
      in case weatherxmApiRequest fetch
                (''/cells?lat='' @ number_to_string env latitude @ ''&lon=''
                   @ number_to_string env longitude @ ''&radius='' @ number_to_string env radius)
                (apiKey cfg) of
           Inl e \<Rightarrow> catch_as_text e
         | Inr d \<Rightarrow>
             let cs = or_empty (cells d)
             in if length cs = 0 then
                  [TextContent (''No weather cells found within '' @ number_to_string env radius
                     @ ''km of '' @ number_to_string env latitude @ '', ''
                     @ number_to_string env longitude)]
                else
                  [TextContent (concat
                     ([''# WeatherXM Cells Near '' @ number_to_string env latitude @ '', ''
                         @ number_to_string env longitude @ ''\<newline>\<newline>'',
                       ''Found '' @ show_nat (length cs) @ '' cell(s) within ''
                         @ number_to_string env radius @ ''km\<newline>\<newline>'']
                      @ concat (map (cell_lines env) cs)))])"

subsection \<open>get_station_health and get_station_local_time\<close>

definition station_health_lines :: "js_env \<Rightarrow> string \<Rightarrow> WeatherXMLatestResponse \<Rightarrow> string list" where
  "station_health_lines env station_id d =
     (let h = health d; loc = WeatherXMLatestResponse.location d;
          healthTime = formatLocalTime env (Health.timestamp h);
          dataQualityPercent = toFixed env 0 (fmul (DataQuality.score (data_quality h)) 100);
          locationQualityPercent = toFixed env 0 (fmul (LocationQuality.score (location_quality h)) 100)
      in [''# Station Health - '' @ station_id @ ''\<newline>\<newline>'',
          ''**Location:** '' @ toFixed env 4 (lat loc) @ '', '' @ toFixed env 4 (lon loc) @ ''\<newline>'',
          ''**Elevation:** '' @ number_to_string env (elevation loc) @ ''m\<newline>\<newline>'',
          ''**Health Check:** '' @ healthTime @ ''\<newline>\<newline>'',
          ''**Data Quality Score:** '' @ dataQualityPercent @ ''%\<newline>'',
          ''**Location Quality Score:** '' @ locationQualityPercent @ ''%\<newline>'',
          ''**Location Quality Reason:** '' @ reason (location_quality h) @ ''\<newline>\<newline>'',
          (if DataQuality.score (data_quality h) \<ge> fl (8 / 10) then
             ''**Overall Assessment:** Excellent data quality\<newline>''
           else if DataQuality.score (data_quality h) \<ge> fl (6 / 10) then
             ''**Overall Assessment:** Good data quality\<newline>''
           else if DataQuality.score (data_quality h) \<ge> fl (4 / 10) then
             ''**Overall Assessment:** Fair data quality\<newline>''
           else
             ''**Overall Assessment:** Poor data quality - use with caution\<newline>'')])"

definition get_station_health ::
  "config \<Rightarrow> js_env \<Rightarrow> WeatherXMLatestResponse fetch \<Rightarrow> string \<Rightarrow> content list" where
  "get_station_health cfg env fetch station_id =
     (case weatherxmApiRequest fetch (''/stations/'' @ station_id @ ''/latest'') (apiKey cfg) of
        Inl e \<Rightarrow> catch_as_text e
      | Inr d \<Rightarrow> [TextContent (concat (station_health_lines env station_id d))])"

definition get_station_local_time ::
  "config \<Rightarrow> js_env \<Rightarrow> WeatherXMLatestResponse fetch \<Rightarrow> string \<Rightarrow> content list" where
  "get_station_local_time cfg env fetch station_id =
     (case weatherxmApiRequest fetch (''/stations/'' @ station_id @ ''/latest'') (apiKey cfg) of
        Inl e \<Rightarrow> catch_as_text e
      | Inr d \<Rightarrow>
          let loc = WeatherXMLatestResponse.location d;
              stationTimezone = timezone_offset env (date_parse env (Observation.timestamp (observation d)));
              localTime = (case stationTimezone of
                             None \<Rightarrow> None
                           | Some z \<Rightarrow> Some (now env - z * 60 * 1000));
              formattedTime = locale_string env localTime
          in [TextContent (''Current local time at station '' @ station_id @ '' (''
                @ toFixed env 4 (lat loc) @ '', '' @ toFixed env 4 (lon loc) @ ''): ''
                @ formattedTime)])"

section \<open>The tool handlers on a body that was not validated\<close>

text \<open>
  The cast \<open>as WeatherXM...Response\<close> checks nothing, and whatever \<open>response.json()\<close>
  gave is read inside the \<open>try\<close> block. The handlers above are the handlers on a body
  that has the shape of its interface. This section gives the same ten handlers on a body
  in which any property, at any depth, may be missing (\<open>undefined\<close>) or \<open>null\<close>; the body
  itself may be \<open>null\<close>, and a body that is no object has none of the properties. A
  property that is present has the type its interface declares; a present value of
  another type, and the exhaustion of the stack or of the memory, are outside the model.

  Reading a property of \<open>undefined\<close> or \<open>null\<close>, which includes calling \<open>toFixed\<close> or
  \<open>join\<close> on it, throws a \<open>TypeError\<close>; the wording of its message is V8's. Everything
  else a handler does with an absent value is a coercion and throws nothing: to a
  number, \<open>undefined\<close> is \<open>NaN\<close> and \<open>null\<close> is \<open>0\<close>; in a template literal they print
  as their names; \<open>new Date(undefined)\<close> is the invalid date and \<open>new Date(null)\<close> is
  time \<open>0\<close>.
\<close>

record RawLocation =
  loc_lat :: "number field"
  loc_lon :: "number field"
  loc_elevation :: "number field"

record RawObservation =
  obs_timestamp :: "string field"
  obs_temperature :: "number field"
  obs_feels_like :: "number field"
  obs_dew_point :: "number field"
  obs_precipitation_rate :: "number field"
  obs_precipitation_accumulated :: "number field"
  obs_humidity :: "number field"
  obs_wind_speed :: "number field"
  obs_wind_gust :: "number field"
  obs_wind_direction :: "number field"
  obs_uv_index :: "number field"
  obs_pressure :: "number field"
  obs_solar_irradiance :: "number field"
  obs_icon :: "string field"

record RawDataQuality =
  dq_score :: "number field"

record RawLocationQuality =
  lq_score :: "number field"
  lq_reason :: "string field"

record RawHealth =
  health_timestamp :: "string field"
  health_data_quality :: "RawDataQuality field"
  health_location_quality :: "RawLocationQuality field"

record RawStation =
  st_id :: "string field"
  st_name :: "string field"
  st_cellIndex :: "string field"
  st_location :: "RawLocation field"
  st_createdAt :: "string field"

record RawCell =
  cell_index :: "string field"
  cell_center :: "RawLocation field"
  cell_station_count :: "number field"

record RawHourlyForecastData =
  hour_timestamp :: "string field"
  hour_precipitation :: "number field"
  hour_precipitation_probability :: "number field"
  hour_temperature :: "number field"
  hour_icon :: "string field"
  hour_wind_speed :: "number field"
  hour_wind_direction :: "number field"
  hour_humidity :: "number field"
  hour_pressure :: "number field"
  hour_uv_index :: "number field"
  hour_feels_like :: "number field"

record RawDailyForecast =
  day_temperature_max :: "number field"
  day_temperature_min :: "number field"
  day_precipitation_probability :: "number field"
  day_precipitation_intensity :: "number field"
  day_humidity :: "number field"
  day_uv_index :: "number field"
  day_pressure :: "number field"
  day_icon :: "string field"
  day_precipitation_type :: "string field"
  day_wind_speed :: "number field"
  day_wind_direction :: "number field"
  day_timestamp :: "string field"

record RawHistoricalDataPoint =
  point_timestamp :: "string field"
  point_temperature :: "number field"
  point_feels_like :: "number field"
  point_dew_point :: "number field"
  point_precipitation_rate :: "number field"
  point_precipitation_accumulated :: "number field"
  point_humidity :: "number field"
  point_wind_speed :: "number field"
  point_wind_gust :: "number field"
  point_wind_direction :: "number field"
  point_uv_index :: "number field"
  point_pressure :: "number field"
  point_solar_irradiance :: "number field"
  point_icon :: "string field"

record RawWeatherAlert =
  alert_id :: "string field"
  alert_type :: "string field"
  alert_severity :: "string field"
  alert_title :: "string field"
  alert_description :: "string field"
  alert_effective :: "string field"
  alert_expires :: "string field"
  alert_areas :: "string field list field"

record RawLatestResponse =
  latest_observation :: "RawObservation field"
  latest_health :: "RawHealth field"
  latest_location :: "RawLocation field"

record RawStationsResponse =
  body_stations :: "RawStation field list field"

record RawHourlyForecastResponse =
  body_hourly_forecast :: "RawHourlyForecastData field list field"

record RawDailyForecastResponse =
  body_daily_forecast :: "RawDailyForecast field list field"

record RawHistoricalResponse =
  body_data :: "RawHistoricalDataPoint field list field"

record RawAlertsResponse =
  body_alerts :: "RawWeatherAlert field list field"

record RawCellsResponse =
  body_cells :: "RawCell field list field"

record RawSearchResult =
  res_stations :: "RawStation field list field"
  res_total :: "number field"
  res_page :: "number field"
  res_limit :: "number field"

record RawSearchResponse =
  body_results :: "RawSearchResult field"

subsection \<open>Reading, and the first failure\<close>

definition cannot_read :: "'a field \<Rightarrow> string \<Rightarrow> thrown" where
  "cannot_read receiver property =
     JsError (''Cannot read properties of ''
                @ (case receiver of Null \<Rightarrow> ''null'' | other \<Rightarrow> ''undefined'')
                @ '' (reading '' @ [CHR 0x27] @ property @ [CHR 0x27] @ '')'')"

text \<open>
  \<open>andThen\<close> is sequencing inside the \<open>try\<close> block: what was thrown first ends it.
  \<open>reading obj p get k\<close> is \<open>obj.p\<close> handed to the rest \<open>k\<close> of the statement.
\<close>

definition andThen :: "thrown + 'a \<Rightarrow> ('a \<Rightarrow> thrown + 'b) \<Rightarrow> thrown + 'b" where
  "andThen a k = (case a of Inl e \<Rightarrow> Inl e | Inr x \<Rightarrow> k x)"

definition reading :: "'o field \<Rightarrow> string \<Rightarrow> ('o \<Rightarrow> 'a) \<Rightarrow> ('a \<Rightarrow> thrown + 'b) \<Rightarrow> thrown + 'b" where
  "reading obj property get k =
     (case obj of Present x \<Rightarrow> k (get x) | other \<Rightarrow> Inl (cannot_read obj property))"

text \<open>
  \<open>all_of\<close>: the parts of a template literal, or the statements of a block, from left to
  right. \<open>each\<close>: \<open>Array.prototype.map\<close> with a callback that may throw.
\<close>

fun all_of :: "(thrown + string) list \<Rightarrow> thrown + string" where
  "all_of [] = Inr []"
| "all_of (p # ps) =
     (case p of
        Inl e \<Rightarrow> Inl e
      | Inr s \<Rightarrow> (case all_of ps of Inl e \<Rightarrow> Inl e | Inr t \<Rightarrow> Inr (s @ t)))"

fun each :: "('a \<Rightarrow> thrown + 'b) \<Rightarrow> 'a list \<Rightarrow> thrown + 'b list" where
  "each f [] = Inr []"
| "each f (x # xs) =
     (case f x of
        Inl e \<Rightarrow> Inl e
      | Inr y \<Rightarrow> (case each f xs of Inl e \<Rightarrow> Inl e | Inr ys \<Rightarrow> Inr (y # ys)))"

subsection \<open>Coercions and the formatters on a value that may be absent\<close>

text \<open>\<open>None\<close> is \<open>NaN\<close>.\<close>

definition toNumber :: "number field \<Rightarrow> number option" where
  "toNumber v = (case v of Missing \<Rightarrow> None | Null \<Rightarrow> Some 0 | Present x \<Rightarrow> Some x)"

definition greater :: "number option \<Rightarrow> number option \<Rightarrow> bool" where
  "greater a b = (case a of None \<Rightarrow> False | Some x \<Rightarrow> (case b of None \<Rightarrow> False | Some y \<Rightarrow> x > y))"

definition at_least :: "number option \<Rightarrow> number option \<Rightarrow> bool" where
  "at_least a b = (case a of None \<Rightarrow> False | Some x \<Rightarrow> (case b of None \<Rightarrow> False | Some y \<Rightarrow> x \<ge> y))"

definition template_number :: "js_env \<Rightarrow> number field \<Rightarrow> string" where
  "template_number env v =
     (case v of Missing \<Rightarrow> ''undefined'' | Null \<Rightarrow> ''null'' | Present x \<Rightarrow> number_to_string env x)"

definition template_string :: "string field \<Rightarrow> string" where
  "template_string v = (case v of Missing \<Rightarrow> ''undefined'' | Null \<Rightarrow> ''null'' | Present s \<Rightarrow> s)"

text \<open>\<open>v.toFixed(k)\<close> on a property, and \<open>(...).toFixed(k)\<close> on a computed number.\<close>

definition toFixed_of :: "js_env \<Rightarrow> nat \<Rightarrow> number field \<Rightarrow> thrown + string" where
  "toFixed_of env k v =
     (case v of Present x \<Rightarrow> Inr (toFixed env k x) | other \<Rightarrow> Inl (cannot_read v ''toFixed''))"

definition toFixed_computed :: "js_env \<Rightarrow> nat \<Rightarrow> number option \<Rightarrow> string" where
  "toFixed_computed env k n = (case n of None \<Rightarrow> ''NaN'' | Some x \<Rightarrow> toFixed env k x)"

definition percent_of :: "js_env \<Rightarrow> number field \<Rightarrow> string" where
  "percent_of env v = toFixed_computed env 0 (map_option (\<lambda>x. fmul x 100) (toNumber v))"

text \<open>
  \<open>formatTemperature\<close> computes \<open>tempF\<close> and prints it first, which throws nothing; then
  \<open>tempC.toFixed(1)\<close> throws when \<open>tempC\<close> is absent.
\<close>

definition formatTemperature_of :: "js_env \<Rightarrow> number field \<Rightarrow> thrown + string" where
  "formatTemperature_of env tempC =
     (case tempC of
        Present c \<Rightarrow> Inr (formatTemperature env c)
      | other \<Rightarrow> Inl (cannot_read tempC ''toFixed''))"

definition formatWindSpeed_of :: "js_env \<Rightarrow> number field \<Rightarrow> string" where
  "formatWindSpeed_of env windSpeedMs =
     (case toNumber windSpeedMs of None \<Rightarrow> ''NaN mph'' | Some x \<Rightarrow> formatWindSpeed env x)"

definition formatPressure_of :: "js_env \<Rightarrow> number field \<Rightarrow> string" where
  "formatPressure_of env pressureHpa =
     (case toNumber pressureHpa of None \<Rightarrow> ''NaN inHg'' | Some x \<Rightarrow> formatPressure env x)"

definition formatPrecipitation_computed :: "js_env \<Rightarrow> number option \<Rightarrow> string" where
  "formatPrecipitation_computed env mm =
     (case mm of None \<Rightarrow> ''NaN in'' | Some x \<Rightarrow> formatPrecipitation env x)"

definition formatPrecipitation_of :: "js_env \<Rightarrow> number field \<Rightarrow> string" where
  "formatPrecipitation_of env mm = formatPrecipitation_computed env (toNumber mm)"

text \<open>\<open>directions[NaN]\<close> is \<open>undefined\<close>.\<close>

definition getWindDirection_of :: "number field \<Rightarrow> string option" where
  "getWindDirection_of degrees =
     (case toNumber degrees of None \<Rightarrow> None | Some d \<Rightarrow> getWindDirection d)"

definition new_Date :: "js_env \<Rightarrow> string field \<Rightarrow> int option" where
  "new_Date env v =
     (case v of Missing \<Rightarrow> None | Null \<Rightarrow> Some 0 | Present s \<Rightarrow> date_parse env s)"

definition formatLocalTime_of :: "js_env \<Rightarrow> string field \<Rightarrow> string" where
  "formatLocalTime_of env ts = locale_string env (new_Date env ts)"

definition formatTimeAgo_of :: "js_env \<Rightarrow> string field \<Rightarrow> string" where
  "formatTimeAgo_of env ts =
     (case new_Date env ts of
        None \<Rightarrow> ''NaNh NaNm ago''
      | Some observationDate \<Rightarrow>
          let diffMs = now env - observationDate;
              diffMinutes = diffMs div (1000 * 60)
          in if diffMinutes < 1 then ''just now''
             else if diffMinutes < 60 then show_int diffMinutes @ ''m ago''
             else
               let hours = diffMinutes div 60;
                   minutes = diffMinutes mod 60
               in if minutes = 0 then show_int hours @ ''h ago''
                  else show_int hours @ ''h '' @ show_int minutes @ ''m ago'')"

text \<open>The property key of \<open>iconMap[icon]\<close> is the string of \<open>icon\<close>.\<close>

definition getWeatherIconDescription_of :: "string field \<Rightarrow> string" where
  "getWeatherIconDescription_of v = getWeatherIconDescription (template_string v)"

text \<open>\<open>Array.prototype.join\<close> prints an element that is \<open>undefined\<close> or \<open>null\<close> as nothing.\<close>

definition join_of :: "string \<Rightarrow> string field list field \<Rightarrow> thrown + string" where
  "join_of sep v =
     (case v of
        Present xs \<Rightarrow> Inr (join sep (map (\<lambda>x. case x of Present s \<Rightarrow> s | other \<Rightarrow> []) xs))
      | other \<Rightarrow> Inl (cannot_read v ''join''))"

text \<open>
  \<open>Math.max\<close>, \<open>Math.min\<close> and the sums of \<open>reduce\<close> over numbers of which some may be
  \<open>NaN\<close>: one \<open>NaN\<close> makes the result \<open>NaN\<close>.
\<close>

definition Math_max_of :: "number field list \<Rightarrow> xnumber" where
  "Math_max_of vs = (case those (map toNumber vs) of None \<Rightarrow> NaN | Some xs \<Rightarrow> Math_max xs)"

definition Math_min_of :: "number field list \<Rightarrow> xnumber" where
  "Math_min_of vs = (case those (map toNumber vs) of None \<Rightarrow> NaN | Some xs \<Rightarrow> Math_min xs)"

definition sum_of :: "number field list \<Rightarrow> number option" where
  "sum_of vs = map_option (foldl (\<lambda>a b. fadd a b) 0) (those (map toNumber vs))"

definition average_of :: "number field list \<Rightarrow> xnumber" where
  "average_of vs =
     (case sum_of vs of
        None \<Rightarrow> NaN
      | Some s \<Rightarrow> if length vs = 0 then NaN else Fin (fdiv s (of_nat (length vs))))"

definition page_count_of :: "js_env \<Rightarrow> number field \<Rightarrow> number field \<Rightarrow> string" where
  "page_count_of env t l =
     (case toNumber t of
        None \<Rightarrow> ''NaN''
      | Some x \<Rightarrow> (case toNumber l of None \<Rightarrow> ''NaN'' | Some y \<Rightarrow> page_count env x y))"

subsection \<open>The try blocks\<close>

text \<open>
  Each definition is the \<open>try\<close> block of one handler after the request, statement by
  statement: an element of the outer list is one \<open>markdown += ...\<close> (or a guarded one),
  and the value is the text returned or what was thrown.
\<close>

definition location_line :: "js_env \<Rightarrow> string \<Rightarrow> RawLocation field \<Rightarrow> thrown + string" where
  "location_line env label loc =
     all_of [Inr label,
             reading loc ''lat'' loc_lat (toFixed_of env 4), Inr '', '',
             reading loc ''lon'' loc_lon (toFixed_of env 4), Inr ''\<newline>'']"

definition elevation_line :: "js_env \<Rightarrow> RawLocation field \<Rightarrow> string \<Rightarrow> thrown + string" where
  "elevation_line env loc ending =
     reading loc ''elevation'' loc_elevation
       (\<lambda>v. Inr (''**Elevation:** '' @ template_number env v @ ending))"

definition current_weather_markdown ::
  "js_env \<Rightarrow> string \<Rightarrow> RawLatestResponse field \<Rightarrow> thrown + string" where
  "current_weather_markdown env station_id body =
     reading body ''observation'' latest_observation (\<lambda>obs.
     reading body ''location'' latest_location (\<lambda>location.
     reading body ''health'' latest_health (\<lambda>health.
     all_of
       [Inr ''# Current Weather\<newline>\<newline>'',
        Inr (''**Station ID:** '' @ station_id @ ''\<newline>''),
        location_line env ''**Location:** '' location,
        elevation_line env location ''m\<newline>\<newline>'',
        reading obs ''timestamp'' obs_timestamp (\<lambda>ts.
          Inr (''**Observed:** '' @ formatLocalTime_of env ts @ '' - ''
                 @ formatTimeAgo_of env ts @ ''\<newline>\<newline>'')),
        all_of [Inr ''**Temperature:** '',
                reading obs ''temperature'' obs_temperature (formatTemperature_of env),
                Inr ''\<newline>''],
        all_of [Inr ''**Feels Like:** '',
                reading obs ''feels_like'' obs_feels_like (formatTemperature_of env),
                Inr ''\<newline>''],
        reading obs ''icon'' obs_icon (\<lambda>icon.
          Inr (''**Conditions:** '' @ getWeatherIconDescription_of icon @ ''\<newline>'')),
        all_of [Inr ''**Humidity:** '',
                reading obs ''humidity'' obs_humidity (toFixed_of env 0), Inr ''%\<newline>''],
        all_of [Inr ''**Dew Point:** '',
                reading obs ''dew_point'' obs_dew_point (formatTemperature_of env),
                Inr ''\<newline>''],
        reading obs ''wind_direction'' obs_wind_direction (\<lambda>degrees.
        reading obs ''wind_speed'' obs_wind_speed (\<lambda>speed.
          Inr (''**Wind:** '' @ formatWindSpeed_of env speed @ '' from ''
                 @ or_undefined (getWindDirection_of degrees) @ '' (''
                 @ template_number env degrees @ [CHR 0xB0] @ '')\<newline>''))),
        reading obs ''wind_gust'' obs_wind_gust (\<lambda>gust.
        reading obs ''wind_speed'' obs_wind_speed (\<lambda>speed.
          Inr (if greater (toNumber gust) (toNumber speed)
               then ''**Wind Gust:** '' @ formatWindSpeed_of env gust @ ''\<newline>''
               else []))),
        reading obs ''pressure'' obs_pressure (\<lambda>pressure.
          Inr (''**Pressure:** '' @ formatPressure_of env pressure @ ''\<newline>'')),
        reading obs ''uv_index'' obs_uv_index (\<lambda>uv.
          if greater (toNumber uv) (Some 0)
          then all_of [Inr ''**UV Index:** '', toFixed_of env 1 uv, Inr ''\<newline>'']
          else Inr []),
        reading obs ''solar_irradiance'' obs_solar_irradiance (\<lambda>solar.
          if greater (toNumber solar) (Some 0)
          then all_of [Inr ''**Solar Irradiance:** '', toFixed_of env 0 solar,
                       Inr ('' W/m'' @ [CHR 0xB2] @ ''\<newline>'')]
          else Inr []),
        reading obs ''precipitation_rate'' obs_precipitation_rate (\<lambda>rate.
          Inr (if greater (toNumber rate) (Some 0)
               then ''**Precipitation Rate:** '' @ formatPrecipitation_of env rate @ ''/hr\<newline>''
               else [])),
        reading obs ''precipitation_accumulated'' obs_precipitation_accumulated (\<lambda>acc.
          Inr (if greater (toNumber acc) (Some 0)
               then ''**Precipitation Accumulated:** '' @ formatPrecipitation_of env acc
                      @ ''\<newline>''
               else [])),
        reading health ''data_quality'' health_data_quality (\<lambda>quality.
        reading quality ''score'' dq_score (\<lambda>score.
          Inr (''\<newline>**Data Quality Score:** '' @ percent_of env score @ ''%\<newline>'')))])))"

definition hourly_section :: "js_env \<Rightarrow> RawHourlyForecastData field \<Rightarrow> thrown + string" where
  "hourly_section env hour =
     all_of
       [reading hour ''timestamp'' hour_timestamp (\<lambda>ts.
          Inr (''## '' @ formatLocalTime_of env ts @ ''\<newline>\<newline>'')),
        all_of [Inr ''**Temperature:** '',
                reading hour ''temperature'' hour_temperature (formatTemperature_of env),
                Inr ''\<newline>''],
        all_of [Inr ''**Feels Like:** '',
                reading hour ''feels_like'' hour_feels_like (formatTemperature_of env),
                Inr ''\<newline>''],
        reading hour ''icon'' hour_icon (\<lambda>icon.
          Inr (''**Conditions:** '' @ getWeatherIconDescription_of icon @ ''\<newline>'')),
        reading hour ''precipitation'' hour_precipitation (\<lambda>precipitation.
        reading hour ''precipitation_probability'' hour_precipitation_probability (\<lambda>probability.
          Inr (''**Precipitation:** '' @ formatPrecipitation_of env precipitation @ '' (''
                 @ percent_of env probability @ ''% chance)\<newline>''))),
        reading hour ''wind_speed'' hour_wind_speed (\<lambda>speed.
        reading hour ''wind_direction'' hour_wind_direction (\<lambda>degrees.
          Inr (''**Wind:** '' @ formatWindSpeed_of env speed @ '' from ''
                 @ or_undefined (getWindDirection_of degrees) @ ''\<newline>''))),
        all_of [Inr ''**Humidity:** '',
                reading hour ''humidity'' hour_humidity (toFixed_of env 0), Inr ''%\<newline>''],
        reading hour ''pressure'' hour_pressure (\<lambda>pressure.
          Inr (''**Pressure:** '' @ formatPressure_of env pressure @ ''\<newline>'')),
        all_of [Inr ''**UV Index:** '',
                reading hour ''uv_index'' hour_uv_index (toFixed_of env 1),
                Inr ''\<newline>\<newline>''],
        Inr ''---\<newline>\<newline>'']"

definition hourly_forecast_markdown ::
  "js_env \<Rightarrow> string \<Rightarrow> number \<Rightarrow> RawHourlyForecastResponse field \<Rightarrow> thrown + string" where
  "hourly_forecast_markdown env station_id hours body =
     reading body ''forecast'' body_hourly_forecast (\<lambda>v.
       let forecast = or_empty v
       in if length forecast = 0 then
            Inr (''No hourly forecast available for station '' @ station_id)
          else
            all_of
              ([Inr (''# Hourly Forecast - '' @ station_id @ ''\<newline>\<newline>''),
                Inr (''Forecast for the next '' @ number_to_string env hours @ '' hours\<newline>\<newline>'')]
               @ map (hourly_section env) forecast))"

definition daily_section :: "js_env \<Rightarrow> RawDailyForecast field \<Rightarrow> thrown + string" where
  "daily_section env day =
     all_of
       [reading day ''timestamp'' day_timestamp (\<lambda>ts.
          Inr (''## '' @ formatLocalTime_of env ts @ ''\<newline>\<newline>'')),
        all_of [Inr ''**High:** '',
                reading day ''temperature_max'' day_temperature_max (formatTemperature_of env),
                Inr ''\<newline>''],
        all_of [Inr ''**Low:** '',
                reading day ''temperature_min'' day_temperature_min (formatTemperature_of env),
                Inr ''\<newline>''],
        reading day ''icon'' day_icon (\<lambda>icon.
          Inr (''**Conditions:** '' @ getWeatherIconDescription_of icon @ ''\<newline>'')),
        reading day ''precipitation_probability'' day_precipitation_probability (\<lambda>probability.
        reading day ''precipitation_type'' day_precipitation_type (\<lambda>kind.
          Inr (''**Precipitation:** '' @ percent_of env probability @ ''% chance, ''
                 @ template_string kind @ ''\<newline>''))),
        reading day ''wind_speed'' day_wind_speed (\<lambda>speed.
        reading day ''wind_direction'' day_wind_direction (\<lambda>degrees.
          Inr (''**Wind:** '' @ formatWindSpeed_of env speed @ '' from ''
                 @ or_undefined (getWindDirection_of degrees) @ ''\<newline>''))),
        all_of [Inr ''**Humidity:** '',
                reading day ''humidity'' day_humidity (toFixed_of env 0), Inr ''%\<newline>''],
        reading day ''pressure'' day_pressure (\<lambda>pressure.
          Inr (''**Pressure:** '' @ formatPressure_of env pressure @ ''\<newline>'')),
        all_of [Inr ''**UV Index:** '',
                reading day ''uv_index'' day_uv_index (toFixed_of env 1),
                Inr ''\<newline>\<newline>''],
        Inr ''---\<newline>\<newline>'']"

definition daily_forecast_markdown ::
  "js_env \<Rightarrow> string \<Rightarrow> number \<Rightarrow> RawDailyForecastResponse field \<Rightarrow> thrown + string" where
  "daily_forecast_markdown env station_id days body =
     reading body ''forecast'' body_daily_forecast (\<lambda>v.
       let forecast = or_empty v
       in if length forecast = 0 then
            Inr (''No daily forecast available for station '' @ station_id)
          else
            all_of
              ([Inr (''# Daily Forecast - '' @ station_id @ ''\<newline>\<newline>''),
                Inr (''Forecast for the next '' @ number_to_string env days @ '' days\<newline>\<newline>'')]
               @ map (daily_section env) forecast))"

definition recent_observation :: "js_env \<Rightarrow> RawHistoricalDataPoint field \<Rightarrow> thrown + string" where
  "recent_observation env obs =
     all_of
       [reading obs ''timestamp'' point_timestamp (\<lambda>ts.
          Inr (''**'' @ formatLocalTime_of env ts @ '':** '')),
        reading obs ''temperature'' point_temperature (formatTemperature_of env),
        Inr '', '',
        reading obs ''humidity'' point_humidity (toFixed_of env 0),
        Inr ''% humidity, '',
        reading obs ''wind_speed'' point_wind_speed (\<lambda>speed. Inr (formatWindSpeed_of env speed)),
        Inr ''\<newline>'']"

definition historical_weather_markdown ::
  "js_env \<Rightarrow> string \<Rightarrow> string \<Rightarrow> string \<Rightarrow> RawHistoricalResponse field \<Rightarrow> thrown + string" where
  "historical_weather_markdown env station_id start_date end_date body =
     reading body ''data'' body_data (\<lambda>v.
       let historicalData = or_empty v
       in if length historicalData = 0 then
            Inr (''No historical data available for station '' @ station_id
                   @ '' between '' @ start_date @ '' and '' @ end_date)
          else
            andThen (each (\<lambda>d. reading d ''temperature'' point_temperature Inr) historicalData)
              (\<lambda>temperatures.
            andThen (each (\<lambda>d. reading d ''precipitation_accumulated''
                                    point_precipitation_accumulated Inr) historicalData)
              (\<lambda>accumulated.
               let maxTemp = Math_max_of temperatures;
                   minTemp = Math_min_of temperatures;
                   avgTemp = average_of temperatures;
                   precipTotal = sum_of accumulated;
                   recentData = slice_from (- 10) historicalData
               in all_of
                    ([Inr (''# Historical Weather Data - '' @ station_id @ ''\<newline>\<newline>''),
                      Inr (''Period: '' @ start_date @ '' to '' @ end_date @ ''\<newline>''),
                      Inr (''Data points: '' @ show_nat (length historicalData) @ ''\<newline>\<newline>''),
                      Inr ''## Summary Statistics\<newline>\<newline>'',
                      Inr (''**Temperature Range:** '' @ formatTemperatureX env minTemp @ '' to ''
                             @ formatTemperatureX env maxTemp @ ''\<newline>''),
                      Inr (''**Average Temperature:** '' @ formatTemperatureX env avgTemp
                             @ ''\<newline>''),
                      Inr (''**Total Precipitation:** ''
                             @ formatPrecipitation_computed env precipTotal @ ''\<newline>\<newline>''),
                      Inr ''## Recent Observations\<newline>\<newline>'']
                     @ map (recent_observation env) recentData))))"

definition alert_section :: "js_env \<Rightarrow> RawWeatherAlert field \<Rightarrow> thrown + string" where
  "alert_section env alert =
     reading alert ''effective'' alert_effective (\<lambda>effective.
     reading alert ''expires'' alert_expires (\<lambda>expires.
       let effectiveTime = formatLocalTime_of env effective;
           expiresTime = formatLocalTime_of env expires
       in all_of
            [reading alert ''title'' alert_title (\<lambda>title.
               Inr (''## '' @ template_string title @ ''\<newline>\<newline>'')),
             reading alert ''type'' alert_type (\<lambda>kind.
               Inr (''**Type:** '' @ template_string kind @ ''\<newline>'')),
             reading alert ''severity'' alert_severity (\<lambda>severity.
               Inr (''**Severity:** '' @ template_string severity @ ''\<newline>'')),
             Inr (''**Effective:** '' @ effectiveTime @ ''\<newline>''),
             Inr (''**Expires:** '' @ expiresTime @ ''\<newline>''),
             all_of [Inr ''**Areas:** '',
                     reading alert ''areas'' alert_areas (join_of '', ''),
                     Inr ''\<newline>\<newline>''],
             reading alert ''description'' alert_description (\<lambda>description.
               Inr (template_string description @ ''\<newline>\<newline>'')),
             Inr ''---\<newline>\<newline>'']))"

definition weather_alerts_markdown ::
  "js_env \<Rightarrow> number \<Rightarrow> number \<Rightarrow> RawAlertsResponse field \<Rightarrow> thrown + string" where
  "weather_alerts_markdown env latitude longitude body =
     reading body ''alerts'' body_alerts (\<lambda>v.
       let alerts = or_empty v
       in if length alerts = 0 then
            Inr (''No active weather alerts for location ''
                   @ number_to_string env latitude @ '', '' @ number_to_string env longitude)
          else
            all_of
              ([Inr ''# Weather Alerts\<newline>\<newline>'',
                Inr (''Location: '' @ number_to_string env latitude @ '', ''
                       @ number_to_string env longitude @ ''\<newline>''),
                Inr (''Active alerts: '' @ show_nat (length alerts) @ ''\<newline>\<newline>'')]
               @ map (alert_section env) alerts))"

definition found_station_section :: "js_env \<Rightarrow> RawStation field \<Rightarrow> thrown + string" where
  "found_station_section env station =
     all_of
       [reading station ''name'' st_name (\<lambda>name.
          Inr (''## '' @ template_string name @ ''\<newline>\<newline>'')),
        reading station ''id'' st_id (\<lambda>id.
          Inr (''**Station ID:** '' @ template_string id @ ''\<newline>'')),
        reading station ''name'' st_name (\<lambda>name.
          Inr (''**Name:** '' @ template_string name @ ''\<newline>'')),
        reading station ''location'' st_location (location_line env ''**Location:** ''),
        reading station ''location'' st_location
          (\<lambda>location. elevation_line env location ''m\<newline>''),
        reading station ''createdAt'' st_createdAt (\<lambda>created.
          Inr (''**Created:** '' @ formatLocalTime_of env created @ ''\<newline>'')),
        reading station ''cellIndex'' st_cellIndex (\<lambda>cell.
          Inr (''**Cell Index:** '' @ template_string cell @ ''\<newline>'')),
        Inr ''\<newline>---\<newline>\<newline>'']"

definition find_weather_stations_markdown ::
  "js_env \<Rightarrow> number \<Rightarrow> number \<Rightarrow> number \<Rightarrow> RawStationsResponse field \<Rightarrow> thrown + string" where
  "find_weather_stations_markdown env latitude longitude radius body =
     reading body ''stations'' body_stations (\<lambda>v.
       let stations = or_empty v
       in if length stations = 0 then
            Inr (''# WeatherXM Stations\<newline>\<newline>No weather stations found within ''
                   @ number_to_string env radius @ ''km of '' @ number_to_string env latitude
                   @ '', '' @ number_to_string env longitude @ ''.'')
          else
            all_of
              ([Inr (''# WeatherXM Stations Near '' @ number_to_string env latitude @ '', ''
                       @ number_to_string env longitude @ ''\<newline>\<newline>''),
                Inr (''Found '' @ show_nat (length stations) @ '' station(s) within ''
                       @ number_to_string env radius @ ''km\<newline>\<newline>'')]
               @ map (found_station_section env) stations))"

definition searched_station_section :: "js_env \<Rightarrow> RawStation field \<Rightarrow> thrown + string" where
  "searched_station_section env station =
     all_of
       [reading station ''name'' st_name (\<lambda>name.
          Inr (''## '' @ template_string name @ ''\<newline>\<newline>'')),
        reading station ''id'' st_id (\<lambda>id.
          Inr (''**Station ID:** '' @ template_string id @ ''\<newline>'')),
        reading station ''location'' st_location (location_line env ''**Location:** ''),
        reading station ''location'' st_location
          (\<lambda>location. elevation_line env location ''m\<newline>''),
        reading station ''createdAt'' st_createdAt (\<lambda>created.
          Inr (''**Created:** '' @ formatLocalTime_of env created @ ''\<newline>'')),
        reading station ''cellIndex'' st_cellIndex (\<lambda>cell.
          Inr (''**Cell Index:** '' @ template_string cell @ ''\<newline>'')),
        Inr ''\<newline>---\<newline>\<newline>'']"

definition search_weather_stations_markdown ::
  "js_env \<Rightarrow> string \<Rightarrow> RawSearchResponse field \<Rightarrow> thrown + string" where
  "search_weather_stations_markdown env query body =
     reading body ''results'' body_results (\<lambda>results.
     reading results ''stations'' res_stations (\<lambda>v.
       let stations = or_empty v
       in if length stations = 0 then
            Inr (''No weather stations found matching '' @ [CHR 0x22] @ query @ [CHR 0x22])
          else
            all_of
              ([Inr ''# Weather Station Search Results\<newline>\<newline>'',
                Inr (''Query: '' @ [CHR 0x22] @ query @ [CHR 0x22] @ ''\<newline>''),
                reading results ''total'' res_total (\<lambda>total.
                  Inr (''Found '' @ template_number env total @ '' total stations\<newline>'')),
                reading results ''page'' res_page (\<lambda>page.
                reading results ''total'' res_total (\<lambda>total.
                reading results ''limit'' res_limit (\<lambda>limit.
                  Inr (''Page '' @ template_number env page @ '' of ''
                         @ page_count_of env total limit @ ''\<newline>\<newline>''))))]
               @ map (searched_station_section env) stations)))"

definition cell_section :: "js_env \<Rightarrow> RawCell field \<Rightarrow> thrown + string" where
  "cell_section env cell =
     all_of
       [reading cell ''index'' cell_index (\<lambda>index.
          Inr (''## Cell '' @ template_string index @ ''\<newline>\<newline>'')),
        reading cell ''center'' cell_center (location_line env ''**Center:** ''),
        reading cell ''center'' cell_center (\<lambda>center. elevation_line env center ''m\<newline>''),
        reading cell ''station_count'' cell_station_count (\<lambda>count.
          Inr (''**Stations:** '' @ template_number env count @ ''\<newline>'')),
        Inr ''\<newline>---\<newline>\<newline>'']"

definition weather_cells_markdown ::
  "js_env \<Rightarrow> number \<Rightarrow> number \<Rightarrow> number \<Rightarrow> RawCellsResponse field \<Rightarrow> thrown + string" where
  "weather_cells_markdown env latitude longitude radius body =
     reading body ''cells'' body_cells (\<lambda>v.
       let cells = or_empty v
       in if length cells = 0 then
            Inr (''No weather cells found within '' @ number_to_string env radius
                   @ ''km of '' @ number_to_string env latitude @ '', ''
                   @ number_to_string env longitude)
          else
            all_of
              ([Inr (''# WeatherXM Cells Near '' @ number_to_string env latitude @ '', ''
                       @ number_to_string env longitude @ ''\<newline>\<newline>''),
                Inr (''Found '' @ show_nat (length cells) @ '' cell(s) within ''
                       @ number_to_string env radius @ ''km\<newline>\<newline>'')]
               @ map (cell_section env) cells))"

definition station_health_markdown ::
  "js_env \<Rightarrow> string \<Rightarrow> RawLatestResponse field \<Rightarrow> thrown + string" where
  "station_health_markdown env station_id body =
     reading body ''health'' latest_health (\<lambda>health.
     reading body ''location'' latest_location (\<lambda>location.
     all_of
       [Inr (''# Station Health - '' @ station_id @ ''\<newline>\<newline>''),
        location_line env ''**Location:** '' location,
        elevation_line env location ''m\<newline>\<newline>'',
        reading health ''timestamp'' health_timestamp (\<lambda>ts.
          Inr (''**Health Check:** '' @ formatLocalTime_of env ts @ ''\<newline>\<newline>'')),
        reading health ''data_quality'' health_data_quality (\<lambda>quality.
        reading quality ''score'' dq_score (\<lambda>score.
          Inr (''**Data Quality Score:** '' @ percent_of env score @ ''%\<newline>''))),
        reading health ''location_quality'' health_location_quality (\<lambda>quality.
        reading quality ''score'' lq_score (\<lambda>score.
          Inr (''**Location Quality Score:** '' @ percent_of env score @ ''%\<newline>''))),
        reading health ''location_quality'' health_location_quality (\<lambda>quality.
        reading quality ''reason'' lq_reason (\<lambda>reason.
          Inr (''**Location Quality Reason:** '' @ template_string reason @ ''\<newline>\<newline>''))),
        reading health ''data_quality'' health_data_quality (\<lambda>quality.
        reading quality ''score'' dq_score (\<lambda>score.
          Inr (if at_least (toNumber score) (Some (fl (8 / 10))) then
                 ''**Overall Assessment:** Excellent data quality\<newline>''
               else if at_least (toNumber score) (Some (fl (6 / 10))) then
                 ''**Overall Assessment:** Good data quality\<newline>''
               else if at_least (toNumber score) (Some (fl (4 / 10))) then
                 ''**Overall Assessment:** Fair data quality\<newline>''
               else
                 ''**Overall Assessment:** Poor data quality - use with caution\<newline>'')))]))"

definition station_local_time_markdown ::
  "js_env \<Rightarrow> string \<Rightarrow> RawLatestResponse field \<Rightarrow> thrown + string" where
  "station_local_time_markdown env station_id body =
     reading body ''location'' latest_location (\<lambda>location.
     reading body ''observation'' latest_observation (\<lambda>obs.
     reading obs ''timestamp'' obs_timestamp (\<lambda>ts.
       let stationTimezone = timezone_offset env (new_Date env ts);
           localTime = (case stationTimezone of
                          None \<Rightarrow> None
                        | Some z \<Rightarrow> Some (now env - z * 60 * 1000));
           formattedTime = locale_string env localTime
       in all_of
            [Inr (''Current local time at station '' @ station_id @ '' (''),
             reading location ''lat'' loc_lat (toFixed_of env 4), Inr '', '',
             reading location ''lon'' loc_lon (toFixed_of env 4),
             Inr (''): '' @ formattedTime)])))"

subsection \<open>The handlers\<close>

text \<open>
  \<open>try { ... } catch (e) { ... }\<close>: the request and the statements after it are one
  block, and the handler returns a text whatever the block did.
\<close>

definition catching :: "thrown + string \<Rightarrow> content list" where
  "catching attempt =
     (case attempt of Inl e \<Rightarrow> catch_as_text e | Inr markdown \<Rightarrow> [TextContent markdown])"

definition current_weather_try ::
  "config \<Rightarrow> js_env \<Rightarrow> RawLatestResponse field fetch \<Rightarrow> string \<Rightarrow> thrown + string" where
  "current_weather_try cfg env fetch station_id =
     andThen (weatherxmApiRequest fetch (''/stations/'' @ station_id @ ''/latest'') (apiKey cfg))
       (current_weather_markdown env station_id)"

definition hourly_forecast_try ::
  "config \<Rightarrow> js_env \<Rightarrow> RawHourlyForecastResponse field fetch \<Rightarrow> string \<Rightarrow> number option
     \<Rightarrow> thrown + string" where
  "hourly_forecast_try cfg env fetch station_id hours_arg =
     (let hours = with_default 48 hours_arg
      in andThen (weatherxmApiRequest fetch
                    (''/stations/'' @ station_id @ ''/forecast/hourly?hours=''
                       @ number_to_string env hours)
                    (apiKey cfg))
           (hourly_forecast_markdown env station_id hours))"

definition daily_forecast_try ::
  "config \<Rightarrow> js_env \<Rightarrow> RawDailyForecastResponse field fetch \<Rightarrow> string \<Rightarrow> number option
     \<Rightarrow> thrown + string" where
  "daily_forecast_try cfg env fetch station_id days_arg =
     (let days = with_default 7 days_arg
      in andThen (weatherxmApiRequest fetch
                    (''/stations/'' @ station_id @ ''/forecast/daily?days=''
                       @ number_to_string env days)
                    (apiKey cfg))
           (daily_forecast_markdown env station_id days))"

definition historical_weather_try ::
  "config \<Rightarrow> js_env \<Rightarrow> RawHistoricalResponse field fetch \<Rightarrow> string \<Rightarrow> string \<Rightarrow> string
     \<Rightarrow> thrown + string" where
  "historical_weather_try cfg env fetch station_id start_date end_date =
     andThen (weatherxmApiRequest fetch
                (''/stations/'' @ station_id @ ''/historical?start='' @ start_date
                   @ ''&end='' @ end_date)
                (apiKey cfg))
       (historical_weather_markdown env station_id start_date end_date)"

definition weather_alerts_try ::
  "config \<Rightarrow> js_env \<Rightarrow> RawAlertsResponse field fetch \<Rightarrow> number \<Rightarrow> number \<Rightarrow> thrown + string" where
  "weather_alerts_try cfg env fetch latitude longitude =
     andThen (weatherxmApiRequest fetch
                (''/alerts?lat='' @ number_to_string env latitude @ ''&lon=''
                   @ number_to_string env longitude)
                (apiKey cfg))
       (weather_alerts_markdown env latitude longitude)"

definition find_weather_stations_try ::
  "config \<Rightarrow> js_env \<Rightarrow> RawStationsResponse field fetch \<Rightarrow> number \<Rightarrow> number \<Rightarrow> number option
     \<Rightarrow> thrown + string" where
  "find_weather_stations_try cfg env fetch latitude longitude radius_arg =
     (let radius = with_default 50 radius_arg
      in andThen (weatherxmApiRequest fetch
                    (''/stations?lat='' @ number_to_string env latitude @ ''&lon=''
                       @ number_to_string env longitude @ ''&radius=''
                       @ number_to_string env radius)
                    (apiKey cfg))
           (find_weather_stations_markdown env latitude longitude radius))"

definition search_weather_stations_try ::
  "config \<Rightarrow> js_env \<Rightarrow> RawSearchResponse field fetch \<Rightarrow> string \<Rightarrow> number option
     \<Rightarrow> number option \<Rightarrow> thrown + string" where
  "search_weather_stations_try cfg env fetch query page_arg limit_arg =
     (let pg = with_default 1 page_arg; lm = with_default 10 limit_arg
      in andThen (encodeURIComponent env query) (\<lambda>q.
         andThen (weatherxmApiRequest fetch
                    (''/stations/search?q='' @ q @ ''&page='' @ number_to_string env pg
                       @ ''&limit='' @ number_to_string env lm)
                    (apiKey cfg))
           (search_weather_stations_markdown env query)))"

definition weather_cells_try ::
  "config \<Rightarrow> js_env \<Rightarrow> RawCellsResponse field fetch \<Rightarrow> number \<Rightarrow> number \<Rightarrow> number option
     \<Rightarrow> thrown + string" where
  "weather_cells_try cfg env fetch latitude longitude radius_arg =
     (let radius = with_default 50 radius_arg
      in andThen (weatherxmApiRequest fetch
                    (''/cells?lat='' @ number_to_string env latitude @ ''&lon=''
                       @ number_to_string env longitude @ ''&radius=''
                       @ number_to_string env radius)
                    (apiKey cfg))
           (weather_cells_markdown env latitude longitude radius))"

definition station_health_try ::
  "config \<Rightarrow> js_env \<Rightarrow> RawLatestResponse field fetch \<Rightarrow> string \<Rightarrow> thrown + string" where
  "station_health_try cfg env fetch station_id =
     andThen (weatherxmApiRequest fetch (''/stations/'' @ station_id @ ''/latest'') (apiKey cfg))
       (station_health_markdown env station_id)"

definition station_local_time_try ::
  "config \<Rightarrow> js_env \<Rightarrow> RawLatestResponse field fetch \<Rightarrow> string \<Rightarrow> thrown + string" where
  "station_local_time_try cfg env fetch station_id =
     andThen (weatherxmApiRequest fetch (''/stations/'' @ station_id @ ''/latest'') (apiKey cfg))
       (station_local_time_markdown env station_id)"


definition get_current_weather_unvalidated ::
  "config \<Rightarrow> js_env \<Rightarrow> RawLatestResponse field fetch \<Rightarrow> string \<Rightarrow> content list" where
  "get_current_weather_unvalidated cfg env fetch station_id =
     catching (current_weather_try cfg env fetch station_id)"

definition get_hourly_forecast_unvalidated ::
  "config \<Rightarrow> js_env \<Rightarrow> RawHourlyForecastResponse field fetch \<Rightarrow> string \<Rightarrow> number option
     \<Rightarrow> content list" where
  "get_hourly_forecast_unvalidated cfg env fetch station_id hours_arg =
     catching (hourly_forecast_try cfg env fetch station_id hours_arg)"

definition get_daily_forecast_unvalidated ::
  "config \<Rightarrow> js_env \<Rightarrow> RawDailyForecastResponse field fetch \<Rightarrow> string \<Rightarrow> number option
     \<Rightarrow> content list" where
  "get_daily_forecast_unvalidated cfg env fetch station_id days_arg =
     catching (daily_forecast_try cfg env fetch station_id days_arg)"

definition get_historical_weather_unvalidated ::
  "config \<Rightarrow> js_env \<Rightarrow> RawHistoricalResponse field fetch \<Rightarrow> string \<Rightarrow> string \<Rightarrow> string
     \<Rightarrow> content list" where
  "get_historical_weather_unvalidated cfg env fetch station_id start_date end_date =
     catching (historical_weather_try cfg env fetch station_id start_date end_date)"

definition get_weather_alerts_unvalidated ::
  "config \<Rightarrow> js_env \<Rightarrow> RawAlertsResponse field fetch \<Rightarrow> number \<Rightarrow> number \<Rightarrow> content list" where
  "get_weather_alerts_unvalidated cfg env fetch latitude longitude =
     catching (weather_alerts_try cfg env fetch latitude longitude)"

definition find_weather_stations_unvalidated ::
  "config \<Rightarrow> js_env \<Rightarrow> RawStationsResponse field fetch \<Rightarrow> number \<Rightarrow> number \<Rightarrow> number option
     \<Rightarrow> content list" where
  "find_weather_stations_unvalidated cfg env fetch latitude longitude radius_arg =
     catching (find_weather_stations_try cfg env fetch latitude longitude radius_arg)"

definition search_weather_stations_unvalidated ::
  "config \<Rightarrow> js_env \<Rightarrow> RawSearchResponse field fetch \<Rightarrow> string \<Rightarrow> number option
     \<Rightarrow> number option \<Rightarrow> content list" where
  "search_weather_stations_unvalidated cfg env fetch query page_arg limit_arg =
     catching (search_weather_stations_try cfg env fetch query page_arg limit_arg)"

definition get_weather_cells_unvalidated ::
  "config \<Rightarrow> js_env \<Rightarrow> RawCellsResponse field fetch \<Rightarrow> number \<Rightarrow> number \<Rightarrow> number option
     \<Rightarrow> content list" where
  "get_weather_cells_unvalidated cfg env fetch latitude longitude radius_arg =
     catching (weather_cells_try cfg env fetch latitude longitude radius_arg)"

definition get_station_health_unvalidated ::
  "config \<Rightarrow> js_env \<Rightarrow> RawLatestResponse field fetch \<Rightarrow> string \<Rightarrow> content list" where
  "get_station_health_unvalidated cfg env fetch station_id =
     catching (station_health_try cfg env fetch station_id)"

definition get_station_local_time_unvalidated ::
  "config \<Rightarrow> js_env \<Rightarrow> RawLatestResponse field fetch \<Rightarrow> string \<Rightarrow> content list" where
  "get_station_local_time_unvalidated cfg env fetch station_id =
     catching (station_local_time_try cfg env fetch station_id)"

subsection \<open>A body that has the shape of its interface\<close>

text \<open>
  The typed values of the first model, as bodies of this one: every property is present.
  \<open>shaped_fetch\<close> is the same server, its bodies seen without their types.
\<close>

definition shaped_Location :: "Location \<Rightarrow> RawLocation field" where
  "shaped_Location l =
     Present \<lparr>loc_lat = Present (lat l), loc_lon = Present (lon l),
              loc_elevation = Present (elevation l)\<rparr>"

definition shaped_Observation :: "Observation \<Rightarrow> RawObservation field" where
  "shaped_Observation obs =
     Present \<lparr>obs_timestamp = Present (Observation.timestamp obs),
              obs_temperature = Present (Observation.temperature obs),
              obs_feels_like = Present (Observation.feels_like obs),
              obs_dew_point = Present (Observation.dew_point obs),
              obs_precipitation_rate = Present (Observation.precipitation_rate obs),
              obs_precipitation_accumulated = Present (Observation.precipitation_accumulated obs),
              obs_humidity = Present (Observation.humidity obs),
              obs_wind_speed = Present (Observation.wind_speed obs),
              obs_wind_gust = Present (Observation.wind_gust obs),
              obs_wind_direction = Present (Observation.wind_direction obs),
              obs_uv_index = Present (Observation.uv_index obs),
              obs_pressure = Present (Observation.pressure obs),
              obs_solar_irradiance = Present (Observation.solar_irradiance obs),
              obs_icon = Present (Observation.icon obs)\<rparr>"

definition shaped_Health :: "Health \<Rightarrow> RawHealth field" where
  "shaped_Health h =
     Present \<lparr>health_timestamp = Present (Health.timestamp h),
              health_data_quality =
                Present \<lparr>dq_score = Present (DataQuality.score (data_quality h))\<rparr>,
              health_location_quality =
                Present \<lparr>lq_score = Present (LocationQuality.score (location_quality h)),
                         lq_reason = Present (reason (location_quality h))\<rparr>\<rparr>"

definition shaped_Latest :: "WeatherXMLatestResponse \<Rightarrow> RawLatestResponse field" where
  "shaped_Latest d =
     Present \<lparr>latest_observation = shaped_Observation (observation d),
              latest_health = shaped_Health (health d),
              latest_location = shaped_Location (WeatherXMLatestResponse.location d)\<rparr>"

definition shaped_Station :: "Station \<Rightarrow> RawStation field" where
  "shaped_Station station =
     Present \<lparr>st_id = Present (Station.id station), st_name = Present (name station),
              st_cellIndex = Present (cellIndex station),
              st_location = shaped_Location (Station.location station),
              st_createdAt = Present (createdAt station)\<rparr>"

definition shaped_Cell :: "Cell \<Rightarrow> RawCell field" where
  "shaped_Cell cell =
     Present \<lparr>cell_index = Present (index cell), cell_center = shaped_Location (center cell),
              cell_station_count = Present (station_count cell)\<rparr>"

definition shaped_Hourly :: "HourlyForecastData \<Rightarrow> RawHourlyForecastData field" where
  "shaped_Hourly hour =
     Present \<lparr>hour_timestamp = Present (HourlyForecastData.timestamp hour),
              hour_precipitation = Present (precipitation hour),
              hour_precipitation_probability =
                Present (HourlyForecastData.precipitation_probability hour),
              hour_temperature = Present (HourlyForecastData.temperature hour),
              hour_icon = Present (HourlyForecastData.icon hour),
              hour_wind_speed = Present (HourlyForecastData.wind_speed hour),
              hour_wind_direction = Present (HourlyForecastData.wind_direction hour),
              hour_humidity = Present (HourlyForecastData.humidity hour),
              hour_pressure = Present (HourlyForecastData.pressure hour),
              hour_uv_index = Present (HourlyForecastData.uv_index hour),
              hour_feels_like = Present (HourlyForecastData.feels_like hour)\<rparr>"

definition shaped_Daily :: "DailyForecast \<Rightarrow> RawDailyForecast field" where
  "shaped_Daily day =
     Present \<lparr>day_temperature_max = Present (temperature_max day),
              day_temperature_min = Present (temperature_min day),
              day_precipitation_probability = Present (DailyForecast.precipitation_probability day),
              day_precipitation_intensity = Present (precipitation_intensity day),
              day_humidity = Present (DailyForecast.humidity day),
              day_uv_index = Present (DailyForecast.uv_index day),
              day_pressure = Present (DailyForecast.pressure day),
              day_icon = Present (DailyForecast.icon day),
              day_precipitation_type = Present (precipitation_type day),
              day_wind_speed = Present (DailyForecast.wind_speed day),
              day_wind_direction = Present (DailyForecast.wind_direction day),
              day_timestamp = Present (DailyForecast.timestamp day)\<rparr>"

definition shaped_Point :: "HistoricalDataPoint \<Rightarrow> RawHistoricalDataPoint field" where
  "shaped_Point p =
     Present \<lparr>point_timestamp = Present (HistoricalDataPoint.timestamp p),
              point_temperature = Present (HistoricalDataPoint.temperature p),
              point_feels_like = Present (HistoricalDataPoint.feels_like p),
              point_dew_point = Present (HistoricalDataPoint.dew_point p),
              point_precipitation_rate = Present (HistoricalDataPoint.precipitation_rate p),
              point_precipitation_accumulated =
                Present (HistoricalDataPoint.precipitation_accumulated p),
              point_humidity = Present (HistoricalDataPoint.humidity p),
              point_wind_speed = Present (HistoricalDataPoint.wind_speed p),
              point_wind_gust = Present (HistoricalDataPoint.wind_gust p),
              point_wind_direction = Present (HistoricalDataPoint.wind_direction p),
              point_uv_index = Present (HistoricalDataPoint.uv_index p),
              point_pressure = Present (HistoricalDataPoint.pressure p),
              point_solar_irradiance = Present (HistoricalDataPoint.solar_irradiance p),
              point_icon = Present (HistoricalDataPoint.icon p)\<rparr>"

definition shaped_Alert :: "WeatherAlert \<Rightarrow> RawWeatherAlert field" where
  "shaped_Alert alert =
     Present \<lparr>alert_id = Present (WeatherAlert.id alert), alert_type = Present (type alert),
              alert_severity = Present (severity alert), alert_title = Present (title alert),
              alert_description = Present (description alert),
              alert_effective = Present (effective alert),
              alert_expires = Present (expires alert),
              alert_areas = Present (map Present (areas alert))\<rparr>"

definition shaped_list :: "('a \<Rightarrow> 'b field) \<Rightarrow> 'a list field \<Rightarrow> 'b field list field" where
  "shaped_list f v =
     (case v of Missing \<Rightarrow> Missing | Null \<Rightarrow> Null | Present xs \<Rightarrow> Present (map f xs))"

definition shaped_Stations :: "WeatherXMStationsResponse \<Rightarrow> RawStationsResponse field" where
  "shaped_Stations d =
     Present \<lparr>body_stations = shaped_list shaped_Station (WeatherXMStationsResponse.stations d)\<rparr>"

definition shaped_HourlyForecast ::
  "WeatherXMHourlyForecastResponse \<Rightarrow> RawHourlyForecastResponse field" where
  "shaped_HourlyForecast d =
     Present \<lparr>body_hourly_forecast =
                shaped_list shaped_Hourly (WeatherXMHourlyForecastResponse.forecast d)\<rparr>"

definition shaped_DailyForecast ::
  "WeatherXMDailyForecastResponse \<Rightarrow> RawDailyForecastResponse field" where
  "shaped_DailyForecast d =
     Present \<lparr>body_daily_forecast =
                shaped_list shaped_Daily (WeatherXMDailyForecastResponse.forecast d)\<rparr>"

definition shaped_Historical :: "WeatherXMHistoricalResponse \<Rightarrow> RawHistoricalResponse field" where
  "shaped_Historical d = Present \<lparr>body_data = shaped_list shaped_Point (data d)\<rparr>"

definition shaped_Alerts :: "WeatherXMAlertsResponse \<Rightarrow> RawAlertsResponse field" where
  "shaped_Alerts d = Present \<lparr>body_alerts = shaped_list shaped_Alert (alerts d)\<rparr>"

definition shaped_Cells :: "WeatherXMCellsResponse \<Rightarrow> RawCellsResponse field" where
  "shaped_Cells d = Present \<lparr>body_cells = shaped_list shaped_Cell (cells d)\<rparr>"

definition shaped_Search :: "WeatherXMSearchResponse \<Rightarrow> RawSearchResponse field" where
  "shaped_Search d =
     Present \<lparr>body_results =
                Present \<lparr>res_stations =
                           shaped_list shaped_Station (SearchResult.stations (results d)),
                         res_total = Present (total (results d)),
                         res_page = Present (page (results d)),
                         res_limit = Present (limit (results d))\<rparr>\<rparr>"

definition shaped_fetch :: "('a \<Rightarrow> 'b) \<Rightarrow> 'a fetch \<Rightarrow> 'b fetch" where
  "shaped_fetch shape fetch =
     (\<lambda>url headers.
        case fetch url headers of
          Rejected e \<Rightarrow> Rejected e
        | Resolved r \<Rightarrow>
            Resolved \<lparr>status = status r, statusText = statusText r,
                      json = (case json r of Inl e \<Rightarrow> Inl e | Inr d \<Rightarrow> Inr (shape d))\<rparr>)"

section \<open>Example inputs\<close>

text \<open>
  A runtime, a configuration, three behaviours of \<open>fetch\<close> (the server answers with a
  body, the server answers with a status and no parsable body, the connection fails) and
  a latest-observation response, for evaluating the handlers.
\<close>

definition example_env :: js_env where
  "example_env =
     \<lparr>now = 1700000000000,
      date_parse = (\<lambda>s. if s = ''2023-11-14T22:13:00Z'' then Some 1699999980000 else None),
      locale_string = (\<lambda>t. case t of None \<Rightarrow> ''Invalid Date'' | Some v \<Rightarrow> ''Nov 14, 2023, 10:13 PM''),
      timezone_offset = (\<lambda>t. case t of None \<Rightarrow> None | Some v \<Rightarrow> Some 0),
      number_repr = (\<lambda>x. ''1.5''),
      encodeURIComponent = Inr\<rparr>"

definition example_config :: config where
  "example_config = \<lparr>apiKey = ''secret''\<rparr>"

definition answering :: "'a \<Rightarrow> 'a fetch" where
  "answering d = (\<lambda>url headers. Resolved \<lparr>status = 200, statusText = ''OK'', json = Inr d\<rparr>)"

definition answering_status :: "nat \<Rightarrow> string \<Rightarrow> 'a fetch" where
  "answering_status st txt =
     (\<lambda>url headers. Resolved \<lparr>status = st, statusText = txt,
                                json = Inl (JsError ''Unexpected end of JSON input'')\<rparr>)"

definition rejecting :: "thrown \<Rightarrow> 'a fetch" where
  "rejecting e = (\<lambda>url headers. Rejected e)"

definition example_observation :: "number \<Rightarrow> number \<Rightarrow> Observation" where
  "example_observation gust optional =
     \<lparr>Observation.timestamp = ''2023-11-14T22:13:00Z'', temperature = 20, feels_like = 19,
      dew_point = 10, precipitation_rate = optional, precipitation_accumulated = optional,
      humidity = 55, wind_speed = 3, wind_gust = gust, wind_direction = 90,
      uv_index = optional, pressure = 1013, solar_irradiance = optional, icon = ''rain''\<rparr>"

definition example_latest :: "number \<Rightarrow> number \<Rightarrow> number \<Rightarrow> WeatherXMLatestResponse" where
  "example_latest quality gust optional =
     \<lparr>observation = example_observation gust optional,
      health = \<lparr>Health.timestamp = ''2023-11-14T22:13:00Z'',
                data_quality = \<lparr>DataQuality.score = quality\<rparr>,
                location_quality = \<lparr>LocationQuality.score = 1, reason = ''LOCATION_NOT_VERIFIED''\<rparr>\<rparr>,
      location = \<lparr>lat = 38, lon = 23, elevation = 120\<rparr>\<rparr>"

definition example_point :: "nat \<Rightarrow> HistoricalDataPoint" where
  "example_point i =
     \<lparr>HistoricalDataPoint.timestamp = ''2023-11-14T22:13:00Z'', temperature = of_nat i,
      feels_like = of_nat i, dew_point = 1, precipitation_rate = 0,
      precipitation_accumulated = 2, humidity = 50, wind_speed = 3, wind_gust = 4,
      wind_direction = 180, uv_index = 0, pressure = 1000, solar_irradiance = 0,
      icon = ''cloudy''\<rparr>"

definition example_history :: "HistoricalDataPoint list" where
  "example_history = map example_point [0, 1, 2, 3, 4, 5, 6, 7, 8, 9, 10, 11]"

text \<open>
  Bodies that do not have the shape of their interface: a latest-observation body whose
  humidity is what the argument says (and which lacks two optional readings and the
  location quality), the empty object, an alert, a station and a cell.
\<close>

definition example_body :: "number field \<Rightarrow> RawLatestResponse field" where
  "example_body hum =
     Present
       \<lparr>latest_observation =
          Present \<lparr>obs_timestamp = Present ''2023-11-14T22:13:00Z'', obs_temperature = Present 20,
                   obs_feels_like = Present 19, obs_dew_point = Present 10,
                   obs_precipitation_rate = Present 0, obs_precipitation_accumulated = Present 0,
                   obs_humidity = hum, obs_wind_speed = Present 3, obs_wind_gust = Present 5,
                   obs_wind_direction = Present 90, obs_uv_index = Missing,
                   obs_pressure = Present 1013, obs_solar_irradiance = Null,
                   obs_icon = Present ''rain''\<rparr>,
        latest_health =
          Present \<lparr>health_timestamp = Present ''2023-11-14T22:13:00Z'',
                   health_data_quality = Present \<lparr>dq_score = Present 1\<rparr>,
                   health_location_quality = Missing\<rparr>,
        latest_location =
          Present \<lparr>loc_lat = Present 38, loc_lon = Present 23, loc_elevation = Present 120\<rparr>\<rparr>"

definition empty_object :: "RawLatestResponse field" where
  "empty_object =
     Present \<lparr>latest_observation = Missing, latest_health = Missing, latest_location = Missing\<rparr>"

definition example_alert :: "string field list field \<Rightarrow> RawWeatherAlert field" where
  "example_alert areas_value =
     Present \<lparr>alert_id = Present ''a1'', alert_type = Present ''wind'',
              alert_severity = Present ''moderate'', alert_title = Present ''Wind advisory'',
              alert_description = Present ''Strong wind'',
              alert_effective = Present ''2023-11-14T22:13:00Z'',
              alert_expires = Present ''2023-11-14T22:13:00Z'', alert_areas = areas_value\<rparr>"

definition example_station :: "RawLocation field \<Rightarrow> RawStation field" where
  "example_station location_value =
     Present \<lparr>st_id = Present ''WXM1'', st_name = Present ''Athens'',
              st_cellIndex = Present ''871eda'', st_location = location_value,
              st_createdAt = Present ''2023-11-14T22:13:00Z''\<rparr>"

definition example_cell :: "RawLocation field \<Rightarrow> RawCell field" where
  "example_cell center_value =
     Present \<lparr>cell_index = Present ''871eda'', cell_center = center_value,
              cell_station_count = Present 2\<rparr>"

section \<open>Properties of the API client\<close>

lemma show_nat_digits: "set (show_nat n) \<subseteq> set ''0123456789''"
proof (induction n rule: show_nat.induct)
  case (1 n)
  have d: "''0123456789'' ! k \<in> set ''0123456789''" if "k < 10" for k
    using that by (intro nth_mem) simp
  show ?case
  proof (cases "n < 10")
    case True
    then show ?thesis
      using d [of n] by (subst show_nat.simps) simp
  next
    case False
    have "n mod 10 < 10" by simp
    then show ?thesis
      using False "1.IH" d [of "n mod 10"] by (subst show_nat.simps) simp
  qed
qed

lemma show_int_no_minus: "0 \<le> i \<Longrightarrow> CHR ''-'' \<notin> set (show_int i)"
  using show_nat_digits [of "nat i"] by (auto simp: show_int_def)

text \<open>
  The four fixed statuses: whatever the status text, the error of the status check
  passes the \<open>catch\<close> block unchanged, since none of the four messages contains
  \<open>fetch\<close>.
\<close>

lemma api_fixed_status_errors:
  assumes "fetch (WEATHERXM_API_BASE @ endpoint)
             [(''User-Agent'', USER_AGENT), (''Accept'', ''application/json''),
              (''X-API-KEY'', key)] = Resolved r"
  shows "status r = 401 \<Longrightarrow> weatherxmApiRequest fetch endpoint key =
           Inl (JsError ''Invalid API key. Please check your WeatherXM API key.'')"
    and "status r = 404 \<Longrightarrow> weatherxmApiRequest fetch endpoint key =
           Inl (JsError ''Station not found or no data available'')"
    and "status r = 429 \<Longrightarrow> weatherxmApiRequest fetch endpoint key =
           Inl (JsError ''API rate limit exceeded. Please try again later.'')"
    and "status r = 500 \<Longrightarrow> weatherxmApiRequest fetch endpoint key =
           Inl (JsError ''WeatherXM service temporarily unavailable'')"
  using assms
  by (simp_all add: weatherxmApiRequest_def request_try_def request_catch_def ok_def
      str_includes_def sublist_Cons_right)

text \<open>
  Every other status outside 200..299: the error carries the status and the status text
  as long as the composed message does not contain \<open>fetch\<close>; on a success status the
  outcome of \<open>response.json()\<close> is returned as it is when the parser succeeds.
\<close>

lemma api_other_status_error:
  assumes "fetch (WEATHERXM_API_BASE @ endpoint)
             [(''User-Agent'', USER_AGENT), (''Accept'', ''application/json''),
              (''X-API-KEY'', key)] = Resolved r"
    and "\<not> ok r" and "status r \<notin> {401, 404, 429, 500}"
    and "\<not> str_includes (''WeatherXM API error: '' @ show_nat (status r) @ '' '' @ statusText r) ''fetch''"
  shows "weatherxmApiRequest fetch endpoint key =
           Inl (JsError (''WeatherXM API error: '' @ show_nat (status r) @ '' '' @ statusText r))"
  using assms
  by (simp add: weatherxmApiRequest_def request_try_def request_catch_def)

lemma api_success_returns_json:
  assumes "fetch (WEATHERXM_API_BASE @ endpoint)
             [(''User-Agent'', USER_AGENT), (''Accept'', ''application/json''),
              (''X-API-KEY'', key)] = Resolved r"
    and "ok r" and "json r = Inr v"
  shows "weatherxmApiRequest fetch endpoint key = Inr v"
  using assms
  by (simp add: weatherxmApiRequest_def request_try_def)

text \<open>
  Claim C1. A response with a status outside 200..299 and other than 401, 404, 429 and
  500 should fail with the error that carries the status and the status text. At status
  502 with the status text \<open>Upstream fetch failed\<close> the error of the status check is
  thrown inside the \<open>try\<close> block, the \<open>catch\<close> block finds \<open>fetch\<close> in its message, and
  the caller receives the connection error instead: status and status text are lost.
\<close>

theorem upstream_error_lost_at_502:
  "weatherxmApiRequest
     (\<lambda>url headers. Resolved \<lparr>status = 502, statusText = ''Upstream fetch failed'', json = Inr ()\<rparr>)
     ''/stations/WXM123456/latest'' ''key''
   = Inl (JsError ''Unable to connect to WeatherXM service. Please check your internet connection.'')
   \<and> weatherxmApiRequest
     (\<lambda>url headers. Resolved \<lparr>status = 502, statusText = ''Upstream fetch failed'', json = Inr ()\<rparr>)
     ''/stations/WXM123456/latest'' ''key''
   \<noteq> Inl (JsError ''WeatherXM API error: 502 Upstream fetch failed'')"
  by (simp add: weatherxmApiRequest_def request_try_def request_catch_def ok_def
      str_includes_def sublist_Cons_right show_nat.simps)

text \<open>
  Claim C3. Only a transport failure should be reported as the connection error. Here
  the transport worked: the server answered with status 503 and a status text that
  contains \<open>fetch\<close>, and the client still reports the connection error.
\<close>

theorem answered_request_reported_as_unreachable:
  "weatherxmApiRequest
     (\<lambda>url headers. Resolved \<lparr>status = 503, statusText = ''Prefetch quota exhausted'', json = Inr ()\<rparr>)
     ''/stations/WXM123456/latest'' ''key''
   = Inl (JsError ''Unable to connect to WeatherXM service. Please check your internet connection.'')"
  by (simp add: weatherxmApiRequest_def request_try_def request_catch_def ok_def
      str_includes_def sublist_Cons_right show_nat.simps)

text \<open>
  A rejected \<open>fetch\<close> is reported as the connection error exactly when it rejects with an
  \<open>Error\<close> whose message contains \<open>fetch\<close> (as \<open>fetch failed\<close> does); any other
  rejection is thrown on unchanged.
\<close>

lemma api_rejected_fetch:
  assumes "fetch (WEATHERXM_API_BASE @ endpoint)
             [(''User-Agent'', USER_AGENT), (''Accept'', ''application/json''),
              (''X-API-KEY'', key)] = Rejected e"
  shows "weatherxmApiRequest fetch endpoint key =
           Inl (if (\<exists>m. e = JsError m \<and> str_includes m ''fetch'')
                then JsError ''Unable to connect to WeatherXM service. Please check your internet connection.''
                else e)"
  using assms
  by (auto simp: weatherxmApiRequest_def request_try_def request_catch_def split: thrown.splits)

section \<open>Properties of the handlers\<close>

lemma request_rejecting: "weatherxmApiRequest (rejecting e) ep k = Inl (request_catch e)"
  by (simp add: weatherxmApiRequest_def request_try_def rejecting_def)

lemma request_answering: "weatherxmApiRequest (answering d) ep k = Inr d"
  by (simp add: weatherxmApiRequest_def request_try_def answering_def ok_def)

text \<open>
  The two models of a handler. A server seen through \<open>shaped_fetch\<close> gives the bodies of
  the first model as bodies of the second.
\<close>

lemma request_try_shaped:
  "request_try (shaped_fetch shape fetch) endpoint key =
     (case request_try fetch endpoint key of Inl e \<Rightarrow> Inl e | Inr d \<Rightarrow> Inr (shape d))"
proof (cases "fetch (WEATHERXM_API_BASE @ endpoint)
                [(''User-Agent'', USER_AGENT), (''Accept'', ''application/json''),
                 (''X-API-KEY'', key)]")
  case (Rejected e)
  then show ?thesis
    by (simp add: request_try_def shaped_fetch_def)
next
  case (Resolved r)
  then show ?thesis
    by (cases "json r") (simp_all add: request_try_def shaped_fetch_def ok_def)
qed

lemma request_shaped:
  "weatherxmApiRequest (shaped_fetch shape fetch) endpoint key =
     (case weatherxmApiRequest fetch endpoint key of Inl e \<Rightarrow> Inl e | Inr d \<Rightarrow> Inr (shape d))"
  by (cases "request_try fetch endpoint key")
     (simp_all add: weatherxmApiRequest_def request_try_shaped)

lemma all_of_sections:
  assumes "\<And>x. f (g x) = Inr (concat (h x))"
  shows "all_of (map (f \<circ> g) xs) = Inr (concat (concat (map h xs)))"
  using assms by (induction xs) simp_all

lemma each_shaped:
  assumes "\<And>x. f (g x) = Inr (h x)"
  shows "each f (map g xs) = Inr (map h xs)"
  using assms by (induction xs) simp_all

lemma formatTimeAgo_of_Present: "formatTimeAgo_of env (Present s) = formatTimeAgo env s"
  by (simp add: formatTimeAgo_of_def formatTimeAgo_def new_Date_def)

lemma formatLocalTime_of_Present: "formatLocalTime_of env (Present s) = formatLocalTime env s"
  by (simp add: formatLocalTime_of_def formatLocalTime_def new_Date_def)

lemmas present_simps =
  formatTimeAgo_of_Present formatLocalTime_of_Present reading_def toFixed_of_def
  formatTemperature_of_def formatWindSpeed_of_def formatPressure_of_def
  formatPrecipitation_of_def formatPrecipitation_computed_def getWindDirection_of_def
  getWeatherIconDescription_of_def template_number_def template_string_def toNumber_def
  greater_def at_least_def percent_of_def toFixed_computed_def location_line_def
  elevation_line_def shaped_Location_def

lemma current_weather_shaped:
  "current_weather_markdown env station_id (shaped_Latest d) =
     Inr (concat (current_weather_lines env station_id d))"
  by (simp add: current_weather_markdown_def current_weather_lines_def shaped_Latest_def
      shaped_Observation_def shaped_Health_def present_simps Let_def)


lemma station_health_shaped:
  "station_health_markdown env station_id (shaped_Latest d) =
     Inr (concat (station_health_lines env station_id d))"
  by (simp add: station_health_markdown_def station_health_lines_def shaped_Latest_def
      shaped_Observation_def shaped_Health_def present_simps Let_def)

lemma hourly_section_shaped:
  "hourly_section env (shaped_Hourly hour) = Inr (concat (hourly_lines env hour))"
  by (simp add: hourly_section_def hourly_lines_def shaped_Hourly_def present_simps Let_def)

lemma daily_section_shaped:
  "daily_section env (shaped_Daily day) = Inr (concat (daily_lines env day))"
  by (simp add: daily_section_def daily_lines_def shaped_Daily_def present_simps Let_def)

lemma join_of_shaped: "join_of sep (Present (map Present xs)) = Inr (join sep xs)"
  by (simp add: join_of_def comp_def)

lemma alert_section_shaped:
  "alert_section env (shaped_Alert alert) = Inr (concat (alert_lines env alert))"
  by (simp add: alert_section_def alert_lines_def shaped_Alert_def present_simps Let_def
      join_of_shaped)

lemma found_station_section_shaped:
  "found_station_section env (shaped_Station station) =
     Inr (concat (found_station_lines env station))"
  by (simp add: found_station_section_def found_station_lines_def shaped_Station_def
      present_simps)

lemma searched_station_section_shaped:
  "searched_station_section env (shaped_Station station) =
     Inr (concat (searched_station_lines env station))"
  by (simp add: searched_station_section_def searched_station_lines_def shaped_Station_def
      present_simps)

lemma cell_section_shaped:
  "cell_section env (shaped_Cell cell) = Inr (concat (cell_lines env cell))"
  by (simp add: cell_section_def cell_lines_def shaped_Cell_def present_simps)

lemma recent_observation_shaped:
  "recent_observation env (shaped_Point p) = Inr (observation_line env p)"
  by (simp add: recent_observation_def observation_line_def shaped_Point_def present_simps
      Let_def)

lemma or_empty_shaped: "or_empty (shaped_list f v) = map f (or_empty v)"
  by (cases v) (simp_all add: shaped_list_def or_empty_def)


lemma reading_Present: "reading (Present x) property get k = k (get x)"
  by (simp add: reading_def)

lemma all_of_lines:
  assumes "\<And>x. f (g x) = Inr (h x)"
  shows "all_of (map (f \<circ> g) xs) = Inr (concat (map h xs))"
  using assms by (induction xs) simp_all

lemma slice_from_map: "slice_from k (map f xs) = map f (slice_from k xs)"
  by (simp add: slice_from_def Let_def drop_map)

lemma statistics_shaped:
  "Math_max_of (map (Present \<circ> f) xs) = Math_max (map f xs)"
  "Math_min_of (map (Present \<circ> f) xs) = Math_min (map f xs)"
  "sum_of (map (Present \<circ> f) xs) = Some (foldl (\<lambda>a b. fadd a b) 0 (map f xs))"
  "average_of (map (Present \<circ> f) xs) =
     (if length xs = 0 then NaN
      else Fin (fdiv (foldl (\<lambda>a b. fadd a b) 0 (map f xs)) (of_nat (length xs))))"
proof -
  have t: "those (map toNumber (map (Present \<circ> f) xs)) = Some (map f xs)"
    by (induction xs) (simp_all add: toNumber_def)
  show "Math_max_of (map (Present \<circ> f) xs) = Math_max (map f xs)"
    and "Math_min_of (map (Present \<circ> f) xs) = Math_min (map f xs)"
    and s: "sum_of (map (Present \<circ> f) xs) = Some (foldl (\<lambda>a b. fadd a b) 0 (map f xs))"
    by (simp_all add: Math_max_of_def Math_min_of_def sum_of_def t del: map_map)
  show "average_of (map (Present \<circ> f) xs) =
     (if length xs = 0 then NaN
      else Fin (fdiv (foldl (\<lambda>a b. fadd a b) 0 (map f xs)) (of_nat (length xs))))"
    by (simp add: average_of_def s)
qed

lemma hourly_forecast_shaped:
  "hourly_forecast_markdown env station_id hours (shaped_HourlyForecast d) =
     Inr (let fc = or_empty (WeatherXMHourlyForecastResponse.forecast d)
          in if length fc = 0 then ''No hourly forecast available for station '' @ station_id
             else concat
                    ([''# Hourly Forecast - '' @ station_id @ ''\<newline>\<newline>'',
                      ''Forecast for the next '' @ number_to_string env hours @ '' hours\<newline>\<newline>'']
                     @ concat (map (hourly_lines env) fc)))"
  by (simp add: hourly_forecast_markdown_def shaped_HourlyForecast_def reading_def
      or_empty_shaped Let_def
      all_of_sections [of "hourly_section env" shaped_Hourly "hourly_lines env",
        OF hourly_section_shaped])

lemma daily_forecast_shaped:
  "daily_forecast_markdown env station_id days (shaped_DailyForecast d) =
     Inr (let fc = or_empty (WeatherXMDailyForecastResponse.forecast d)
          in if length fc = 0 then ''No daily forecast available for station '' @ station_id
             else concat
                    ([''# Daily Forecast - '' @ station_id @ ''\<newline>\<newline>'',
                      ''Forecast for the next '' @ number_to_string env days @ '' days\<newline>\<newline>'']
                     @ concat (map (daily_lines env) fc)))"
  by (simp add: daily_forecast_markdown_def shaped_DailyForecast_def reading_def
      or_empty_shaped Let_def
      all_of_sections [of "daily_section env" shaped_Daily "daily_lines env",
        OF daily_section_shaped])

lemma weather_alerts_shaped:
  "weather_alerts_markdown env latitude longitude (shaped_Alerts d) =
     Inr (let als = or_empty (alerts d)
          in if length als = 0 then
               ''No active weather alerts for location ''
                 @ number_to_string env latitude @ '', '' @ number_to_string env longitude
             else concat
                    ([''# Weather Alerts\<newline>\<newline>'',
                      ''Location: '' @ number_to_string env latitude @ '', ''
                         @ number_to_string env longitude @ ''\<newline>'',
                      ''Active alerts: '' @ show_nat (length als) @ ''\<newline>\<newline>'']
                     @ concat (map (alert_lines env) als)))"
  by (simp add: weather_alerts_markdown_def shaped_Alerts_def reading_def
      or_empty_shaped Let_def
      all_of_sections [of "alert_section env" shaped_Alert "alert_lines env",
        OF alert_section_shaped])

lemma find_weather_stations_shaped:
  "find_weather_stations_markdown env latitude longitude radius (shaped_Stations d) =
     Inr (let sts = or_empty (WeatherXMStationsResponse.stations d)
          in if length sts = 0 then
               ''# WeatherXM Stations\<newline>\<newline>No weather stations found within ''
                 @ number_to_string env radius @ ''km of '' @ number_to_string env latitude
                 @ '', '' @ number_to_string env longitude @ ''.''
             else concat
                    ([''# WeatherXM Stations Near '' @ number_to_string env latitude @ '', ''
                        @ number_to_string env longitude @ ''\<newline>\<newline>'',
                      ''Found '' @ show_nat (length sts) @ '' station(s) within ''
                        @ number_to_string env radius @ ''km\<newline>\<newline>'']
                     @ concat (map (found_station_lines env) sts)))"
  by (simp add: find_weather_stations_markdown_def shaped_Stations_def reading_def
      or_empty_shaped Let_def
      all_of_sections [of "found_station_section env" shaped_Station "found_station_lines env",
        OF found_station_section_shaped])

lemma search_weather_stations_shaped:
  "search_weather_stations_markdown env query (shaped_Search d) =
     Inr (let res = results d; sts = or_empty (SearchResult.stations res)
          in if length sts = 0 then
               ''No weather stations found matching '' @ [CHR 0x22] @ query @ [CHR 0x22]
             else concat
                    ([''# Weather Station Search Results\<newline>\<newline>'',
                      ''Query: '' @ [CHR 0x22] @ query @ [CHR 0x22] @ ''\<newline>'',
                      ''Found '' @ number_to_string env (total res) @ '' total stations\<newline>'',
                      ''Page '' @ number_to_string env (page res) @ '' of ''
                         @ page_count env (total res) (limit res) @ ''\<newline>\<newline>'']
                     @ concat (map (searched_station_lines env) sts)))"
  by (simp add: search_weather_stations_markdown_def shaped_Search_def reading_def
      or_empty_shaped Let_def template_number_def page_count_of_def toNumber_def
      all_of_sections [of "searched_station_section env" shaped_Station
        "searched_station_lines env", OF searched_station_section_shaped])

lemma weather_cells_shaped:
  "weather_cells_markdown env latitude longitude radius (shaped_Cells d) =
     Inr (let cs = or_empty (cells d)
          in if length cs = 0 then
               ''No weather cells found within '' @ number_to_string env radius
                 @ ''km of '' @ number_to_string env latitude @ '', ''
                 @ number_to_string env longitude
             else concat
                    ([''# WeatherXM Cells Near '' @ number_to_string env latitude @ '', ''
                        @ number_to_string env longitude @ ''\<newline>\<newline>'',
                      ''Found '' @ show_nat (length cs) @ '' cell(s) within ''
                        @ number_to_string env radius @ ''km\<newline>\<newline>'']
                     @ concat (map (cell_lines env) cs)))"
  by (simp add: weather_cells_markdown_def shaped_Cells_def reading_def
      or_empty_shaped Let_def
      all_of_sections [of "cell_section env" shaped_Cell "cell_lines env",
        OF cell_section_shaped])

lemma historical_weather_shaped:
  "historical_weather_markdown env station_id start_date end_date (shaped_Historical d) =
     Inr (let historicalData = or_empty (data d)
          in if length historicalData = 0 then
               ''No historical data available for station '' @ station_id
                 @ '' between '' @ start_date @ '' and '' @ end_date
             else concat
                    (historical_weather_lines env station_id start_date end_date historicalData))"
proof -
  define hd where "hd = or_empty (data d)"
  have t: "each (\<lambda>d. reading d ''temperature'' point_temperature Inr) (map shaped_Point hd) =
             Inr (map Present (map HistoricalDataPoint.temperature hd))"
    using each_shaped [of "\<lambda>d. reading d ''temperature'' point_temperature Inr" shaped_Point
        "\<lambda>p. Present (HistoricalDataPoint.temperature p)" hd]
    by (simp add: reading_def shaped_Point_def comp_def)
  have a: "each (\<lambda>d. reading d ''precipitation_accumulated'' point_precipitation_accumulated Inr)
               (map shaped_Point hd) =
             Inr (map Present (map HistoricalDataPoint.precipitation_accumulated hd))"
    using each_shaped [of "\<lambda>d. reading d ''precipitation_accumulated''
                                 point_precipitation_accumulated Inr" shaped_Point
        "\<lambda>p. Present (HistoricalDataPoint.precipitation_accumulated p)" hd]
    by (simp add: reading_def shaped_Point_def comp_def)
  have r: "all_of (map (recent_observation env \<circ> shaped_Point) ps) =
             Inr (concat (map (observation_line env) ps))" for ps
    by (rule all_of_lines) (rule recent_observation_shaped)
  have f: "foldl (\<lambda>sum d. fadd sum (HistoricalDataPoint.precipitation_accumulated d)) 0 hd =
             foldl (\<lambda>a b. fadd a b) 0 (map HistoricalDataPoint.precipitation_accumulated hd)"
    by (simp add: foldl_map)
  show ?thesis
    unfolding hd_def [symmetric]
    by (simp add: historical_weather_markdown_def shaped_Historical_def reading_Present
        or_empty_shaped hd_def [symmetric] Let_def andThen_def t a statistics_shaped
        slice_from_map r f historical_weather_lines_def formatPrecipitation_computed_def)
qed

lemma station_local_time_shaped:
  "station_local_time_markdown env station_id (shaped_Latest d) =
     Inr (let loc = WeatherXMLatestResponse.location d;
              stationTimezone =
                timezone_offset env (date_parse env (Observation.timestamp (observation d)));
              localTime = (case stationTimezone of
                             None \<Rightarrow> None
                           | Some z \<Rightarrow> Some (now env - z * 60 * 1000));
              formattedTime = locale_string env localTime
          in ''Current local time at station '' @ station_id @ '' (''
               @ toFixed env 4 (lat loc) @ '', '' @ toFixed env 4 (lon loc) @ ''): ''
               @ formattedTime)"
  by (simp add: station_local_time_markdown_def shaped_Latest_def shaped_Observation_def
      present_simps new_Date_def Let_def)

text \<open>
  On a body that has the shape of its interface the two models of a handler are one.
\<close>

lemma handlers_agree_on_shaped_bodies:
  "get_current_weather_unvalidated cfg env (shaped_fetch shaped_Latest f_latest) station_id =
     get_current_weather cfg env f_latest station_id"
  "get_hourly_forecast_unvalidated cfg env (shaped_fetch shaped_HourlyForecast f_hourly)
       station_id hours =
     get_hourly_forecast cfg env f_hourly station_id hours"
  "get_daily_forecast_unvalidated cfg env (shaped_fetch shaped_DailyForecast f_daily)
       station_id days =
     get_daily_forecast cfg env f_daily station_id days"
  "get_historical_weather_unvalidated cfg env (shaped_fetch shaped_Historical f_hist)
       station_id start_date end_date =
     get_historical_weather cfg env f_hist station_id start_date end_date"
  "get_weather_alerts_unvalidated cfg env (shaped_fetch shaped_Alerts f_alerts)
       latitude longitude =
     get_weather_alerts cfg env f_alerts latitude longitude"
  "find_weather_stations_unvalidated cfg env (shaped_fetch shaped_Stations f_stations)
       latitude longitude radius =
     find_weather_stations cfg env f_stations latitude longitude radius"
  "search_weather_stations_unvalidated cfg env (shaped_fetch shaped_Search f_search)
       query pg lm =
     search_weather_stations cfg env f_search query pg lm"
  "get_weather_cells_unvalidated cfg env (shaped_fetch shaped_Cells f_cells)
       latitude longitude radius =
     get_weather_cells cfg env f_cells latitude longitude radius"
  "get_station_health_unvalidated cfg env (shaped_fetch shaped_Latest f_latest) station_id =
     get_station_health cfg env f_latest station_id"
  "get_station_local_time_unvalidated cfg env (shaped_fetch shaped_Latest f_latest) station_id =
     get_station_local_time cfg env f_latest station_id"
  by (simp_all add: get_current_weather_unvalidated_def current_weather_try_def
      get_hourly_forecast_unvalidated_def hourly_forecast_try_def
      get_daily_forecast_unvalidated_def daily_forecast_try_def
      get_historical_weather_unvalidated_def historical_weather_try_def
      get_weather_alerts_unvalidated_def weather_alerts_try_def
      find_weather_stations_unvalidated_def find_weather_stations_try_def
      search_weather_stations_unvalidated_def search_weather_stations_try_def
      get_weather_cells_unvalidated_def weather_cells_try_def
      get_station_health_unvalidated_def station_health_try_def
      get_station_local_time_unvalidated_def station_local_time_try_def
      get_current_weather_def get_hourly_forecast_def get_daily_forecast_def
      get_historical_weather_def get_weather_alerts_def find_weather_stations_def
      search_weather_stations_def get_weather_cells_def get_station_health_def
      get_station_local_time_def
      catching_def andThen_def request_shaped Let_def
      current_weather_shaped hourly_forecast_shaped daily_forecast_shaped
      historical_weather_shaped weather_alerts_shaped find_weather_stations_shaped
      search_weather_stations_shaped weather_cells_shaped station_health_shaped
      station_local_time_shaped
      split: sum.splits)

text \<open>A handler returns one text, whatever its \<open>try\<close> block did.\<close>

lemma handlers_return_text: "\<exists>t. catching attempt = [TextContent t]"
  by (cases attempt) (simp_all add: catching_def catch_as_text_def)

lemma catching_thrown:
  "attempt = Inl e \<Longrightarrow> catching attempt = [TextContent (''Error: '' @ error_message e)]"
  by (simp add: catching_def catch_as_text_def)

text \<open>
  Claim C2. Whatever is thrown inside the \<open>try\<close> block of a handler, the handler returns
  the text \<open>Error: \<close> followed by the message of an \<open>Error\<close>, or by \<open>Unknown error\<close>
  for any other thrown value. The first ten parts say this of the ten handlers. The next
  ten say that what the statements after the request throw on the body they were given
  (the \<open>TypeError\<close> of reading or formatting a property that is absent) is thrown inside
  the block. The parts after them say what the handlers return when the request itself
  fails with any thrown value, and when encoding the query of the search throws; with an
  upstream status 401 the current-weather handler returns exactly the invalid-key text.
  The last parts repeat these two for the handlers on a body of the shape of its
  interface.
\<close>

theorem tool_handlers_catch:
  fixes f_cw f_sh f_lt g_latest f_unauth :: "RawLatestResponse field fetch"
    and f_hf g_hourly :: "RawHourlyForecastResponse field fetch"
    and f_df g_daily :: "RawDailyForecastResponse field fetch"
    and f_hw g_hist :: "RawHistoricalResponse field fetch"
    and f_wa g_alerts :: "RawAlertsResponse field fetch"
    and f_fs g_stations :: "RawStationsResponse field fetch"
    and f_ss g_search :: "RawSearchResponse field fetch"
    and f_wc g_cells :: "RawCellsResponse field fetch"
    and t_latest t_unauth :: "WeatherXMLatestResponse fetch"
    and t_hourly :: "WeatherXMHourlyForecastResponse fetch"
    and t_daily :: "WeatherXMDailyForecastResponse fetch"
    and t_hist :: "WeatherXMHistoricalResponse fetch"
    and t_alerts :: "WeatherXMAlertsResponse fetch"
    and t_stations :: "WeatherXMStationsResponse fetch"
    and t_search :: "WeatherXMSearchResponse fetch"
    and t_cells :: "WeatherXMCellsResponse fetch"
  shows
  "(current_weather_try cfg env f_cw sid = Inl e_cw \<longrightarrow>
       get_current_weather_unvalidated cfg env f_cw sid
         = [TextContent (''Error: '' @ error_message e_cw)])
   \<and> (hourly_forecast_try cfg env f_hf sid hrs = Inl e_hf \<longrightarrow>
       get_hourly_forecast_unvalidated cfg env f_hf sid hrs
         = [TextContent (''Error: '' @ error_message e_hf)])
   \<and> (daily_forecast_try cfg env f_df sid dys = Inl e_df \<longrightarrow>
       get_daily_forecast_unvalidated cfg env f_df sid dys
         = [TextContent (''Error: '' @ error_message e_df)])
   \<and> (historical_weather_try cfg env f_hw sid sd ed = Inl e_hw \<longrightarrow>
       get_historical_weather_unvalidated cfg env f_hw sid sd ed
         = [TextContent (''Error: '' @ error_message e_hw)])
   \<and> (weather_alerts_try cfg env f_wa la lo = Inl e_wa \<longrightarrow>
       get_weather_alerts_unvalidated cfg env f_wa la lo
         = [TextContent (''Error: '' @ error_message e_wa)])
   \<and> (find_weather_stations_try cfg env f_fs la lo rad = Inl e_fs \<longrightarrow>
       find_weather_stations_unvalidated cfg env f_fs la lo rad
         = [TextContent (''Error: '' @ error_message e_fs)])
   \<and> (search_weather_stations_try cfg env f_ss q pg lm = Inl e_ss \<longrightarrow>
       search_weather_stations_unvalidated cfg env f_ss q pg lm
         = [TextContent (''Error: '' @ error_message e_ss)])
   \<and> (weather_cells_try cfg env f_wc la lo rad = Inl e_wc \<longrightarrow>
       get_weather_cells_unvalidated cfg env f_wc la lo rad
         = [TextContent (''Error: '' @ error_message e_wc)])
   \<and> (station_health_try cfg env f_sh sid = Inl e_sh \<longrightarrow>
       get_station_health_unvalidated cfg env f_sh sid
         = [TextContent (''Error: '' @ error_message e_sh)])
   \<and> (station_local_time_try cfg env f_lt sid = Inl e_lt \<longrightarrow>
       get_station_local_time_unvalidated cfg env f_lt sid
         = [TextContent (''Error: '' @ error_message e_lt)])
   \<and> ((\<forall>ep. weatherxmApiRequest f_cw ep (apiKey cfg) = Inr b_cw)
        \<and> current_weather_markdown env sid b_cw = Inl e_cw \<longrightarrow>
       current_weather_try cfg env f_cw sid = Inl e_cw)
   \<and> ((\<forall>ep. weatherxmApiRequest f_hf ep (apiKey cfg) = Inr b_hf)
        \<and> hourly_forecast_markdown env sid (with_default 48 hrs) b_hf = Inl e_hf \<longrightarrow>
       hourly_forecast_try cfg env f_hf sid hrs = Inl e_hf)
   \<and> ((\<forall>ep. weatherxmApiRequest f_df ep (apiKey cfg) = Inr b_df)
        \<and> daily_forecast_markdown env sid (with_default 7 dys) b_df = Inl e_df \<longrightarrow>
       daily_forecast_try cfg env f_df sid dys = Inl e_df)
   \<and> ((\<forall>ep. weatherxmApiRequest f_hw ep (apiKey cfg) = Inr b_hw)
        \<and> historical_weather_markdown env sid sd ed b_hw = Inl e_hw \<longrightarrow>
       historical_weather_try cfg env f_hw sid sd ed = Inl e_hw)
   \<and> ((\<forall>ep. weatherxmApiRequest f_wa ep (apiKey cfg) = Inr b_wa)
        \<and> weather_alerts_markdown env la lo b_wa = Inl e_wa \<longrightarrow>
       weather_alerts_try cfg env f_wa la lo = Inl e_wa)
   \<and> ((\<forall>ep. weatherxmApiRequest f_fs ep (apiKey cfg) = Inr b_fs)
        \<and> find_weather_stations_markdown env la lo (with_default 50 rad) b_fs = Inl e_fs \<longrightarrow>
       find_weather_stations_try cfg env f_fs la lo rad = Inl e_fs)
   \<and> ((\<forall>ep. weatherxmApiRequest f_ss ep (apiKey cfg) = Inr b_ss)
        \<and> encodeURIComponent env q = Inr q'
        \<and> search_weather_stations_markdown env q b_ss = Inl e_ss \<longrightarrow>
       search_weather_stations_try cfg env f_ss q pg lm = Inl e_ss)
   \<and> ((\<forall>ep. weatherxmApiRequest f_wc ep (apiKey cfg) = Inr b_wc)
        \<and> weather_cells_markdown env la lo (with_default 50 rad) b_wc = Inl e_wc \<longrightarrow>
       weather_cells_try cfg env f_wc la lo rad = Inl e_wc)
   \<and> ((\<forall>ep. weatherxmApiRequest f_sh ep (apiKey cfg) = Inr b_sh)
        \<and> station_health_markdown env sid b_sh = Inl e_sh \<longrightarrow>
       station_health_try cfg env f_sh sid = Inl e_sh)
   \<and> ((\<forall>ep. weatherxmApiRequest f_lt ep (apiKey cfg) = Inr b_lt)
        \<and> station_local_time_markdown env sid b_lt = Inl e_lt \<longrightarrow>
       station_local_time_try cfg env f_lt sid = Inl e_lt)
   \<and> ((\<forall>ep. weatherxmApiRequest g_latest ep (apiKey cfg) = Inl c) \<longrightarrow>
       get_current_weather_unvalidated cfg env g_latest sid = [TextContent (''Error: '' @ error_message c)]
     \<and> get_station_health_unvalidated cfg env g_latest sid = [TextContent (''Error: '' @ error_message c)]
     \<and> get_station_local_time_unvalidated cfg env g_latest sid = [TextContent (''Error: '' @ error_message c)])
   \<and> ((\<forall>ep. weatherxmApiRequest g_hourly ep (apiKey cfg) = Inl c) \<longrightarrow>
       get_hourly_forecast_unvalidated cfg env g_hourly sid hrs = [TextContent (''Error: '' @ error_message c)])
   \<and> ((\<forall>ep. weatherxmApiRequest g_daily ep (apiKey cfg) = Inl c) \<longrightarrow>
       get_daily_forecast_unvalidated cfg env g_daily sid dys = [TextContent (''Error: '' @ error_message c)])
   \<and> ((\<forall>ep. weatherxmApiRequest g_hist ep (apiKey cfg) = Inl c) \<longrightarrow>
       get_historical_weather_unvalidated cfg env g_hist sid sd ed = [TextContent (''Error: '' @ error_message c)])
   \<and> ((\<forall>ep. weatherxmApiRequest g_alerts ep (apiKey cfg) = Inl c) \<longrightarrow>
       get_weather_alerts_unvalidated cfg env g_alerts la lo = [TextContent (''Error: '' @ error_message c)])
   \<and> ((\<forall>ep. weatherxmApiRequest g_stations ep (apiKey cfg) = Inl c) \<longrightarrow>
       find_weather_stations_unvalidated cfg env g_stations la lo rad = [TextContent (''Error: '' @ error_message c)])
   \<and> ((\<forall>ep. weatherxmApiRequest g_cells ep (apiKey cfg) = Inl c) \<longrightarrow>
       get_weather_cells_unvalidated cfg env g_cells la lo rad = [TextContent (''Error: '' @ error_message c)])
   \<and> ((\<forall>ep. weatherxmApiRequest g_search ep (apiKey cfg) = Inl c)
        \<and> encodeURIComponent env q = Inr q' \<longrightarrow>
       search_weather_stations_unvalidated cfg env g_search q pg lm = [TextContent (''Error: '' @ error_message c)])
   \<and> (encodeURIComponent envb q = Inl eb \<longrightarrow>
       search_weather_stations_unvalidated cfg envb g_search q pg lm = [TextContent (''Error: '' @ error_message eb)])
   \<and> error_message (JsError m) = m
   \<and> error_message (NonError v) = ''Unknown error''
   \<and> ((\<forall>url hs. f_unauth url hs = Resolved r) \<and> status r = 401 \<longrightarrow>
       get_current_weather_unvalidated cfg env f_unauth sid =
         [TextContent ''Error: Invalid API key. Please check your WeatherXM API key.''])
   \<and> ((\<forall>ep. weatherxmApiRequest t_latest ep (apiKey cfg) = Inl c) \<longrightarrow>
       get_current_weather cfg env t_latest sid = [TextContent (''Error: '' @ error_message c)]
     \<and> get_station_health cfg env t_latest sid = [TextContent (''Error: '' @ error_message c)]
     \<and> get_station_local_time cfg env t_latest sid = [TextContent (''Error: '' @ error_message c)])
   \<and> ((\<forall>ep. weatherxmApiRequest t_hourly ep (apiKey cfg) = Inl c) \<longrightarrow>
       get_hourly_forecast cfg env t_hourly sid hrs = [TextContent (''Error: '' @ error_message c)])
   \<and> ((\<forall>ep. weatherxmApiRequest t_daily ep (apiKey cfg) = Inl c) \<longrightarrow>
       get_daily_forecast cfg env t_daily sid dys = [TextContent (''Error: '' @ error_message c)])
   \<and> ((\<forall>ep. weatherxmApiRequest t_hist ep (apiKey cfg) = Inl c) \<longrightarrow>
       get_historical_weather cfg env t_hist sid sd ed = [TextContent (''Error: '' @ error_message c)])
   \<and> ((\<forall>ep. weatherxmApiRequest t_alerts ep (apiKey cfg) = Inl c) \<longrightarrow>
       get_weather_alerts cfg env t_alerts la lo = [TextContent (''Error: '' @ error_message c)])
   \<and> ((\<forall>ep. weatherxmApiRequest t_stations ep (apiKey cfg) = Inl c) \<longrightarrow>
       find_weather_stations cfg env t_stations la lo rad = [TextContent (''Error: '' @ error_message c)])
   \<and> ((\<forall>ep. weatherxmApiRequest t_cells ep (apiKey cfg) = Inl c) \<longrightarrow>
       get_weather_cells cfg env t_cells la lo rad = [TextContent (''Error: '' @ error_message c)])
   \<and> ((\<forall>ep. weatherxmApiRequest t_search ep (apiKey cfg) = Inl c)
        \<and> encodeURIComponent env q = Inr q' \<longrightarrow>
       search_weather_stations cfg env t_search q pg lm = [TextContent (''Error: '' @ error_message c)])
   \<and> (encodeURIComponent envb q = Inl eb \<longrightarrow>
       search_weather_stations cfg envb t_search q pg lm = [TextContent (''Error: '' @ error_message eb)])
   \<and> ((\<forall>url hs. t_unauth url hs = Resolved tr) \<and> status tr = 401 \<longrightarrow>
       get_current_weather cfg env t_unauth sid =
         [TextContent ''Error: Invalid API key. Please check your WeatherXM API key.''])"
proof -
  have thrown_in_block:
    "current_weather_try cfg env f_cw sid = Inl e_cw \<longrightarrow>
         get_current_weather_unvalidated cfg env f_cw sid
           = [TextContent (''Error: '' @ error_message e_cw)]"
    "hourly_forecast_try cfg env f_hf sid hrs = Inl e_hf \<longrightarrow>
         get_hourly_forecast_unvalidated cfg env f_hf sid hrs
           = [TextContent (''Error: '' @ error_message e_hf)]"
    "daily_forecast_try cfg env f_df sid dys = Inl e_df \<longrightarrow>
         get_daily_forecast_unvalidated cfg env f_df sid dys
           = [TextContent (''Error: '' @ error_message e_df)]"
    "historical_weather_try cfg env f_hw sid sd ed = Inl e_hw \<longrightarrow>
         get_historical_weather_unvalidated cfg env f_hw sid sd ed
           = [TextContent (''Error: '' @ error_message e_hw)]"
    "weather_alerts_try cfg env f_wa la lo = Inl e_wa \<longrightarrow>
         get_weather_alerts_unvalidated cfg env f_wa la lo
           = [TextContent (''Error: '' @ error_message e_wa)]"
    "find_weather_stations_try cfg env f_fs la lo rad = Inl e_fs \<longrightarrow>
         find_weather_stations_unvalidated cfg env f_fs la lo rad
           = [TextContent (''Error: '' @ error_message e_fs)]"
    "search_weather_stations_try cfg env f_ss q pg lm = Inl e_ss \<longrightarrow>
         search_weather_stations_unvalidated cfg env f_ss q pg lm
           = [TextContent (''Error: '' @ error_message e_ss)]"
    "weather_cells_try cfg env f_wc la lo rad = Inl e_wc \<longrightarrow>
         get_weather_cells_unvalidated cfg env f_wc la lo rad
           = [TextContent (''Error: '' @ error_message e_wc)]"
    "station_health_try cfg env f_sh sid = Inl e_sh \<longrightarrow>
         get_station_health_unvalidated cfg env f_sh sid
           = [TextContent (''Error: '' @ error_message e_sh)]"
    "station_local_time_try cfg env f_lt sid = Inl e_lt \<longrightarrow>
         get_station_local_time_unvalidated cfg env f_lt sid
           = [TextContent (''Error: '' @ error_message e_lt)]"
    by (simp_all add: get_current_weather_unvalidated_def get_hourly_forecast_unvalidated_def
        get_daily_forecast_unvalidated_def get_historical_weather_unvalidated_def
        get_weather_alerts_unvalidated_def find_weather_stations_unvalidated_def
        search_weather_stations_unvalidated_def get_weather_cells_unvalidated_def
        get_station_health_unvalidated_def get_station_local_time_unvalidated_def
        catching_thrown)
  have thrown_by_statements:
    "(\<forall>ep. weatherxmApiRequest f_cw ep (apiKey cfg) = Inr b_cw)
          \<and> current_weather_markdown env sid b_cw = Inl e_cw \<longrightarrow>
         current_weather_try cfg env f_cw sid = Inl e_cw"
    "(\<forall>ep. weatherxmApiRequest f_hf ep (apiKey cfg) = Inr b_hf)
          \<and> hourly_forecast_markdown env sid (with_default 48 hrs) b_hf = Inl e_hf \<longrightarrow>
         hourly_forecast_try cfg env f_hf sid hrs = Inl e_hf"
    "(\<forall>ep. weatherxmApiRequest f_df ep (apiKey cfg) = Inr b_df)
          \<and> daily_forecast_markdown env sid (with_default 7 dys) b_df = Inl e_df \<longrightarrow>
         daily_forecast_try cfg env f_df sid dys = Inl e_df"
    "(\<forall>ep. weatherxmApiRequest f_hw ep (apiKey cfg) = Inr b_hw)
          \<and> historical_weather_markdown env sid sd ed b_hw = Inl e_hw \<longrightarrow>
         historical_weather_try cfg env f_hw sid sd ed = Inl e_hw"
    "(\<forall>ep. weatherxmApiRequest f_wa ep (apiKey cfg) = Inr b_wa)
          \<and> weather_alerts_markdown env la lo b_wa = Inl e_wa \<longrightarrow>
         weather_alerts_try cfg env f_wa la lo = Inl e_wa"
    "(\<forall>ep. weatherxmApiRequest f_fs ep (apiKey cfg) = Inr b_fs)
          \<and> find_weather_stations_markdown env la lo (with_default 50 rad) b_fs = Inl e_fs \<longrightarrow>
         find_weather_stations_try cfg env f_fs la lo rad = Inl e_fs"
    "(\<forall>ep. weatherxmApiRequest f_ss ep (apiKey cfg) = Inr b_ss)
          \<and> encodeURIComponent env q = Inr q'
          \<and> search_weather_stations_markdown env q b_ss = Inl e_ss \<longrightarrow>
         search_weather_stations_try cfg env f_ss q pg lm = Inl e_ss"
    "(\<forall>ep. weatherxmApiRequest f_wc ep (apiKey cfg) = Inr b_wc)
          \<and> weather_cells_markdown env la lo (with_default 50 rad) b_wc = Inl e_wc \<longrightarrow>
         weather_cells_try cfg env f_wc la lo rad = Inl e_wc"
    "(\<forall>ep. weatherxmApiRequest f_sh ep (apiKey cfg) = Inr b_sh)
          \<and> station_health_markdown env sid b_sh = Inl e_sh \<longrightarrow>
         station_health_try cfg env f_sh sid = Inl e_sh"
    "(\<forall>ep. weatherxmApiRequest f_lt ep (apiKey cfg) = Inr b_lt)
          \<and> station_local_time_markdown env sid b_lt = Inl e_lt \<longrightarrow>
         station_local_time_try cfg env f_lt sid = Inl e_lt"
    by (simp_all add: current_weather_try_def hourly_forecast_try_def daily_forecast_try_def
        historical_weather_try_def weather_alerts_try_def find_weather_stations_try_def
        search_weather_stations_try_def weather_cells_try_def station_health_try_def
        station_local_time_try_def
        andThen_def Let_def)
  have failed_request:
    "(\<forall>ep. weatherxmApiRequest g_latest ep (apiKey cfg) = Inl c) \<longrightarrow>
         get_current_weather_unvalidated cfg env g_latest sid = [TextContent (''Error: '' @ error_message c)]
       \<and> get_station_health_unvalidated cfg env g_latest sid = [TextContent (''Error: '' @ error_message c)]
       \<and> get_station_local_time_unvalidated cfg env g_latest sid = [TextContent (''Error: '' @ error_message c)]"
    "(\<forall>ep. weatherxmApiRequest g_hourly ep (apiKey cfg) = Inl c) \<longrightarrow>
         get_hourly_forecast_unvalidated cfg env g_hourly sid hrs = [TextContent (''Error: '' @ error_message c)]"
    "(\<forall>ep. weatherxmApiRequest g_daily ep (apiKey cfg) = Inl c) \<longrightarrow>
         get_daily_forecast_unvalidated cfg env g_daily sid dys = [TextContent (''Error: '' @ error_message c)]"
    "(\<forall>ep. weatherxmApiRequest g_hist ep (apiKey cfg) = Inl c) \<longrightarrow>
         get_historical_weather_unvalidated cfg env g_hist sid sd ed = [TextContent (''Error: '' @ error_message c)]"
    "(\<forall>ep. weatherxmApiRequest g_alerts ep (apiKey cfg) = Inl c) \<longrightarrow>
         get_weather_alerts_unvalidated cfg env g_alerts la lo = [TextContent (''Error: '' @ error_message c)]"
    "(\<forall>ep. weatherxmApiRequest g_stations ep (apiKey cfg) = Inl c) \<longrightarrow>
         find_weather_stations_unvalidated cfg env g_stations la lo rad = [TextContent (''Error: '' @ error_message c)]"
    "(\<forall>ep. weatherxmApiRequest g_cells ep (apiKey cfg) = Inl c) \<longrightarrow>
         get_weather_cells_unvalidated cfg env g_cells la lo rad = [TextContent (''Error: '' @ error_message c)]"
    "(\<forall>ep. weatherxmApiRequest g_search ep (apiKey cfg) = Inl c)
          \<and> encodeURIComponent env q = Inr q' \<longrightarrow>
         search_weather_stations_unvalidated cfg env g_search q pg lm = [TextContent (''Error: '' @ error_message c)]"
    "encodeURIComponent envb q = Inl eb \<longrightarrow>
         search_weather_stations_unvalidated cfg envb g_search q pg lm = [TextContent (''Error: '' @ error_message eb)]"
    by (simp_all add: get_current_weather_unvalidated_def get_hourly_forecast_unvalidated_def
        get_daily_forecast_unvalidated_def get_historical_weather_unvalidated_def
        get_weather_alerts_unvalidated_def find_weather_stations_unvalidated_def
        search_weather_stations_unvalidated_def get_weather_cells_unvalidated_def
        get_station_health_unvalidated_def get_station_local_time_unvalidated_def
        current_weather_try_def hourly_forecast_try_def daily_forecast_try_def
        historical_weather_try_def weather_alerts_try_def find_weather_stations_try_def
        search_weather_stations_try_def weather_cells_try_def station_health_try_def
        station_local_time_try_def
        andThen_def Let_def catching_def catch_as_text_def)
  have message:
    "error_message (JsError m) = m"
    "error_message (NonError v) = ''Unknown error''"
    by (simp_all add: error_message_def)
  have unauthorized:
    "(\<forall>url hs. f_unauth url hs = Resolved r) \<and> status r = 401 \<longrightarrow>
         get_current_weather_unvalidated cfg env f_unauth sid =
           [TextContent ''Error: Invalid API key. Please check your WeatherXM API key.'']"
    using api_fixed_status_errors(1) [of f_unauth _ _ r]
    by (simp add: get_current_weather_unvalidated_def current_weather_try_def andThen_def
        catching_def catch_as_text_def error_message_def)
  have failed_request_typed:
    "(\<forall>ep. weatherxmApiRequest t_latest ep (apiKey cfg) = Inl c) \<longrightarrow>
         get_current_weather cfg env t_latest sid = [TextContent (''Error: '' @ error_message c)]
       \<and> get_station_health cfg env t_latest sid = [TextContent (''Error: '' @ error_message c)]
       \<and> get_station_local_time cfg env t_latest sid = [TextContent (''Error: '' @ error_message c)]"
    "(\<forall>ep. weatherxmApiRequest t_hourly ep (apiKey cfg) = Inl c) \<longrightarrow>
         get_hourly_forecast cfg env t_hourly sid hrs = [TextContent (''Error: '' @ error_message c)]"
    "(\<forall>ep. weatherxmApiRequest t_daily ep (apiKey cfg) = Inl c) \<longrightarrow>
         get_daily_forecast cfg env t_daily sid dys = [TextContent (''Error: '' @ error_message c)]"
    "(\<forall>ep. weatherxmApiRequest t_hist ep (apiKey cfg) = Inl c) \<longrightarrow>
         get_historical_weather cfg env t_hist sid sd ed = [TextContent (''Error: '' @ error_message c)]"
    "(\<forall>ep. weatherxmApiRequest t_alerts ep (apiKey cfg) = Inl c) \<longrightarrow>
         get_weather_alerts cfg env t_alerts la lo = [TextContent (''Error: '' @ error_message c)]"
    "(\<forall>ep. weatherxmApiRequest t_stations ep (apiKey cfg) = Inl c) \<longrightarrow>
         find_weather_stations cfg env t_stations la lo rad = [TextContent (''Error: '' @ error_message c)]"
    "(\<forall>ep. weatherxmApiRequest t_cells ep (apiKey cfg) = Inl c) \<longrightarrow>
         get_weather_cells cfg env t_cells la lo rad = [TextContent (''Error: '' @ error_message c)]"
    "(\<forall>ep. weatherxmApiRequest t_search ep (apiKey cfg) = Inl c)
          \<and> encodeURIComponent env q = Inr q' \<longrightarrow>
         search_weather_stations cfg env t_search q pg lm = [TextContent (''Error: '' @ error_message c)]"
    "encodeURIComponent envb q = Inl eb \<longrightarrow>
         search_weather_stations cfg envb t_search q pg lm = [TextContent (''Error: '' @ error_message eb)]"
    by (simp_all add: get_current_weather_def get_station_health_def get_station_local_time_def
        get_hourly_forecast_def get_daily_forecast_def get_historical_weather_def
        get_weather_alerts_def find_weather_stations_def get_weather_cells_def
        search_weather_stations_def catch_as_text_def Let_def)
  have unauthorized_typed:
    "(\<forall>url hs. t_unauth url hs = Resolved tr) \<and> status tr = 401 \<longrightarrow>
         get_current_weather cfg env t_unauth sid =
           [TextContent ''Error: Invalid API key. Please check your WeatherXM API key.'']"
    using api_fixed_status_errors(1) [of t_unauth _ _ tr]
    by (simp add: get_current_weather_def catch_as_text_def error_message_def)
  show ?thesis
    by (intro conjI;
        (rule thrown_in_block thrown_by_statements failed_request message unauthorized
           failed_request_typed unauthorized_typed))
qed

theorem tool_handlers_catch_witness:
  "get_current_weather_unvalidated example_config example_env
       (answering (example_body Missing)) ''WXM1''
     = [TextContent (''Error: Cannot read properties of undefined (reading ''
          @ [CHR 0x27] @ ''toFixed'' @ [CHR 0x27] @ '')'')]
   \<and> get_hourly_forecast_unvalidated example_config example_env
       (answering (Present \<lparr>body_hourly_forecast = Present [Null]\<rparr>)) ''WXM1'' None
     = [TextContent (''Error: Cannot read properties of null (reading ''
          @ [CHR 0x27] @ ''timestamp'' @ [CHR 0x27] @ '')'')]
   \<and> get_daily_forecast_unvalidated example_config example_env
       (answering (Null)) ''WXM1'' None
     = [TextContent (''Error: Cannot read properties of null (reading ''
          @ [CHR 0x27] @ ''forecast'' @ [CHR 0x27] @ '')'')]
   \<and> get_historical_weather_unvalidated example_config example_env
       (answering (Present \<lparr>body_data = Present [Null]\<rparr>)) ''WXM1'' ''2024-01-01'' ''2024-01-07''
     = [TextContent (''Error: Cannot read properties of null (reading ''
          @ [CHR 0x27] @ ''temperature'' @ [CHR 0x27] @ '')'')]
   \<and> get_weather_alerts_unvalidated example_config example_env
       (answering (Present \<lparr>body_alerts = Present [example_alert Missing]\<rparr>)) 38 23
     = [TextContent (''Error: Cannot read properties of undefined (reading ''
          @ [CHR 0x27] @ ''join'' @ [CHR 0x27] @ '')'')]
   \<and> find_weather_stations_unvalidated example_config example_env
       (answering (Present \<lparr>body_stations = Present [example_station Missing]\<rparr>)) 38 23 None
     = [TextContent (''Error: Cannot read properties of undefined (reading ''
          @ [CHR 0x27] @ ''lat'' @ [CHR 0x27] @ '')'')]
   \<and> search_weather_stations_unvalidated example_config example_env
       (answering (Present \<lparr>body_results = Missing\<rparr>)) ''athens'' None None
     = [TextContent (''Error: Cannot read properties of undefined (reading ''
          @ [CHR 0x27] @ ''stations'' @ [CHR 0x27] @ '')'')]
   \<and> get_weather_cells_unvalidated example_config example_env
       (answering (Present \<lparr>body_cells = Present [example_cell Null]\<rparr>)) 38 23 None
     = [TextContent (''Error: Cannot read properties of null (reading ''
          @ [CHR 0x27] @ ''lat'' @ [CHR 0x27] @ '')'')]
   \<and> get_station_health_unvalidated example_config example_env
       (answering (empty_object)) ''WXM1''
     = [TextContent (''Error: Cannot read properties of undefined (reading ''
          @ [CHR 0x27] @ ''lat'' @ [CHR 0x27] @ '')'')]
   \<and> get_station_local_time_unvalidated example_config example_env
       (answering (Null)) ''WXM1''
     = [TextContent (''Error: Cannot read properties of null (reading ''
          @ [CHR 0x27] @ ''location'' @ [CHR 0x27] @ '')'')]
   \<and> get_current_weather_unvalidated example_config example_env
       (rejecting (NonError ''boom'')) ''WXM1''
     = [TextContent ''Error: Unknown error'']
   \<and> get_hourly_forecast_unvalidated example_config example_env
       (rejecting (NonError ''boom'')) ''WXM1'' None
     = [TextContent ''Error: Unknown error'']
   \<and> get_daily_forecast_unvalidated example_config example_env
       (rejecting (NonError ''boom'')) ''WXM1'' None
     = [TextContent ''Error: Unknown error'']
   \<and> get_historical_weather_unvalidated example_config example_env
       (rejecting (NonError ''boom'')) ''WXM1'' ''2024-01-01'' ''2024-01-07''
     = [TextContent ''Error: Unknown error'']
   \<and> get_weather_alerts_unvalidated example_config example_env
       (rejecting (NonError ''boom'')) 38 23
     = [TextContent ''Error: Unknown error'']
   \<and> find_weather_stations_unvalidated example_config example_env
       (rejecting (NonError ''boom'')) 38 23 None
     = [TextContent ''Error: Unknown error'']
   \<and> search_weather_stations_unvalidated example_config example_env
       (rejecting (NonError ''boom'')) ''athens'' None None
     = [TextContent ''Error: Unknown error'']
   \<and> get_weather_cells_unvalidated example_config example_env
       (rejecting (NonError ''boom'')) 38 23 None
     = [TextContent ''Error: Unknown error'']
   \<and> get_station_health_unvalidated example_config example_env
       (rejecting (NonError ''boom'')) ''WXM1''
     = [TextContent ''Error: Unknown error'']
   \<and> get_station_local_time_unvalidated example_config example_env
       (rejecting (NonError ''boom'')) ''WXM1''
     = [TextContent ''Error: Unknown error'']
   \<and> search_weather_stations_unvalidated example_config
       (example_env\<lparr>encodeURIComponent := (\<lambda>s. Inl (JsError ''URI malformed''))\<rparr>)
       (rejecting (NonError ''boom'')) ''athens'' None None
     = [TextContent ''Error: URI malformed'']
   \<and> get_current_weather_unvalidated example_config example_env
       (answering_status 401 ''Unauthorized'') ''WXM1''
     = [TextContent ''Error: Invalid API key. Please check your WeatherXM API key.'']
   \<and> get_current_weather example_config example_env
       (rejecting (NonError ''boom'')) ''WXM1''
     = [TextContent ''Error: Unknown error'']
   \<and> get_hourly_forecast example_config example_env
       (rejecting (NonError ''boom'')) ''WXM1'' None
     = [TextContent ''Error: Unknown error'']
   \<and> get_daily_forecast example_config example_env
       (rejecting (NonError ''boom'')) ''WXM1'' None
     = [TextContent ''Error: Unknown error'']
   \<and> get_historical_weather example_config example_env
       (rejecting (NonError ''boom'')) ''WXM1'' ''2024-01-01'' ''2024-01-07''
     = [TextContent ''Error: Unknown error'']
   \<and> get_weather_alerts example_config example_env
       (rejecting (NonError ''boom'')) 38 23
     = [TextContent ''Error: Unknown error'']
   \<and> find_weather_stations example_config example_env
       (rejecting (NonError ''boom'')) 38 23 None
     = [TextContent ''Error: Unknown error'']
   \<and> search_weather_stations example_config example_env
       (rejecting (NonError ''boom'')) ''athens'' None None
     = [TextContent ''Error: Unknown error'']
   \<and> get_weather_cells example_config example_env
       (rejecting (NonError ''boom'')) 38 23 None
     = [TextContent ''Error: Unknown error'']
   \<and> get_station_health example_config example_env
       (rejecting (NonError ''boom'')) ''WXM1''
     = [TextContent ''Error: Unknown error'']
   \<and> get_station_local_time example_config example_env
       (rejecting (NonError ''boom'')) ''WXM1''
     = [TextContent ''Error: Unknown error'']
   \<and> search_weather_stations example_config
       (example_env\<lparr>encodeURIComponent := (\<lambda>s. Inl (JsError ''URI malformed''))\<rparr>)
       (rejecting (NonError ''boom'')) ''athens'' None None
     = [TextContent ''Error: URI malformed'']
   \<and> get_current_weather example_config example_env
       (answering_status 401 ''Unauthorized'') ''WXM1''
     = [TextContent ''Error: Invalid API key. Please check your WeatherXM API key.'']"
proof -
  have a: "request_catch (NonError ''boom'') = NonError ''boom''"
    by (simp add: request_catch_def)
  have b: "encodeURIComponent example_env ''athens'' = Inr ''athens''"
    by (simp add: example_env_def)
  have c: "encodeURIComponent
             (example_env\<lparr>encodeURIComponent := (\<lambda>s. Inl (JsError ''URI malformed''))\<rparr>)
             ''athens'' = Inl (JsError ''URI malformed'')"
    by simp
  have d: "\<forall>url hs. (answering_status 401 ''Unauthorized'' :: RawLatestResponse field fetch) url hs
             = Resolved \<lparr>status = 401, statusText = ''Unauthorized'',
                          json = Inl (JsError ''Unexpected end of JSON input'')\<rparr>"
    by (simp add: answering_status_def)
  have t: "\<forall>url hs. (answering_status 401 ''Unauthorized'' :: WeatherXMLatestResponse fetch) url hs
             = Resolved \<lparr>status = 401, statusText = ''Unauthorized'',
                          json = Inl (JsError ''Unexpected end of JSON input'')\<rparr>"
    by (simp add: answering_status_def)
  note unfold_markdown =
    current_weather_markdown_def station_health_markdown_def station_local_time_markdown_def
    hourly_forecast_markdown_def hourly_section_def daily_forecast_markdown_def
    historical_weather_markdown_def weather_alerts_markdown_def alert_section_def
    find_weather_stations_markdown_def found_station_section_def
    search_weather_stations_markdown_def weather_cells_markdown_def cell_section_def
    example_body_def empty_object_def example_alert_def example_station_def example_cell_def
    reading_def location_line_def elevation_line_def toFixed_of_def formatTemperature_of_def
    join_of_def cannot_read_def or_empty_def andThen_def Let_def
  have m_cw:
    "current_weather_markdown example_env ''WXM1''
       (example_body Missing)
      = Inl (JsError (''Cannot read properties of undefined (reading '' @ [CHR 0x27] @ ''toFixed''
                   @ [CHR 0x27] @ '')''))"
    by (simp add: unfold_markdown)
  have m_hf:
    "hourly_forecast_markdown example_env ''WXM1'' (with_default 48 None)
       (Present \<lparr>body_hourly_forecast = Present [Null]\<rparr>)
      = Inl (JsError (''Cannot read properties of null (reading '' @ [CHR 0x27] @ ''timestamp''
                   @ [CHR 0x27] @ '')''))"
    by (simp add: unfold_markdown)
  have m_df:
    "daily_forecast_markdown example_env ''WXM1'' (with_default 7 None)
       (Null)
      = Inl (JsError (''Cannot read properties of null (reading '' @ [CHR 0x27] @ ''forecast''
                   @ [CHR 0x27] @ '')''))"
    by (simp add: unfold_markdown)
  have m_hw:
    "historical_weather_markdown example_env ''WXM1'' ''2024-01-01'' ''2024-01-07''
       (Present \<lparr>body_data = Present [Null]\<rparr>)
      = Inl (JsError (''Cannot read properties of null (reading '' @ [CHR 0x27] @ ''temperature''
                   @ [CHR 0x27] @ '')''))"
    by (simp add: unfold_markdown)
  have m_wa:
    "weather_alerts_markdown example_env 38 23
       (Present \<lparr>body_alerts = Present [example_alert Missing]\<rparr>)
      = Inl (JsError (''Cannot read properties of undefined (reading '' @ [CHR 0x27] @ ''join''
                   @ [CHR 0x27] @ '')''))"
    by (simp add: unfold_markdown)
  have m_fs:
    "find_weather_stations_markdown example_env 38 23 (with_default 50 None)
       (Present \<lparr>body_stations = Present [example_station Missing]\<rparr>)
      = Inl (JsError (''Cannot read properties of undefined (reading '' @ [CHR 0x27] @ ''lat''
                   @ [CHR 0x27] @ '')''))"
    by (simp add: unfold_markdown)
  have m_ss:
    "search_weather_stations_markdown example_env ''athens''
       (Present \<lparr>body_results = Missing\<rparr>)
      = Inl (JsError (''Cannot read properties of undefined (reading '' @ [CHR 0x27] @ ''stations''
                   @ [CHR 0x27] @ '')''))"
    by (simp add: unfold_markdown)
  have m_wc:
    "weather_cells_markdown example_env 38 23 (with_default 50 None)
       (Present \<lparr>body_cells = Present [example_cell Null]\<rparr>)
      = Inl (JsError (''Cannot read properties of null (reading '' @ [CHR 0x27] @ ''lat''
                   @ [CHR 0x27] @ '')''))"
    by (simp add: unfold_markdown)
  have m_sh:
    "station_health_markdown example_env ''WXM1''
       (empty_object)
      = Inl (JsError (''Cannot read properties of undefined (reading '' @ [CHR 0x27] @ ''lat''
                   @ [CHR 0x27] @ '')''))"
    by (simp add: unfold_markdown)
  have m_lt:
    "station_local_time_markdown example_env ''WXM1''
       (Null)
      = Inl (JsError (''Cannot read properties of null (reading '' @ [CHR 0x27] @ ''location''
                   @ [CHR 0x27] @ '')''))"
    by (simp add: unfold_markdown)
  show ?thesis
    using tool_handlers_catch [where cfg = example_config
        and env = example_env
        and sid = "''WXM1''"
        and hrs = None
        and dys = None
        and sd = "''2024-01-01''"
        and ed = "''2024-01-07''"
        and la = 38
        and lo = 23
        and rad = None
        and pg = None
        and lm = None
        and q = "''athens''"
        and q' = "''athens''"
        and f_cw = "answering (example_body Missing)"
        and b_cw = "example_body Missing"
        and e_cw = "JsError (''Cannot read properties of undefined (reading '' @ [CHR 0x27] @ ''toFixed''
              @ [CHR 0x27] @ '')'')"
        and f_hf = "answering (Present \<lparr>body_hourly_forecast = Present [Null]\<rparr>)"
        and b_hf = "Present \<lparr>body_hourly_forecast = Present [Null]\<rparr>"
        and e_hf = "JsError (''Cannot read properties of null (reading '' @ [CHR 0x27] @ ''timestamp''
              @ [CHR 0x27] @ '')'')"
        and f_df = "answering (Null)"
        and b_df = "Null"
        and e_df = "JsError (''Cannot read properties of null (reading '' @ [CHR 0x27] @ ''forecast''
              @ [CHR 0x27] @ '')'')"
        and f_hw = "answering (Present \<lparr>body_data = Present [Null]\<rparr>)"
        and b_hw = "Present \<lparr>body_data = Present [Null]\<rparr>"
        and e_hw = "JsError (''Cannot read properties of null (reading '' @ [CHR 0x27] @ ''temperature''
              @ [CHR 0x27] @ '')'')"
        and f_wa = "answering (Present \<lparr>body_alerts = Present [example_alert Missing]\<rparr>)"
        and b_wa = "Present \<lparr>body_alerts = Present [example_alert Missing]\<rparr>"
        and e_wa = "JsError (''Cannot read properties of undefined (reading '' @ [CHR 0x27] @ ''join''
              @ [CHR 0x27] @ '')'')"
        and f_fs = "answering (Present \<lparr>body_stations = Present [example_station Missing]\<rparr>)"
        and b_fs = "Present \<lparr>body_stations = Present [example_station Missing]\<rparr>"
        and e_fs = "JsError (''Cannot read properties of undefined (reading '' @ [CHR 0x27] @ ''lat''
              @ [CHR 0x27] @ '')'')"
        and f_ss = "answering (Present \<lparr>body_results = Missing\<rparr>)"
        and b_ss = "Present \<lparr>body_results = Missing\<rparr>"
        and e_ss = "JsError (''Cannot read properties of undefined (reading '' @ [CHR 0x27] @ ''stations''
              @ [CHR 0x27] @ '')'')"
        and f_wc = "answering (Present \<lparr>body_cells = Present [example_cell Null]\<rparr>)"
        and b_wc = "Present \<lparr>body_cells = Present [example_cell Null]\<rparr>"
        and e_wc = "JsError (''Cannot read properties of null (reading '' @ [CHR 0x27] @ ''lat''
              @ [CHR 0x27] @ '')'')"
        and f_sh = "answering (empty_object)"
        and b_sh = "empty_object"
        and e_sh = "JsError (''Cannot read properties of undefined (reading '' @ [CHR 0x27] @ ''lat''
              @ [CHR 0x27] @ '')'')"
        and f_lt = "answering (Null)"
        and b_lt = "Null"
        and e_lt = "JsError (''Cannot read properties of null (reading '' @ [CHR 0x27] @ ''location''
              @ [CHR 0x27] @ '')'')"
        and g_latest = "rejecting (NonError ''boom'')"
        and g_hourly = "rejecting (NonError ''boom'')"
        and g_daily = "rejecting (NonError ''boom'')"
        and g_hist = "rejecting (NonError ''boom'')"
        and g_alerts = "rejecting (NonError ''boom'')"
        and g_stations = "rejecting (NonError ''boom'')"
        and g_cells = "rejecting (NonError ''boom'')"
        and g_search = "rejecting (NonError ''boom'')"
        and t_latest = "rejecting (NonError ''boom'')"
        and t_hourly = "rejecting (NonError ''boom'')"
        and t_daily = "rejecting (NonError ''boom'')"
        and t_hist = "rejecting (NonError ''boom'')"
        and t_alerts = "rejecting (NonError ''boom'')"
        and t_stations = "rejecting (NonError ''boom'')"
        and t_cells = "rejecting (NonError ''boom'')"
        and t_search = "rejecting (NonError ''boom'')"
        and c = "NonError ''boom''"
        and envb = "example_env\<lparr>encodeURIComponent := (\<lambda>s. Inl (JsError ''URI malformed''))\<rparr>"
        and eb = "JsError ''URI malformed''"
        and m = "''URI malformed''"
        and v = "''boom''"
        and f_unauth = "answering_status 401 ''Unauthorized''"
        and t_unauth = "answering_status 401 ''Unauthorized''"
        and r = "\<lparr>status = 401, statusText = ''Unauthorized'',
                   json = Inl (JsError ''Unexpected end of JSON input'')\<rparr>"
        and tr = "\<lparr>status = 401, statusText = ''Unauthorized'',
                   json = Inl (JsError ''Unexpected end of JSON input'')\<rparr>"]
      a b c d t m_cw m_hf m_df m_hw m_wa m_fs m_ss m_wc m_sh m_lt
    by (simp add: error_message_def request_rejecting request_answering)
qed

text \<open>
  Claim C9. When the response of the hourly (daily) forecast request has no \<open>forecast\<close>
  property, or has \<open>null\<close> there, the handler takes the empty list for it and returns
  the no-forecast text with the station id.
\<close>

theorem forecast_absent_field:
  "((\<forall>ep. weatherxmApiRequest fh ep (apiKey cfg) = Inr dh)
      \<and> (WeatherXMHourlyForecastResponse.forecast dh = Missing
          \<or> WeatherXMHourlyForecastResponse.forecast dh = Null) \<longrightarrow>
       get_hourly_forecast cfg env fh sid hrs
         = [TextContent (''No hourly forecast available for station '' @ sid)])
   \<and> ((\<forall>ep. weatherxmApiRequest fd ep (apiKey cfg) = Inr dd)
      \<and> (WeatherXMDailyForecastResponse.forecast dd = Missing
          \<or> WeatherXMDailyForecastResponse.forecast dd = Null) \<longrightarrow>
       get_daily_forecast cfg env fd sid dys
         = [TextContent (''No daily forecast available for station '' @ sid)])"
  by (auto simp: get_hourly_forecast_def get_daily_forecast_def or_empty_def Let_def)

theorem forecast_absent_field_witness:
  "get_hourly_forecast example_config example_env
       (answering \<lparr>WeatherXMHourlyForecastResponse.forecast = Missing\<rparr>) ''WXM1'' None
     = [TextContent ''No hourly forecast available for station WXM1'']
   \<and> get_daily_forecast example_config example_env
       (answering \<lparr>WeatherXMDailyForecastResponse.forecast = Null\<rparr>) ''WXM1'' (Some 3)
     = [TextContent ''No daily forecast available for station WXM1'']"
proof -
  show ?thesis
    using forecast_absent_field [where cfg = example_config and env = example_env
        and fh = "answering \<lparr>WeatherXMHourlyForecastResponse.forecast = Missing\<rparr>"
        and dh = "\<lparr>WeatherXMHourlyForecastResponse.forecast = Missing\<rparr>"
        and fd = "answering \<lparr>WeatherXMDailyForecastResponse.forecast = Null\<rparr>"
        and dd = "\<lparr>WeatherXMDailyForecastResponse.forecast = Null\<rparr>"
        and sid = "''WXM1''" and hrs = None and dys = "Some 3"]
    by (simp add: request_answering)
qed

lemma fl_thresholds:
  "fl (6 / 10) \<le> fl (79999 / 100000)" "fl (79999 / 100000) < fl (8 / 10)"
  "fl (4 / 10) < fl (6 / 10)" "fl (6 / 10) < fl (8 / 10)" "fl (39999 / 100000) < fl (4 / 10)"
  by code_simp+

text \<open>
  Claim C6. The last line of the station-health text is chosen by the data-quality score
  with inclusive lower bounds 0.8, 0.6 and 0.4 (the doubles these literals denote): the
  scores 0.8, 0.79999 and 0.4 give Excellent, Good and Fair.
\<close>

theorem station_health_assessment:
  "(let s = DataQuality.score (data_quality (health d));
        a = last (station_health_lines env sid d)
    in (fl (8 / 10) \<le> s \<longrightarrow> a = ''**Overall Assessment:** Excellent data quality\<newline>'')
     \<and> (fl (6 / 10) \<le> s \<and> s < fl (8 / 10) \<longrightarrow> a = ''**Overall Assessment:** Good data quality\<newline>'')
     \<and> (fl (4 / 10) \<le> s \<and> s < fl (6 / 10) \<longrightarrow> a = ''**Overall Assessment:** Fair data quality\<newline>'')
     \<and> (s < fl (4 / 10) \<longrightarrow> a = ''**Overall Assessment:** Poor data quality - use with caution\<newline>'')
     \<and> (s = fl (8 / 10) \<longrightarrow> a = ''**Overall Assessment:** Excellent data quality\<newline>'')
     \<and> (s = fl (79999 / 100000) \<longrightarrow> a = ''**Overall Assessment:** Good data quality\<newline>'')
     \<and> (s = fl (4 / 10) \<longrightarrow> a = ''**Overall Assessment:** Fair data quality\<newline>'')
     \<and> ((\<forall>ep. weatherxmApiRequest fetch ep (apiKey cfg) = Inr d)
          \<longrightarrow> (\<exists>pre. get_station_health cfg env fetch sid = [TextContent (pre @ a)])))"
proof -
  let ?s = "DataQuality.score (data_quality (health d))"
  let ?ls = "station_health_lines env sid d"
  have a: "last ?ls =
     (if ?s \<ge> fl (8 / 10) then ''**Overall Assessment:** Excellent data quality\<newline>''
      else if ?s \<ge> fl (6 / 10) then ''**Overall Assessment:** Good data quality\<newline>''
      else if ?s \<ge> fl (4 / 10) then ''**Overall Assessment:** Fair data quality\<newline>''
      else ''**Overall Assessment:** Poor data quality - use with caution\<newline>'')"
    unfolding station_health_lines_def Let_def by simp
  have ne: "?ls \<noteq> []"
    unfolding station_health_lines_def Let_def by simp
  have h: "\<exists>pre. get_station_health cfg env fetch sid = [TextContent (pre @ last ?ls)]"
    if "\<forall>ep. weatherxmApiRequest fetch ep (apiKey cfg) = Inr d"
  proof -
    have "concat ?ls = concat (butlast ?ls) @ last ?ls"
      using ne by (metis append_butlast_last_id concat.simps(2) concat_append append_Nil2 concat.simps(1))
    then show ?thesis
      using that by (auto simp: get_station_health_def)
  qed
  show ?thesis
    unfolding Let_def using fl_thresholds h by (auto simp: a)
qed

theorem station_health_assessment_witness:
  "last (station_health_lines example_env ''WXM1'' (example_latest (fl (8 / 10)) 5 2))
     = ''**Overall Assessment:** Excellent data quality\<newline>''
   \<and> last (station_health_lines example_env ''WXM1'' (example_latest (fl (79999 / 100000)) 5 2))
     = ''**Overall Assessment:** Good data quality\<newline>''
   \<and> last (station_health_lines example_env ''WXM1'' (example_latest (fl (4 / 10)) 5 2))
     = ''**Overall Assessment:** Fair data quality\<newline>''
   \<and> last (station_health_lines example_env ''WXM1'' (example_latest (fl (39999 / 100000)) 5 2))
     = ''**Overall Assessment:** Poor data quality - use with caution\<newline>''
   \<and> (\<exists>pre. get_station_health example_config example_env
                (answering (example_latest (fl (8 / 10)) 5 2)) ''WXM1''
              = [TextContent (pre @ ''**Overall Assessment:** Excellent data quality\<newline>'')])"
proof -
  have s: "DataQuality.score (data_quality (health (example_latest q g p))) = q" for q g p
    by (simp add: example_latest_def)
  have a: "last (station_health_lines example_env ''WXM1'' (example_latest (fl (8 / 10)) 5 2))
     = ''**Overall Assessment:** Excellent data quality\<newline>''"
    using station_health_assessment [where d = "example_latest (fl (8 / 10)) 5 2"
      and env = example_env and sid = "''WXM1''"]
    by (simp add: Let_def s)
  have b: "last (station_health_lines example_env ''WXM1'' (example_latest (fl (79999 / 100000)) 5 2))
     = ''**Overall Assessment:** Good data quality\<newline>''"
    using station_health_assessment [where d = "example_latest (fl (79999 / 100000)) 5 2"
      and env = example_env and sid = "''WXM1''"]
    by (simp add: Let_def s)
  have c: "last (station_health_lines example_env ''WXM1'' (example_latest (fl (4 / 10)) 5 2))
     = ''**Overall Assessment:** Fair data quality\<newline>''"
    using station_health_assessment [where d = "example_latest (fl (4 / 10)) 5 2"
      and env = example_env and sid = "''WXM1''"]
    by (simp add: Let_def s)
  have d: "last (station_health_lines example_env ''WXM1'' (example_latest (fl (39999 / 100000)) 5 2))
     = ''**Overall Assessment:** Poor data quality - use with caution\<newline>''"
    using station_health_assessment [where d = "example_latest (fl (39999 / 100000)) 5 2"
      and env = example_env and sid = "''WXM1''"] fl_thresholds(5)
    by (simp add: Let_def s)
  have e: "\<exists>pre. get_station_health example_config example_env
                (answering (example_latest (fl (8 / 10)) 5 2)) ''WXM1''
              = [TextContent (pre @ last (station_health_lines example_env ''WXM1''
                    (example_latest (fl (8 / 10)) 5 2)))]"
    using station_health_assessment [where d = "example_latest (fl (8 / 10)) 5 2"
      and env = example_env and sid = "''WXM1''" and cfg = example_config
      and fetch = "answering (example_latest (fl (8 / 10)) 5 2)"]
    by (simp add: Let_def request_answering)
  show ?thesis
    using a b c d e [unfolded a] by (intro conjI)
qed

lemma Max_insert_max:
  "finite S \<Longrightarrow> Max (insert (max h x) S) = Max (insert h (insert x S))" for h :: rat
  by (cases "S = {}") (simp_all add: max.assoc)

lemma Min_insert_min:
  "finite S \<Longrightarrow> Min (insert (min l x) S) = Min (insert l (insert x S))" for l :: rat
  by (cases "S = {}") (simp_all add: min.assoc)

lemma Math_max_from:
  "foldl (\<lambda>highest n. case highest of
                         NegInfinity \<Rightarrow> Fin n
                       | Fin h \<Rightarrow> if n > h then Fin n else Fin h
                       | other \<Rightarrow> other) (Fin h) xs = Fin (Max (insert h (set xs)))"
  (is "foldl ?step (Fin h) xs = _")
proof (induction xs arbitrary: h)
  case Nil
  then show ?case by simp
next
  case (Cons x xs)
  have "foldl ?step (Fin h) (x # xs) = foldl ?step (Fin (max h x)) xs"
    by (auto simp: max_def)
  also have "\<dots> = Fin (Max (insert (max h x) (set xs)))"
    by (rule Cons.IH)
  also have "\<dots> = Fin (Max (insert h (set (x # xs))))"
    by (simp only: Max_insert_max [OF finite_set] list.set)
  finally show ?case .
qed

lemma Math_max_Max: "xs \<noteq> [] \<Longrightarrow> Math_max xs = Fin (Max (set xs))"
proof (cases xs)
  case Nil
  assume "xs \<noteq> []"
  with Nil show ?thesis by simp
next
  case (Cons y ys)
  have "Math_max (y # ys) = Fin (Max (insert y (set ys)))"
    unfolding Math_max_def using Math_max_from [of y ys] by simp
  with Cons show ?thesis by simp
qed

lemma Math_min_from:
  "foldl (\<lambda>lowest n. case lowest of
                        PosInfinity \<Rightarrow> Fin n
                      | Fin l \<Rightarrow> if n < l then Fin n else Fin l
                      | other \<Rightarrow> other) (Fin l) xs = Fin (Min (insert l (set xs)))"
  (is "foldl ?step (Fin l) xs = _")
proof (induction xs arbitrary: l)
  case Nil
  then show ?case by simp
next
  case (Cons x xs)
  have "foldl ?step (Fin l) (x # xs) = foldl ?step (Fin (min l x)) xs"
    by (auto simp: min_def)
  also have "\<dots> = Fin (Min (insert (min l x) (set xs)))"
    by (rule Cons.IH)
  also have "\<dots> = Fin (Min (insert l (set (x # xs))))"
    by (simp only: Min_insert_min [OF finite_set] list.set)
  finally show ?case .
qed

lemma Math_min_Min: "xs \<noteq> [] \<Longrightarrow> Math_min xs = Fin (Min (set xs))"
proof (cases xs)
  case Nil
  assume "xs \<noteq> []"
  with Nil show ?thesis by simp
next
  case (Cons y ys)
  have "Math_min (y # ys) = Fin (Min (insert y (set ys)))"
    unfolding Math_min_def using Math_min_from [of y ys] by simp
  with Cons show ?thesis by simp
qed

lemma slice_from_last10: "slice_from (- 10) xs = drop (length xs - 10) xs"
proof -
  have "nat (max (int (length xs) + - 10) 0) = length xs - 10" by auto
  then show ?thesis by (simp add: slice_from_def Let_def)
qed

lemma fsum_exact:
  "(\<forall>k \<le> length xs. fl (sum_list (take k xs)) = sum_list (take k xs))
     \<Longrightarrow> foldl (\<lambda>a b. fadd a b) 0 xs = sum_list xs"
proof (induction xs rule: rev_induct)
  case Nil
  then show ?case by simp
next
  case (snoc x xs)
  have "\<forall>k \<le> length xs. fl (sum_list (take k xs)) = sum_list (take k xs)"
  proof (intro allI impI)
    fix k assume "k \<le> length xs"
    then show "fl (sum_list (take k xs)) = sum_list (take k xs)"
      using snoc.prems [rule_format, of k] by simp
  qed
  then have "foldl (\<lambda>a b. fadd a b) 0 xs = sum_list xs" by (rule snoc.IH)
  moreover have "fl (sum_list xs + x) = sum_list xs + x"
    using snoc.prems [rule_format, of "Suc (length xs)"] by simp
  ultimately show ?case by (simp add: fadd_def)
qed

text \<open>
  Claim C7. For a dataset that is not empty, the summary lines print the least and the
  greatest temperature of all points, the mean temperature (the left-to-right sum divided
  by the number of points, in double arithmetic) and the sum of the accumulated
  precipitation; the lines after the \<open>Recent Observations\<close> heading are those of the
  last \<open>min N 10\<close> points, in the order of the array. Where no partial sum is rounded,
  the left-to-right sum is the exact sum (\<open>fsum_exact\<close>).
\<close>

theorem historical_weather_summary:
  "historicalData \<noteq> [] \<longrightarrow>
   (let temps = map HistoricalDataPoint.temperature historicalData;
        precs = map HistoricalDataPoint.precipitation_accumulated historicalData;
        N = length historicalData;
        ls = historical_weather_lines env sid sd ed historicalData
    in ls ! 4 = ''**Temperature Range:** '' @ formatTemperature env (Min (set temps)) @ '' to ''
                  @ formatTemperature env (Max (set temps)) @ ''\<newline>''
     \<and> ls ! 5 = ''**Average Temperature:** ''
                  @ formatTemperature env (fdiv (foldl (\<lambda>a b. fadd a b) 0 temps) (of_nat N)) @ ''\<newline>''
     \<and> ls ! 6 = ''**Total Precipitation:** ''
                  @ formatPrecipitation env (foldl (\<lambda>a b. fadd a b) 0 precs) @ ''\<newline>\<newline>''
     \<and> ls ! 7 = ''## Recent Observations\<newline>\<newline>''
     \<and> drop 8 ls = map (observation_line env) (drop (N - 10) historicalData)
     \<and> length (drop 8 ls) = min N 10
     \<and> ((\<forall>ep. weatherxmApiRequest fetch ep (apiKey cfg) = Inr d) \<and> data d = Present historicalData
          \<longrightarrow> get_historical_weather cfg env fetch sid sd ed = [TextContent (concat ls)]))"
proof
  assume ne: "historicalData \<noteq> []"
  let ?temps = "map HistoricalDataPoint.temperature historicalData"
  let ?precs = "map HistoricalDataPoint.precipitation_accumulated historicalData"
  have mx: "Math_max ?temps = Fin (Max (set ?temps))" and mn: "Math_min ?temps = Fin (Min (set ?temps))"
    using ne by (simp_all add: Math_max_Max Math_min_Min)
  have pf: "foldl (\<lambda>sum d. fadd sum (HistoricalDataPoint.precipitation_accumulated d)) 0 historicalData
              = foldl (\<lambda>a b. fadd a b) 0 ?precs"
    by (simp add: foldl_map)
  have ls: "historical_weather_lines env sid sd ed historicalData =
     [''# Historical Weather Data - '' @ sid @ ''\<newline>\<newline>'',
      ''Period: '' @ sd @ '' to '' @ ed @ ''\<newline>'',
      ''Data points: '' @ show_nat (length historicalData) @ ''\<newline>\<newline>'',
      ''## Summary Statistics\<newline>\<newline>'',
      ''**Temperature Range:** '' @ formatTemperature env (Min (set ?temps)) @ '' to ''
         @ formatTemperature env (Max (set ?temps)) @ ''\<newline>'',
      ''**Average Temperature:** ''
         @ formatTemperature env (fdiv (foldl (\<lambda>a b. fadd a b) 0 ?temps) (of_nat (length historicalData)))
         @ ''\<newline>'',
      ''**Total Precipitation:** ''
         @ formatPrecipitation env (foldl (\<lambda>a b. fadd a b) 0 ?precs) @ ''\<newline>\<newline>'',
      ''## Recent Observations\<newline>\<newline>'']
     @ map (observation_line env) (drop (length historicalData - 10) historicalData)"
    using ne
    by (simp add: historical_weather_lines_def Let_def mx mn pf slice_from_last10
        formatTemperatureX_def)
  have h: "get_historical_weather cfg env fetch sid sd ed
             = [TextContent (concat (historical_weather_lines env sid sd ed historicalData))]"
    if "\<forall>ep. weatherxmApiRequest fetch ep (apiKey cfg) = Inr d" and "data d = Present historicalData"
    using that ne by (simp add: get_historical_weather_def or_empty_def Let_def)
  show "let temps = ?temps; precs = ?precs; N = length historicalData;
            ls = historical_weather_lines env sid sd ed historicalData
        in ls ! 4 = ''**Temperature Range:** '' @ formatTemperature env (Min (set temps)) @ '' to ''
                  @ formatTemperature env (Max (set temps)) @ ''\<newline>''
     \<and> ls ! 5 = ''**Average Temperature:** ''
                  @ formatTemperature env (fdiv (foldl (\<lambda>a b. fadd a b) 0 temps) (of_nat N)) @ ''\<newline>''
     \<and> ls ! 6 = ''**Total Precipitation:** ''
                  @ formatPrecipitation env (foldl (\<lambda>a b. fadd a b) 0 precs) @ ''\<newline>\<newline>''
     \<and> ls ! 7 = ''## Recent Observations\<newline>\<newline>''
     \<and> drop 8 ls = map (observation_line env) (drop (N - 10) historicalData)
     \<and> length (drop 8 ls) = min N 10
     \<and> ((\<forall>ep. weatherxmApiRequest fetch ep (apiKey cfg) = Inr d) \<and> data d = Present historicalData
          \<longrightarrow> get_historical_weather cfg env fetch sid sd ed = [TextContent (concat ls)])"
    unfolding Let_def
    using h by (simp add: ls min_def)
qed

theorem historical_weather_summary_witness:
  "example_history \<noteq> []
   \<and> historical_weather_lines example_env ''WXM1'' ''2024-01-01'' ''2024-01-07'' example_history ! 4
       = ''**Temperature Range:** '' @ formatTemperature example_env 0 @ '' to ''
           @ formatTemperature example_env 11 @ ''\<newline>''
   \<and> length (drop 8 (historical_weather_lines example_env ''WXM1'' ''2024-01-01'' ''2024-01-07''
                        example_history)) = 10
   \<and> drop 8 (historical_weather_lines example_env ''WXM1'' ''2024-01-01'' ''2024-01-07'' example_history)
       = map (observation_line example_env) (map example_point [2, 3, 4, 5, 6, 7, 8, 9, 10, 11])
   \<and> get_historical_weather example_config example_env
        (answering \<lparr>data = Present example_history\<rparr>) ''WXM1'' ''2024-01-01'' ''2024-01-07''
       = [TextContent (concat (historical_weather_lines example_env ''WXM1'' ''2024-01-01''
                                 ''2024-01-07'' example_history))]"
proof -
  have t: "map HistoricalDataPoint.temperature example_history = [0, 1, 2, 3, 4, 5, 6, 7, 8, 9, 10, 11]"
    by (simp add: example_history_def example_point_def)
  have n: "example_history \<noteq> []" "length example_history = 12"
    "drop 2 example_history = map example_point [2, 3, 4, 5, 6, 7, 8, 9, 10, 11]"
    by (simp_all add: example_history_def)
  show ?thesis
    using historical_weather_summary [where historicalData = example_history
        and env = example_env and sid = "''WXM1''" and sd = "''2024-01-01''" and ed = "''2024-01-07''"
        and cfg = example_config and fetch = "answering \<lparr>data = Present example_history\<rparr>"
        and d = "\<lparr>data = Present example_history\<rparr>"]
    by (simp add: Let_def t n request_answering)
qed

text \<open>
  Claim C8. The current-weather text has a wind-gust line exactly when the gust is greater
  than the wind speed, and a UV-index, solar-irradiance, precipitation-rate or
  precipitation-accumulated line exactly when that value is greater than zero: no line of
  the output starts with the label otherwise, and the line with the formatted value is
  there when the condition holds.
\<close>

theorem current_weather_optional_lines:
  "(let ls = current_weather_lines env sid d; obs = observation d
    in ((\<exists>l \<in> set ls. prefix ''**Wind Gust:**'' l) = (Observation.wind_gust obs > Observation.wind_speed obs))
     \<and> ((\<exists>l \<in> set ls. prefix ''**UV Index:**'' l) = (Observation.uv_index obs > 0))
     \<and> ((\<exists>l \<in> set ls. prefix ''**Solar Irradiance:**'' l) = (Observation.solar_irradiance obs > 0))
     \<and> ((\<exists>l \<in> set ls. prefix ''**Precipitation Rate:**'' l) = (Observation.precipitation_rate obs > 0))
     \<and> ((\<exists>l \<in> set ls. prefix ''**Precipitation Accumulated:**'' l)
           = (Observation.precipitation_accumulated obs > 0))
     \<and> ((''**Wind Gust:** '' @ formatWindSpeed env (Observation.wind_gust obs) @ ''\<newline>'' \<in> set ls)
           = (Observation.wind_gust obs > Observation.wind_speed obs))
     \<and> ((''**UV Index:** '' @ toFixed env 1 (Observation.uv_index obs) @ ''\<newline>'' \<in> set ls)
           = (Observation.uv_index obs > 0))
     \<and> ((''**Solar Irradiance:** '' @ toFixed env 0 (Observation.solar_irradiance obs)
            @ '' W/m'' @ [CHR 0xB2] @ ''\<newline>'' \<in> set ls)
           = (Observation.solar_irradiance obs > 0))
     \<and> ((''**Precipitation Rate:** '' @ formatPrecipitation env (Observation.precipitation_rate obs)
            @ ''/hr\<newline>'' \<in> set ls)
           = (Observation.precipitation_rate obs > 0))
     \<and> ((''**Precipitation Accumulated:** ''
            @ formatPrecipitation env (Observation.precipitation_accumulated obs) @ ''\<newline>'' \<in> set ls)
           = (Observation.precipitation_accumulated obs > 0))
     \<and> ((\<forall>ep. weatherxmApiRequest fetch ep (apiKey cfg) = Inr d)
          \<longrightarrow> get_current_weather cfg env fetch sid = [TextContent (concat ls)]))"
  unfolding Let_def current_weather_lines_def
  by (auto simp: get_current_weather_def current_weather_lines_def Let_def)

theorem current_weather_optional_lines_witness:
  "(\<exists>l \<in> set (current_weather_lines example_env ''WXM1'' (example_latest 1 5 2)). prefix ''**Wind Gust:**'' l)
   \<and> (\<exists>l \<in> set (current_weather_lines example_env ''WXM1'' (example_latest 1 5 2)). prefix ''**UV Index:**'' l)
   \<and> (\<exists>l \<in> set (current_weather_lines example_env ''WXM1'' (example_latest 1 5 2)).
         prefix ''**Solar Irradiance:**'' l)
   \<and> (\<exists>l \<in> set (current_weather_lines example_env ''WXM1'' (example_latest 1 5 2)).
         prefix ''**Precipitation Rate:**'' l)
   \<and> (\<exists>l \<in> set (current_weather_lines example_env ''WXM1'' (example_latest 1 5 2)).
         prefix ''**Precipitation Accumulated:**'' l)
   \<and> \<not> (\<exists>l \<in> set (current_weather_lines example_env ''WXM1'' (example_latest 1 3 0)).
         prefix ''**Wind Gust:**'' l)
   \<and> \<not> (\<exists>l \<in> set (current_weather_lines example_env ''WXM1'' (example_latest 1 3 0)).
         prefix ''**UV Index:**'' l)
   \<and> \<not> (\<exists>l \<in> set (current_weather_lines example_env ''WXM1'' (example_latest 1 3 0)).
         prefix ''**Solar Irradiance:**'' l)
   \<and> \<not> (\<exists>l \<in> set (current_weather_lines example_env ''WXM1'' (example_latest 1 3 0)).
         prefix ''**Precipitation Rate:**'' l)
   \<and> \<not> (\<exists>l \<in> set (current_weather_lines example_env ''WXM1'' (example_latest 1 3 0)).
         prefix ''**Precipitation Accumulated:**'' l)
   \<and> get_current_weather example_config example_env (answering (example_latest 1 5 2)) ''WXM1''
       = [TextContent (concat (current_weather_lines example_env ''WXM1'' (example_latest 1 5 2)))]"
proof -
  have o: "observation (example_latest q g p) = example_observation g p" for q g p
    by (simp add: example_latest_def)
  have v: "Observation.wind_gust (example_observation g p) = g"
    "Observation.wind_speed (example_observation g p) = 3"
    "Observation.uv_index (example_observation g p) = p"
    "Observation.solar_irradiance (example_observation g p) = p"
    "Observation.precipitation_rate (example_observation g p) = p"
    "Observation.precipitation_accumulated (example_observation g p) = p" for g p
    by (simp_all add: example_observation_def)
  show ?thesis
    using current_weather_optional_lines [where d = "example_latest 1 5 2" and env = example_env
        and sid = "''WXM1''" and cfg = example_config and fetch = "answering (example_latest 1 5 2)"]
      current_weather_optional_lines [where d = "example_latest 1 3 0" and env = example_env
        and sid = "''WXM1''"]
    by (simp add: Let_def o v request_answering)
qed

section \<open>Properties of the temperature format\<close>

text \<open>
  \<open>toFixed(1)\<close> on a magnitude below \<open>10^21\<close>: the sign, the tenths \<open>n\<close> nearest to the
  magnitude (so \<open>n / 10\<close> is within a twentieth of it), printed as the digits of
  \<open>n div 10\<close>, a point and the digit \<open>n mod 10\<close>.
\<close>

lemma show_nat_small: "n < 10 \<Longrightarrow> show_nat n = [''0123456789'' ! n]"
  by (subst show_nat.simps) simp

lemma show_nat_big: "10 \<le> n \<Longrightarrow> show_nat n = show_nat (n div 10) @ [''0123456789'' ! (n mod 10)]"
  by (subst show_nat.simps) simp

lemma show_nat_nonempty: "show_nat n \<noteq> []"
  by (subst show_nat.simps) simp

lemma toFixed_one_decimal:
  assumes "\<bar>x\<bar> < 10 ^ 21"
  shows "toFixed env 1 x =
           (if x < 0 then ''-'' else []) @ show_nat (nat \<lfloor>\<bar>x\<bar> * 10 + 1 / 2\<rfloor> div 10)
             @ ''.'' @ show_nat (nat \<lfloor>\<bar>x\<bar> * 10 + 1 / 2\<rfloor> mod 10)"
proof -
  define n where "n = nat \<lfloor>\<bar>x\<bar> * 10 + 1 / 2\<rfloor>"
  have t: "toFixed env 1 x =
             (if x < 0 then ''-'' else [])
             @ (let m = show_nat n; k = length m;
                    m = (if k \<le> 1 then replicate (1 + 1 - k) CHR ''0'' @ m else m);
                    k = length m
                in take (k - 1) m @ ''.'' @ drop (k - 1) m)"
    using assms unfolding toFixed_def n_def Let_def by simp
  have digits: "(let m = show_nat n; k = length m;
                     m = (if k \<le> 1 then replicate (1 + 1 - k) CHR ''0'' @ m else m);
                     k = length m
                 in take (k - 1) m @ ''.'' @ drop (k - 1) m)
                = show_nat (n div 10) @ ''.'' @ show_nat (n mod 10)"
  proof (cases "n < 10")
    case True
    then have "n div 10 = 0" "n mod 10 = n" by simp_all
    then show ?thesis
      using True by (simp add: show_nat_small Let_def)
  next
    case False
    then have b: "show_nat n = show_nat (n div 10) @ [''0123456789'' ! (n mod 10)]"
      by (simp add: show_nat_big)
    have l: "0 < length (show_nat (n div 10))"
      by (simp add: show_nat_nonempty)
    have m: "show_nat (n mod 10) = [''0123456789'' ! (n mod 10)]"
      by (simp add: show_nat_small)
    show ?thesis
      using l by (simp add: b m Let_def)
  qed
  have "toFixed env 1 x =
          (if x < 0 then ''-'' else []) @ show_nat (n div 10) @ ''.'' @ show_nat (n mod 10)"
    by (simp only: t digits)
  then show ?thesis
    unfolding n_def .
qed

lemma nearest_tenth:
  "\<bar>of_nat (nat \<lfloor>\<bar>x\<bar> * 10 + 1 / 2\<rfloor>) / 10 - \<bar>x\<bar>\<bar> \<le> 1 / 20" for x :: rat
proof -
  define a where "a = \<bar>x\<bar>"
  define z :: rat where "z = of_int \<lfloor>a * 10 + 1 / 2\<rfloor>"
  have "0 \<le> a" by (simp add: a_def)
  then have "0 \<le> \<lfloor>a * 10 + 1 / 2\<rfloor>" by (simp add: le_floor_iff)
  then have n: "(of_nat (nat \<lfloor>a * 10 + 1 / 2\<rfloor>) :: rat) = z" by (simp add: z_def)
  have "z \<le> a * 10 + 1 / 2" and "a * 10 + 1 / 2 < z + 1"
    unfolding z_def by linarith+
  then have "\<bar>z / 10 - a\<bar> \<le> 1 / 20" by linarith
  then show ?thesis
    using n by (simp add: a_def)
qed

text \<open>
  Claim C4. The text is the Fahrenheit value \<open>(c * 9) / 5 + 32\<close>, computed in double
  arithmetic and printed by \<open>toFixed(1)\<close>, the degree sign and \<open>F (\<close>, then the Celsius
  input printed by \<open>toFixed(1)\<close>, the degree sign and \<open>C)\<close>; so it contains
  \<open>c.toFixed(1)\<close> followed by the degree sign and \<open>C\<close>. What \<open>toFixed(1)\<close> prints is
  the number rounded to one decimal.
\<close>

theorem formatTemperature_shape:
  "formatTemperature env c =
     toFixed env 1 (fadd (fdiv (fmul c 9) 5) 32) @ [CHR 0xB0] @ ''F (''
       @ toFixed env 1 c @ [CHR 0xB0] @ ''C)''
   \<and> sublist (toFixed env 1 c @ [CHR 0xB0] @ ''C'') (formatTemperature env c)
   \<and> (\<bar>x\<bar> < 10 ^ 21 \<longrightarrow>
        (\<exists>n. n = nat \<lfloor>\<bar>x\<bar> * 10 + 1 / 2\<rfloor>
            \<and> \<bar>of_nat n / 10 - \<bar>x\<bar>\<bar> \<le> 1 / 20
            \<and> toFixed env 1 x =
                (if x < 0 then ''-'' else []) @ show_nat (n div 10) @ ''.'' @ show_nat (n mod 10)))"
proof (intro conjI impI)
  show f: "formatTemperature env c =
     toFixed env 1 (fadd (fdiv (fmul c 9) 5) 32) @ [CHR 0xB0] @ ''F (''
       @ toFixed env 1 c @ [CHR 0xB0] @ ''C)''"
    by (simp add: formatTemperature_def Let_def)
  have "formatTemperature env c =
     (toFixed env 1 (fadd (fdiv (fmul c 9) 5) 32) @ [CHR 0xB0] @ ''F ('')
       @ (toFixed env 1 c @ [CHR 0xB0] @ ''C'') @ '')''"
    by (simp add: f)
  then show "sublist (toFixed env 1 c @ [CHR 0xB0] @ ''C'') (formatTemperature env c)"
    by (simp only: sublist_appendI)
next
  assume "\<bar>x\<bar> < 10 ^ 21"
  then show "\<exists>n. n = nat \<lfloor>\<bar>x\<bar> * 10 + 1 / 2\<rfloor>
            \<and> \<bar>of_nat n / 10 - \<bar>x\<bar>\<bar> \<le> 1 / 20
            \<and> toFixed env 1 x =
                (if x < 0 then ''-'' else []) @ show_nat (n div 10) @ ''.'' @ show_nat (n mod 10)"
    using toFixed_one_decimal [of x env] nearest_tenth [of x] by simp
qed

theorem formatTemperature_shape_witness:
  "\<bar>20 :: rat\<bar> < 10 ^ 21
   \<and> toFixed example_env 1 20 = ''20.0''
   \<and> formatTemperature example_env 20
       = ''68.0'' @ [CHR 0xB0] @ ''F ('' @ ''20.0'' @ [CHR 0xB0] @ ''C)''
   \<and> sublist (''20.0'' @ [CHR 0xB0] @ ''C'') (formatTemperature example_env 20)"
proof -
  have t: "fadd (fdiv (fmul 20 9) 5) 32 = 68" by code_simp
  have f: "toFixed example_env 1 68 = ''68.0''" "toFixed example_env 1 20 = ''20.0''"
    by code_simp+
  note th = formatTemperature_shape [of example_env 20 20]
  have a: "formatTemperature example_env 20
       = ''68.0'' @ [CHR 0xB0] @ ''F ('' @ ''20.0'' @ [CHR 0xB0] @ ''C)''"
    using th [THEN conjunct1] unfolding t f .
  have b: "sublist (''20.0'' @ [CHR 0xB0] @ ''C'') (formatTemperature example_env 20)"
    using th [THEN conjunct2, THEN conjunct1] unfolding f .
  have c: "\<bar>20 :: rat\<bar> < 10 ^ 21" by simp
  from c f(2) a b show ?thesis by (intro conjI)
qed

section \<open>Properties of the rounding and of the wind direction\<close>

text \<open>
  The rounding \<open>fl\<close> never crosses a point of its own grid: for a number between 0 and
  1024 the spacing of the doubles is at most \<open>2^-43\<close>, so every multiple of \<open>1/128\<close>
  is a double there, and rounding keeps a number on its side of such a multiple. Below 32
  the rounding moves a number by at most \<open>2^-49\<close>, and a double between 256 and 1024 is a
  multiple of \<open>2^-44\<close>.
\<close>

text \<open>The rounding at some known doubles: 0.1, 25.4, and two ties above \<open>2^53\<close>.\<close>

lemma fl_examples:
  "fl (1 / 10) = 3602879701896397 / 36028797018963968"
  "fl (254 / 10) = 3574732204225331 / 140737488355328"
  "fl (2 ^ 53 + 1) = 2 ^ 53"
  "fl (2 ^ 53 + 3) = 2 ^ 53 + 4"
  "fl (- (2 ^ 53 + 3)) = - (2 ^ 53 + 4)"
  by code_simp+

lemma ilog2_lower:
  assumes "0 < x"
  shows "2 powi (ilog2 x) \<le> x"
proof -
  obtain p q where pq: "quotient_of x = (p, q)" by force
  then have q: "0 < q" and x: "x = of_int p / of_int q"
    by (simp_all add: quotient_of_denom_pos quotient_of_div)
  from assms x q have p: "0 < p"
    by (simp add: zero_less_divide_iff)
  let ?e = "bitlen p - bitlen q"
  show ?thesis
  proof (cases "2 powi ?e \<le> x")
    case True
    then show ?thesis by (simp add: ilog2_def pq Let_def)
  next
    case False
    have bp: "2 ^ nat (bitlen p - 1) \<le> p" and bq: "q < 2 ^ nat (bitlen q)"
      using bitlen_bounds [OF p] bitlen_bounds [OF q] by simp_all
    have p1: "1 \<le> bitlen p" and q1: "1 \<le> bitlen q"
      using p q by (simp_all add: bitlen_alt_def)
    have "(2::rat) powi (?e - 1) = 2 powi (bitlen p - 1) / 2 powi (bitlen q)"
      using power_int_diff [of "2::rat" "bitlen p - 1" "bitlen q"] by (simp add: algebra_simps)
    also have "\<dots> = 2 ^ nat (bitlen p - 1) / 2 ^ nat (bitlen q)"
      using p1 q1 by (simp add: power_int_nonneg_exp)
    also have "\<dots> \<le> of_int p / of_int q"
    proof (rule frac_le)
      show "(0::rat) \<le> of_int p" using p by simp
      have "(of_int (2 ^ nat (bitlen p - 1)) :: rat) \<le> of_int p"
        using bp by (simp only: of_int_le_iff)
      then show "(2::rat) ^ nat (bitlen p - 1) \<le> of_int p" by simp
      show "(0::rat) < of_int q" using q by simp
      have "(of_int q :: rat) \<le> of_int (2 ^ nat (bitlen q))"
        using bq by (simp only: of_int_le_iff less_imp_le)
      then show "(of_int q :: rat) \<le> 2 ^ nat (bitlen q)" by simp
    qed
    finally have "2 powi (?e - 1) \<le> x" using x by simp
    with False show ?thesis by (simp add: ilog2_def pq Let_def)
  qed
qed

lemma ilog2_less:
  assumes "0 < x" and "x < 2 powi k"
  shows "ilog2 x < k"
proof (rule ccontr)
  assume "\<not> ilog2 x < k"
  then have "k \<le> ilog2 x" by simp
  then have "(2::rat) powi k \<le> 2 powi (ilog2 x)"
    by (intro power_int_increasing) simp_all
  with ilog2_lower [OF assms(1)] assms(2) show False by simp
qed

lemma round_half_even_ge: "of_int M \<le> q \<Longrightarrow> M \<le> round_half_even q"
proof -
  assume "of_int M \<le> q"
  then have "M \<le> \<lfloor>q\<rfloor>" by (simp add: le_floor_iff)
  then show ?thesis by (simp add: round_half_even_def Let_def)
qed

lemma round_half_even_le: "q \<le> of_int M \<Longrightarrow> round_half_even q \<le> M"
proof -
  assume h: "q \<le> of_int M"
  then have "\<lfloor>q\<rfloor> \<le> \<lfloor>of_int M :: rat\<rfloor>" by (rule floor_mono)
  then have f: "\<lfloor>q\<rfloor> \<le> M" by simp
  show ?thesis
  proof (cases "\<lfloor>q\<rfloor> = M")
    case True
    with h have "q - of_int \<lfloor>q\<rfloor> \<le> 0" by simp
    then have "q - of_int \<lfloor>q\<rfloor> < 1 / 2" by linarith
    with True show ?thesis by (simp add: round_half_even_def Let_def)
  next
    case False
    with f have "\<lfloor>q\<rfloor> + 1 \<le> M" by simp
    then show ?thesis by (simp add: round_half_even_def Let_def)
  qed
qed

lemma fl_grid:
  assumes "0 < x" and "x < 1024"
  shows "(of_int m / 128 \<le> x \<longrightarrow> of_int m / 128 \<le> fl x)
       \<and> (x \<le> of_int m / 128 \<longrightarrow> fl x \<le> of_int m / 128)"
proof -
  define e where "e = max (ilog2 x) (- 1022)"
  define u :: rat where "u = 2 powi (e - 52)"
  define n where "n = round_half_even (x / u)"
  have "x < 2 powi 10" using assms(2) by simp
  then have "ilog2 x < 10" by (rule ilog2_less [OF assms(1)])
  then have e: "e \<le> 9" by (simp add: e_def)
  have u: "0 < u" by (simp add: u_def)
  have fl: "fl x = of_int n * u"
    using assms(1) by (simp add: fl_def Let_def e_def u_def n_def)
  define M where "M = m * 2 ^ nat (45 - e)"
  have "(2::rat) powi (45 - e) * 2 powi (e - 52) = 2 powi ((45 - e) + (e - 52))"
    by (rule power_int_add [symmetric]) simp
  then have "(2::rat) powi (45 - e) * u = 1 / 128"
    by (simp add: u_def)
  moreover have "(2::rat) powi (45 - e) = 2 ^ nat (45 - e)"
    using e by (simp add: power_int_nonneg_exp)
  ultimately have "(2::rat) ^ nat (45 - e) * u = 1 / 128" by simp
  then have r: "of_int M * u = of_int m / 128"
    by (simp add: M_def mult.assoc)
  have 1: "of_int m / 128 \<le> fl x" if "of_int m / 128 \<le> x"
  proof -
    from that r have "of_int M * u \<le> x" by simp
    then have "of_int M \<le> x / u" using u by (simp add: pos_le_divide_eq)
    then have "M \<le> n" unfolding n_def by (rule round_half_even_ge)
    then have "(of_int M :: rat) \<le> of_int n" by simp
    then have "of_int M * u \<le> of_int n * u" using u by (simp add: mult_right_mono)
    with r fl show ?thesis by simp
  qed
  have 2: "fl x \<le> of_int m / 128" if "x \<le> of_int m / 128"
  proof -
    from that r have "x \<le> of_int M * u" by simp
    then have "x / u \<le> of_int M" using u by (simp add: pos_divide_le_eq)
    then have "n \<le> M" unfolding n_def by (rule round_half_even_le)
    then have "(of_int n :: rat) \<le> of_int M" by simp
    then have "of_int n * u \<le> of_int M * u" using u by (simp add: mult_right_mono)
    with r fl show ?thesis by simp
  qed
  from 1 2 show ?thesis by blast
qed

lemma fl_grid0:
  assumes "0 \<le> x" and "x < 1024"
  shows "(of_int m / 128 \<le> x \<longrightarrow> of_int m / 128 \<le> fl x)
       \<and> (x \<le> of_int m / 128 \<longrightarrow> fl x \<le> of_int m / 128)"
proof (cases "x = 0")
  case True
  then show ?thesis by (simp add: fl_def)
next
  case False
  with assms(1) have "0 < x" by simp
  then show ?thesis using assms(2) by (rule fl_grid)
qed

lemma fl_int:
  assumes "0 \<le> n" and "n < 1024"
  shows "fl (of_int n) = of_int n"
proof -
  have r: "(of_int (128 * n) :: rat) / 128 = of_int n" by simp
  have x: "(0::rat) \<le> of_int n" "(of_int n :: rat) < 1024" using assms by simp_all
  from fl_grid0 [OF x, of "128 * n"] show ?thesis
    unfolding r by simp
qed

lemma ilog2_upper:
  assumes "0 < x"
  shows "x < 2 powi (ilog2 x + 1)"
proof -
  obtain p q where pq: "quotient_of x = (p, q)" by force
  then have q: "0 < q" and x: "x = of_int p / of_int q"
    by (simp_all add: quotient_of_denom_pos quotient_of_div)
  from assms x q have p: "0 < p"
    by (simp add: zero_less_divide_iff)
  let ?e = "bitlen p - bitlen q"
  show ?thesis
  proof (cases "2 powi ?e \<le> x")
    case False
    then show ?thesis by (simp add: ilog2_def pq Let_def)
  next
    case True
    have bp: "p < 2 ^ nat (bitlen p)" and bq: "2 ^ nat (bitlen q - 1) \<le> q"
      using bitlen_bounds [OF p] bitlen_bounds [OF q] by simp_all
    have p1: "1 \<le> bitlen p" and q1: "1 \<le> bitlen q"
      using p q by (simp_all add: bitlen_alt_def)
    have "of_int p / of_int q < (2::rat) ^ nat (bitlen p) / 2 ^ nat (bitlen q - 1)"
    proof (rule frac_less)
      show "(0::rat) \<le> of_int p" using p by simp
      have "(of_int p :: rat) < of_int (2 ^ nat (bitlen p))"
        using bp by (simp only: of_int_less_iff)
      then show "(of_int p :: rat) < 2 ^ nat (bitlen p)" by simp
      show "(0::rat) < 2 ^ nat (bitlen q - 1)" by simp
      have "(of_int (2 ^ nat (bitlen q - 1)) :: rat) \<le> of_int q"
        using bq by (simp only: of_int_le_iff)
      then show "(2::rat) ^ nat (bitlen q - 1) \<le> of_int q" by simp
    qed
    also have "\<dots> = 2 powi (bitlen p) / 2 powi (bitlen q - 1)"
      using p1 q1 by (simp add: power_int_nonneg_exp)
    also have "\<dots> = 2 powi (?e + 1)"
      using power_int_diff [of "2::rat" "bitlen p" "bitlen q - 1"] by (simp add: algebra_simps)
    finally have "x < 2 powi (?e + 1)" using x by simp
    with True show ?thesis by (simp add: ilog2_def pq Let_def)
  qed
qed

lemma round_half_even_upper: "of_int (round_half_even q) \<le> q + 1 / 2"
proof (cases "q - of_int \<lfloor>q\<rfloor> < 1 / 2")
  case True
  have "of_int \<lfloor>q\<rfloor> \<le> q" by simp
  then have "of_int \<lfloor>q\<rfloor> \<le> q + 1 / 2" by linarith
  with True show ?thesis by (simp add: round_half_even_def Let_def)
next
  case False
  then have "of_int \<lfloor>q\<rfloor> + 1 \<le> q + 1 / 2" by linarith
  moreover have "of_int \<lfloor>q\<rfloor> \<le> q + 1 / 2"
    using of_int_floor_le [of q] by linarith
  ultimately show ?thesis
    using False by (simp add: round_half_even_def Let_def)
qed

lemma fl_upper_32:
  assumes "0 < x" and "x < 32"
  shows "fl x \<le> x + 1 / 2 ^ 49"
proof -
  define e where "e = max (ilog2 x) (- 1022)"
  define u :: rat where "u = 2 powi (e - 52)"
  define n where "n = round_half_even (x / u)"
  have "x < 2 powi 5" using assms(2) by simp
  then have "ilog2 x < 5" by (rule ilog2_less [OF assms(1)])
  then have e: "e \<le> 4" by (simp add: e_def)
  have u: "0 < u" by (simp add: u_def)
  have "u \<le> 2 powi (- 48)"
    unfolding u_def using e by (intro power_int_increasing) simp_all
  then have u48: "u \<le> 1 / 2 ^ 48" by (simp add: power_int_minus_divide)
  have fl: "fl x = of_int n * u"
    using assms(1) by (simp add: fl_def Let_def e_def u_def n_def)
  have "of_int n \<le> x / u + 1 / 2"
    unfolding n_def by (rule round_half_even_upper)
  then have "of_int n * u \<le> (x / u + 1 / 2) * u"
    using u by (simp add: mult_right_mono)
  also have "\<dots> = x + u / 2"
    using u by (simp add: field_simps)
  also have "\<dots> \<le> x + 1 / 2 ^ 49"
    using u48 by simp
  finally show ?thesis by (simp add: fl)
qed

lemma exact_sum_grid:
  assumes "256 \<le> z" and "z < 1024" and "fl z = z"
  shows "\<exists>m. z = of_int m / 2 ^ 44"
proof -
  have z: "0 < z" using assms(1) by simp
  define e where "e = max (ilog2 z) (- 1022)"
  define u :: rat where "u = 2 powi (e - 52)"
  define n where "n = round_half_even (z / u)"
  have "8 \<le> ilog2 z"
  proof (rule ccontr)
    assume "\<not> 8 \<le> ilog2 z"
    then have "ilog2 z + 1 \<le> 8" by simp
    then have "(2::rat) powi (ilog2 z + 1) \<le> 2 powi 8"
      by (intro power_int_increasing) simp_all
    with ilog2_upper [OF z] assms(1) show False by simp
  qed
  then have e8: "8 \<le> e" by (simp add: e_def)
  have fl: "fl z = of_int n * u"
    using z by (simp add: fl_def Let_def e_def u_def n_def)
  have "u = 2 powi (e - 8) * 2 powi (- 44)"
    unfolding u_def using power_int_add [of "2::rat" "e - 8" "- 44"] by simp
  also have "(2::rat) powi (e - 8) = 2 ^ nat (e - 8)"
    using e8 by (simp add: power_int_nonneg_exp)
  finally have "u = of_int (2 ^ nat (e - 8)) / 2 ^ 44"
    by (simp add: power_int_minus_divide)
  then have "z = of_int (n * 2 ^ nat (e - 8)) / 2 ^ 44"
    using fl assms(3) by simp
  then show ?thesis ..
qed

lemma Math_round_fl_gap:
  assumes "0 \<le> x" and "x < 32"
    and "of_int k - 1 / 2 \<le> x" and "x + 1 / 2 ^ 49 < of_int k + 1 / 2"
  shows "Math_round (fl x) = k"
proof -
  have x: "x < 1024" using assms(2) by simp
  have lo: "(of_int (128 * k - 64) :: rat) / 128 = of_int k - 1 / 2"
    by (simp add: diff_divide_distrib)
  have "of_int k - 1 / 2 \<le> fl x"
    using fl_grid0 [OF assms(1) x, of "128 * k - 64"] assms(3) unfolding lo by simp
  moreover have "fl x \<le> x + 1 / 2 ^ 49"
  proof (cases "x = 0")
    case True
    then show ?thesis by (simp add: fl_def)
  next
    case False
    with assms(1) have "0 < x" by simp
    then show ?thesis using assms(2) by (rule fl_upper_32)
  qed
  ultimately have "of_int k \<le> fl x + 1 / 2" and "fl x + 1 / 2 < of_int k + 1"
    using assms(4) by linarith+
  then show ?thesis
    unfolding Math_round_def by (intro floor_unique) simp_all
qed

lemma exact_sum_round:
  assumes "0 \<le> d" and "d < 360" and "fadd d 360 = d + 360"
  shows "Math_round (fdiv (fadd d 360) (45 / 2)) = Math_round (fdiv d (45 / 2)) + 16"
proof -
  have "fl (d + 360) = d + 360" using assms(3) by (simp add: fadd_def)
  moreover have "256 \<le> d + 360" "d + 360 < 1024" using assms(1,2) by simp_all
  ultimately obtain m where m: "d + 360 = of_int m / 2 ^ 44"
    using exact_sum_grid by blast
  define j where "j = m - 360 * 2 ^ 44"
  have d: "d = of_int j / 2 ^ 44"
    using m by (simp add: j_def field_simps)
  define x where "x = d / (45 / 2)"
  define k where "k = \<lfloor>x + 1 / 2\<rfloor>"
  have x0: "0 \<le> x" "x < 16" using assms(1,2) by (simp_all add: x_def)
  have k1: "of_int k - 1 / 2 \<le> x" and k2: "x < of_int k + 1 / 2"
    unfolding k_def by linarith+
  have "of_int j / 2 ^ 44 < (of_int (90 * k + 45) :: rat) / 4"
    using k2 by (simp add: x_def d field_simps)
  then have "(of_int j :: rat) < of_int ((90 * k + 45) * 2 ^ 42)"
    by (simp add: field_simps)
  then have "j < (90 * k + 45) * 2 ^ 42"
    by (simp only: of_int_less_iff)
  then have "j + 1 \<le> (90 * k + 45) * 2 ^ 42" by simp
  then have "(of_int (j + 1) :: rat) \<le> of_int ((90 * k + 45) * 2 ^ 42)"
    by (simp only: of_int_le_iff)
  then have "d + 1 / 2 ^ 44 \<le> (of_int (90 * k + 45) :: rat) / 4"
    by (simp add: d field_simps)
  then have gap: "x + 2 / (45 * 2 ^ 44) \<le> of_int k + 1 / 2"
    by (simp add: x_def field_simps)
  have g: "(1::rat) / 2 ^ 49 < 2 / (45 * 2 ^ 44)" by simp
  have a: "Math_round (fl x) = k"
    using x0 k1 gap g by (intro Math_round_fl_gap) linarith+
  have y: "0 \<le> x + 16" "x + 16 < 32" "of_int (k + 16) - 1 / 2 \<le> x + 16"
    "x + 16 + 1 / 2 ^ 49 < of_int (k + 16) + 1 / 2"
    using x0 k1 gap g by auto
  have c: "Math_round (fl (x + 16)) = k + 16"
    using y by (rule Math_round_fl_gap)
  have s: "(d + 360) / (45 / 2) = x + 16"
    by (simp add: x_def field_simps)
  have "Math_round (fdiv (fadd d 360) (45 / 2)) = Math_round (fl (x + 16))"
    unfolding fdiv_def assms(3) s ..
  also have "\<dots> = Math_round (fl x) + 16"
    by (simp only: a c)
  finally show ?thesis
    unfolding fdiv_def x_def .
qed

lemma js_rem_nonneg: "0 \<le> a \<Longrightarrow> js_rem a 16 = a mod 16"
  by (cases "a = 0") (simp_all add: js_rem_def)

lemma wind_index_range:
  assumes "0 \<le> d" and "d < 360"
  shows "0 \<le> Math_round (fdiv d (45 / 2))" and "Math_round (fdiv d (45 / 2)) \<le> 16"
proof -
  let ?x = "d / (45 / 2)"
  have x: "0 \<le> ?x" "?x < 1024" and x16: "?x \<le> 16"
    using assms by simp_all
  have "0 \<le> fl ?x"
    using fl_grid0 [OF x, of 0] x(1) by simp
  moreover have "fl ?x \<le> 16"
    using fl_grid0 [OF x, of 2048] x16 by simp
  ultimately show "0 \<le> Math_round (fdiv d (45 / 2))" and "Math_round (fdiv d (45 / 2)) \<le> 16"
    unfolding Math_round_def fdiv_def by (simp_all add: le_floor_iff floor_le_iff)
qed

lemma below_sector_boundary:
  "fl (45 / 4 - 1 / 2 ^ 49) = 45 / 4 - 1 / 2 ^ 49"
  "fadd (45 / 4 - 1 / 2 ^ 49) 360 = 45 / 4 + 360"
  "getWindDirection (45 / 4 - 1 / 2 ^ 49) = Some ''N''"
  "getWindDirection (45 / 4 + 360) = Some ''NNE''"
  by code_simp+

text \<open>
  Claim C5, as the code has it. For every number of degrees from 0 up to 360 the result
  is one of the sixteen labels, the one at index \<open>round(d / 22.5) mod 16\<close> with the
  quotient rounded to a double. Whenever the sum \<open>d + 360\<close> is computed without rounding,
  as it is for every whole number of degrees, it gives the same label as \<open>d\<close>.
\<close>

theorem wind_direction_labels:
  "(0 \<le> d \<and> d < 360 \<longrightarrow>
      (\<exists>i. i = Math_round (fdiv d (45 / 2)) mod 16 \<and> 0 \<le> i \<and> i < 16
           \<and> getWindDirection d = Some (directions ! nat i)
           \<and> directions ! nat i \<in> set directions))
   \<and> (0 \<le> d \<and> d < 360 \<and> fadd d 360 = d + 360 \<longrightarrow>
        getWindDirection (fadd d 360) = getWindDirection d)
   \<and> (0 \<le> n \<and> n < 360 \<longrightarrow> fadd (of_int n) 360 = of_int n + 360)
   \<and> length directions = 16"
proof (intro conjI impI)
  assume d: "0 \<le> d \<and> d < 360"
  let ?a = "Math_round (fdiv d (45 / 2))"
  have a: "0 \<le> ?a" using d by (intro wind_index_range) simp_all
  have i: "0 \<le> ?a mod 16" "?a mod 16 < 16" by simp_all
  have "nat (?a mod 16) < length directions"
    using i by (simp add: directions_def)
  then have "directions ! nat (?a mod 16) \<in> set directions" by (rule nth_mem)
  moreover have "getWindDirection d = Some (directions ! nat (?a mod 16))"
    using i by (simp add: getWindDirection_def Let_def js_rem_nonneg [OF a])
  ultimately show "\<exists>i. i = ?a mod 16 \<and> 0 \<le> i \<and> i < 16
           \<and> getWindDirection d = Some (directions ! nat i)
           \<and> directions ! nat i \<in> set directions"
    using i by simp
next
  assume h: "0 \<le> d \<and> d < 360 \<and> fadd d 360 = d + 360"
  let ?a = "Math_round (fdiv d (45 / 2))"
  have a: "0 \<le> ?a" using h by (intro wind_index_range) simp_all
  then have a16: "0 \<le> ?a + 16" by simp
  have r: "Math_round (fdiv (fadd d 360) (45 / 2)) = ?a + 16"
    using h by (intro exact_sum_round) simp_all
  show "getWindDirection (fadd d 360) = getWindDirection d"
    unfolding getWindDirection_def r js_rem_nonneg [OF a] js_rem_nonneg [OF a16]
    by simp
next
  assume n: "0 \<le> n \<and> n < 360"
  have "fl (of_int (n + 360)) = of_int (n + 360)"
    using n by (intro fl_int) simp_all
  then show "fadd (of_int n) 360 = of_int n + 360"
    by (simp add: fadd_def)
next
  show "length directions = 16" by (simp add: directions_def)
qed

theorem wind_direction_labels_witness:
  "(0::rat) \<le> 90 \<and> (90::rat) < 360 \<and> (0::int) \<le> 90 \<and> (90::int) < 360
   \<and> fadd 90 360 = 90 + 360
   \<and> getWindDirection 90 = Some ''E'' \<and> getWindDirection (fadd 90 360) = Some ''E''"
proof -
  have r: "Math_round (fdiv 90 (45 / 2)) = 4" by code_simp
  have s: "fadd 90 360 = 90 + 360" by code_simp
  show ?thesis
    using wind_direction_labels [of 90 90] s by (auto simp: r directions_def)
qed

text \<open>
  Claim C5, as stated, fails: the double next below 11.25 lies in the range, and its
  label is N; adding 360 rounds the sum to 371.25, whose label is NNE.
\<close>

theorem wind_direction_not_periodic:
  "(0::rat) \<le> 45 / 4 - 1 / 2 ^ 49 \<and> (45 / 4 - 1 / 2 ^ 49 :: rat) < 360
   \<and> fl (45 / 4 - 1 / 2 ^ 49) = 45 / 4 - 1 / 2 ^ 49
   \<and> getWindDirection (45 / 4 - 1 / 2 ^ 49) = Some ''N''
   \<and> getWindDirection (fadd (45 / 4 - 1 / 2 ^ 49) 360) = Some ''NNE''"
proof -
  have "(0::rat) \<le> 45 / 4 - 1 / 2 ^ 49" and "(45 / 4 - 1 / 2 ^ 49 :: rat) < 360"
    by simp_all
  moreover have "getWindDirection (fadd (45 / 4 - 1 / 2 ^ 49) 360) = Some ''NNE''"
    by (simp only: below_sector_boundary(2) below_sector_boundary(4))
  ultimately show ?thesis
    using below_sector_boundary(1) below_sector_boundary(3) by blast
qed

section \<open>Properties of the time-ago helper\<close>

text \<open>
  Claim C10. A timestamp less than one minute before the clock's now, and any timestamp
  after it, gives \<open>just now\<close>; and no output of \<open>formatTimeAgo\<close> has a minus sign, so no
  minutes or hours figure is negative.
\<close>

theorem formatTimeAgo_just_now:
  "(\<forall>t. date_parse env ts = Some t \<and> now env - t < 60000
        \<longrightarrow> formatTimeAgo env ts = ''just now'')
   \<and> CHR ''-'' \<notin> set (formatTimeAgo env ts)"
proof
  show "\<forall>t. date_parse env ts = Some t \<and> now env - t < 60000
          \<longrightarrow> formatTimeAgo env ts = ''just now''"
  proof (intro allI impI)
    fix t
    assume h: "date_parse env ts = Some t \<and> now env - t < 60000"
    then have "(now env - t) div 60000 < 1" by linarith
    with h show "formatTimeAgo env ts = ''just now''"
      by (simp add: formatTimeAgo_def)
  qed
next
  show "CHR ''-'' \<notin> set (formatTimeAgo env ts)"
  proof (cases "date_parse env ts")
    case None
    then show ?thesis by (simp add: formatTimeAgo_def)
  next
    case (Some t)
    let ?m = "(now env - t) div 60000"
    show ?thesis
    proof (cases "?m < 1")
      case True
      with Some show ?thesis by (simp add: formatTimeAgo_def)
    next
      case False
      then have m: "0 \<le> ?m" and h: "0 \<le> ?m div 60" and r: "0 \<le> ?m mod 60"
        by simp_all
      show ?thesis
        using Some False show_int_no_minus [OF m] show_int_no_minus [OF h]
          show_int_no_minus [OF r]
        by (simp add: formatTimeAgo_def Let_def)
    qed
  qed
qed

theorem formatTimeAgo_just_now_witness:
  "date_parse \<lparr>now = 1000, date_parse = (\<lambda>s. Some 5000), locale_string = (\<lambda>t. []),
      timezone_offset = (\<lambda>t. t), number_repr = (\<lambda>x. []), encodeURIComponent = Inr\<rparr>
      ''2999-01-01T00:00:00Z'' = Some 5000
   \<and> (1000::int) - 5000 < 60000
   \<and> formatTimeAgo \<lparr>now = 1000, date_parse = (\<lambda>s. Some 5000), locale_string = (\<lambda>t. []),
      timezone_offset = (\<lambda>t. t), number_repr = (\<lambda>x. []), encodeURIComponent = Inr\<rparr>
      ''2999-01-01T00:00:00Z'' = ''just now''"
  using formatTimeAgo_just_now [of "\<lparr>now = 1000, date_parse = (\<lambda>s. Some 5000),
      locale_string = (\<lambda>t. []), timezone_offset = (\<lambda>t. t), number_repr = (\<lambda>x. []),
      encodeURIComponent = Inr\<rparr>" "''2999-01-01T00:00:00Z''"]
  by simp

end
